(* ===== verification/Prelude.thy ===== *)
theory Prelude
  imports Complex_Main "HOL-Library.Multiset" "HOL-Library.Sublist"
begin

text \<open>
  Shared vocabulary of the development.  JavaScript numbers are modelled exactly,
  as rationals (\<open>js_number\<close>); the array primitives the TypeScript sources use
  (\<open>findIndex\<close>, \<open>splice(i, 1)\<close>, \<open>unshift\<close>, \<open>slice(0, n)\<close>) are given as HOL
  functions with JavaScript's conventions (\<open>-1\<close> for "not found"), together with
  the lemmas that relate them to the list library.  The abstract "move to front,
  keep the first \<open>n\<close>" specification of a bounded recency list lives here too,
  because two components of the program (the reducer and the service) implement it
  separately.  The named collection \<open>js_array_simps\<close> gathers the rewrite rules
  for the primitives; component proofs use it with \<open>simp add:\<close>.
\<close>

named_theorems js_array_simps "rewrite rules for the modelled JavaScript array primitives"

type_synonym js_number = rat

subsection \<open>Array primitives\<close>

text \<open>\<open>Array.prototype.findIndex\<close>: the first index whose element satisfies the
  predicate, or \<open>-1\<close>.\<close>

fun js_find_index :: "('a \<Rightarrow> bool) \<Rightarrow> 'a list \<Rightarrow> int" where
  "js_find_index P [] = -1"
| "js_find_index P (x # xs) =
     (if P x then 0
      else (let i = js_find_index P xs in if i = -1 then -1 else i + 1))"

text \<open>\<open>xs.splice(i, 1)\<close> for an index in range: the element at \<open>i\<close> is removed.\<close>

definition js_splice1 :: "'a list \<Rightarrow> nat \<Rightarrow> 'a list" where
  "js_splice1 xs i = take i xs @ drop (Suc i) xs"

text \<open>The JavaScript idiom \<open>m || d\<close> on an optional message: an absent or empty
  message falls back to the default.\<close>

definition msg_or :: "string option \<Rightarrow> string \<Rightarrow> string" where
  "msg_or m d = (case m of None \<Rightarrow> d | Some s \<Rightarrow> (if s = [] then d else s))"

text \<open>Removing the first element that satisfies a predicate: the reference for
  "findIndex, then splice if found".\<close>

fun remove_first :: "('a \<Rightarrow> bool) \<Rightarrow> 'a list \<Rightarrow> 'a list" where
  "remove_first P [] = []"
| "remove_first P (x # xs) = (if P x then xs else x # remove_first P xs)"

text \<open>The recency-list algorithm as both components write it: look the key up,
  splice the old entry out if there is one, put the new entry in front, keep the
  first \<open>n\<close>.\<close>

definition dedup_unshift_take ::
  "('a \<Rightarrow> 'k) \<Rightarrow> nat \<Rightarrow> 'a \<Rightarrow> 'a list \<Rightarrow> 'a list" where
  "dedup_unshift_take key n x xs =
     (let i = js_find_index (\<lambda>y. key y = key x) xs;
          ys = (if i \<noteq> -1 then js_splice1 xs (nat i) else xs)
      in take n (x # ys))"

text \<open>The abstract specification of a bounded, duplicate-free recency list.\<close>

definition move_to_front :: "('a \<Rightarrow> 'k) \<Rightarrow> nat \<Rightarrow> 'a \<Rightarrow> 'a list \<Rightarrow> 'a list" where
  "move_to_front key n x xs = take n (x # filter (\<lambda>y. key y \<noteq> key x) xs)"

text \<open>The abstract contents of a recency list fed with \<open>xs\<close>, latest first: every
  key once, with its latest entry, most recent first.\<close>

fun latest_first :: "('a \<Rightarrow> 'k) \<Rightarrow> 'a list \<Rightarrow> 'a list" where
  "latest_first key [] = []"
| "latest_first key (x # xs) = x # latest_first key (filter (\<lambda>y. key y \<noteq> key x) xs)"

subsection \<open>Lemmas on the primitives\<close>

text \<open>Floors of rational numerals evaluate, so that rounding examples compute by \<open>simp\<close>.\<close>

lemma floor_numeral_div [simp]: "\<lfloor>(numeral a :: rat) / numeral b\<rfloor> = numeral a div numeral b"
  using floor_divide_of_int_eq [of "numeral a" "numeral b", where 'a = rat] by simp

lemma js_find_index_ge: "-1 \<le> js_find_index P xs"
  by (induction xs) (auto simp: Let_def)

lemma js_find_index_not_found [js_array_simps]:
  "(js_find_index P xs = -1) \<longleftrightarrow> (\<forall>x \<in> set xs. \<not> P x)"
proof (induction xs)
  case Nil
  then show ?case by simp
next
  case (Cons x xs)
  have "js_find_index P xs + 1 \<noteq> -1"
    using js_find_index_ge [of P xs] by arith
  with Cons.IH show ?case by (auto simp: Let_def)
qed

lemma js_find_index_found:
  assumes "js_find_index P xs \<noteq> -1"
  shows "nat (js_find_index P xs) < length xs \<and> P (xs ! nat (js_find_index P xs))
         \<and> (\<forall>j < nat (js_find_index P xs). \<not> P (xs ! j))"
  using assms
proof (induction xs)
  case Nil
  then show ?case by simp
next
  case (Cons x xs)
  show ?case
  proof (cases "P x")
    case True
    then show ?thesis by simp
  next
    case False
    with Cons.prems have ne: "js_find_index P xs \<noteq> -1" by (auto simp: Let_def)
    with js_find_index_ge [of P xs] have "0 \<le> js_find_index P xs" by arith
    with False ne Cons.IH show ?thesis
      by (auto simp: Let_def nth_Cons' nat_add_distrib)
  qed
qed

lemma js_splice1_find_index [js_array_simps]:
  "js_find_index P xs \<noteq> -1 \<Longrightarrow>
   js_splice1 xs (nat (js_find_index P xs)) = remove_first P xs"
proof (induction xs)
  case Nil
  then show ?case by simp
next
  case (Cons x xs)
  show ?case
  proof (cases "P x")
    case True
    then show ?thesis by (simp add: js_splice1_def)
  next
    case False
    with Cons.prems have ne: "js_find_index P xs \<noteq> -1" by (auto simp: Let_def)
    with js_find_index_ge [of P xs] have "0 \<le> js_find_index P xs" by arith
    with False ne Cons.IH show ?thesis
      by (simp add: Let_def js_splice1_def nat_add_distrib)
  qed
qed

lemma remove_first_no_match [js_array_simps]:
  "\<forall>x \<in> set xs. \<not> P x \<Longrightarrow> remove_first P xs = xs"
  by (induction xs) auto

lemma remove_first_distinct_filter:
  "distinct (map key xs) \<Longrightarrow>
   remove_first (\<lambda>y. key y = k) xs = filter (\<lambda>y. key y \<noteq> k) xs"
proof (induction xs)
  case Nil
  then show ?case by simp
next
  case (Cons x xs)
  then have "key x \<notin> key ` set xs" by simp
  then have "\<forall>y \<in> set xs. key y \<noteq> key x" by (metis imageI)
  then have "key x = k \<Longrightarrow> filter (\<lambda>y. key y \<noteq> k) xs = xs"
    by (simp add: filter_id_conv)
  with Cons show ?case by auto
qed

lemma msg_or_nonempty: "d \<noteq> [] \<Longrightarrow> msg_or m d \<noteq> []"
  by (simp add: msg_or_def split: option.splits)

subsection \<open>The recency list: implementation against specification\<close>

lemma dedup_unshift_take_remove_first:
  "dedup_unshift_take key n x xs = take n (x # remove_first (\<lambda>y. key y = key x) xs)"
proof (cases "js_find_index (\<lambda>y. key y = key x) xs = -1")
  case True
  then show ?thesis
    by (simp add: dedup_unshift_take_def js_find_index_not_found remove_first_no_match)
next
  case False
  then show ?thesis
    by (simp add: dedup_unshift_take_def js_splice1_find_index)
qed

lemma dedup_unshift_take_refines:
  "distinct (map key xs) \<Longrightarrow> dedup_unshift_take key n x xs = move_to_front key n x xs"
  by (simp add: dedup_unshift_take_remove_first remove_first_distinct_filter
      move_to_front_def)

lemma move_to_front_length: "length (move_to_front key n x xs) \<le> n"
  by (simp add: move_to_front_def)

lemma move_to_front_distinct:
  "distinct (map key xs) \<Longrightarrow> distinct (map key (move_to_front key n x xs))"
proof -
  assume d: "distinct (map key xs)"
  have "distinct (map key (x # filter (\<lambda>y. key y \<noteq> key x) xs))"
    using d by (auto simp: distinct_map_filter)
  then show ?thesis
    unfolding move_to_front_def by (metis distinct_take take_map)
qed

lemma move_to_front_head:
  "0 < n \<Longrightarrow> move_to_front key n x xs = x # take (n - 1) (filter (\<lambda>y. key y \<noteq> key x) xs)"
  by (cases n) (simp_all add: move_to_front_def)

lemma move_to_front_set:
  "set (move_to_front key n x xs) \<subseteq> insert x (set xs)"
  by (auto simp: move_to_front_def dest: in_set_takeD)

lemma move_to_front_map:
  "(\<And>y. key' (f y) = key y) \<Longrightarrow>
   map f (move_to_front key n x xs) = move_to_front key' n (f x) (map f xs)"
proof -
  assume k: "\<And>y. key' (f y) = key y"
  have "filter (\<lambda>y. key' y \<noteq> key' (f x)) (map f xs) = map f (filter (\<lambda>y. key y \<noteq> key x) xs)"
    by (simp add: filter_map comp_def k)
  then show ?thesis unfolding move_to_front_def by (metis list.map(2) take_map)
qed

lemma js_find_index_distinct:
  "distinct (map key xs) \<Longrightarrow> i < length xs \<Longrightarrow> key (xs ! i) = k \<Longrightarrow>
   js_find_index (\<lambda>y. key y = k) xs = int i"
proof (induction xs arbitrary: i)
  case Nil
  then show ?case by simp
next
  case (Cons x xs)
  show ?case
  proof (cases i)
    case 0
    with Cons.prems show ?thesis by simp
  next
    case (Suc j)
    with Cons.prems have idx: "js_find_index (\<lambda>y. key y = k) xs = int j"
      by (intro Cons.IH) auto
    from Cons.prems Suc have "xs ! j \<in> set xs" "key x \<notin> key ` set xs" by auto
    with Cons.prems Suc have "key x \<noteq> k" by (metis imageI nth_Cons_Suc)
    with idx Suc show ?thesis by simp
  qed
qed

lemma dedup_unshift_take_idem:
  "dedup_unshift_take key n x (dedup_unshift_take key n x xs) = dedup_unshift_take key n x xs"
  by (cases n) (simp_all add: dedup_unshift_take_remove_first)

lemma latest_first_filter:
  "latest_first key (filter (\<lambda>y. key y \<noteq> k) xs) = filter (\<lambda>y. key y \<noteq> k) (latest_first key xs)"
proof (induction key xs rule: latest_first.induct)
  case (1 key)
  then show ?case by simp
next
  case (2 key x xs)
  show ?case
  proof (cases "key x = k")
    case True
    with "2.IH" show ?thesis by (simp add: filter_filter)
  next
    case False
    have "filter (\<lambda>y. key y \<noteq> key x) (filter (\<lambda>y. key y \<noteq> k) xs)
          = filter (\<lambda>y. key y \<noteq> k) (filter (\<lambda>y. key y \<noteq> key x) xs)"
      by (simp add: filter_filter conj_commute)
    with False "2.IH" show ?thesis by simp
  qed
qed

lemma distinct_latest_first: "distinct (map key (latest_first key xs))"
  by (induction key xs rule: latest_first.induct) (auto simp: latest_first_filter)

lemma take_filter_take_distinct:
  "distinct (map key L) \<Longrightarrow>
   take n (filter (\<lambda>y. key y \<noteq> k) (take (Suc n) L)) = take n (filter (\<lambda>y. key y \<noteq> k) L)"
proof (induction L arbitrary: n)
  case Nil
  then show ?case by simp
next
  case (Cons y L)
  show ?case
  proof (cases "key y = k")
    case True
    from Cons.prems have "key y \<notin> key ` set L" by simp
    with True have "\<forall>z \<in> set L. key z \<noteq> k" by (metis imageI)
    then have "filter (\<lambda>y. key y \<noteq> k) L = L" "filter (\<lambda>y. key y \<noteq> k) (take n L) = take n L"
      by (auto simp: filter_id_conv dest: in_set_takeD)
    with True show ?thesis by simp
  next
    case False
    with Cons show ?thesis by (cases n) auto
  qed
qed

lemma move_to_front_run:
  "0 < n \<Longrightarrow> foldl (\<lambda>l x. move_to_front key n x l) [] xs = take n (latest_first key (rev xs))"
proof (induction xs rule: rev_induct)
  case Nil
  then show ?case by simp
next
  case (snoc x xs)
  obtain m where n: "n = Suc m" using snoc.prems by (cases n) auto
  have d: "distinct (map key (latest_first key (rev xs)))" by (rule distinct_latest_first)
  have "foldl (\<lambda>l x. move_to_front key n x l) [] (xs @ [x])
        = move_to_front key n x (take n (latest_first key (rev xs)))"
    using snoc by simp
  also have "\<dots> = x # take m (filter (\<lambda>y. key y \<noteq> key x) (take (Suc m) (latest_first key (rev xs))))"
    by (simp add: move_to_front_def n)
  also have "\<dots> = x # take m (filter (\<lambda>y. key y \<noteq> key x) (latest_first key (rev xs)))"
    using d by (simp add: take_filter_take_distinct)
  also have "\<dots> = take n (latest_first key (rev (xs @ [x])))"
    by (simp add: n latest_first_filter)
  finally show ?case .
qed

lemma dedup_unshift_take_run:
  "distinct (map key l) \<Longrightarrow>
   foldl (\<lambda>l x. dedup_unshift_take key n x l) l xs = foldl (\<lambda>l x. move_to_front key n x l) l xs"
proof (induction xs arbitrary: l)
  case Nil
  then show ?case by simp
next
  case (Cons x xs)
  from Cons.prems have "distinct (map key (move_to_front key n x l))"
    by (rule move_to_front_distinct)
  with Cons show ?case by (simp add: dedup_unshift_take_refines)
qed

text \<open>The recency update commutes with a change of representation that keeps the key
  comparisons: the reducer and the service run it on different element types.\<close>

lemma js_find_index_map: "js_find_index P (map f xs) = js_find_index (P \<circ> f) xs"
  by (induction xs) (simp_all add: Let_def)
lemma js_splice1_map: "map f (js_splice1 xs i) = js_splice1 (map f xs) i"
  by (simp add: js_splice1_def take_map drop_map)
lemma dedup_unshift_take_map:
  assumes "\<And>y. key' (f y) = key' (f x) \<longleftrightarrow> key y = key x"
  shows "map f (dedup_unshift_take key n x xs) = dedup_unshift_take key' n (f x) (map f xs)"
proof -
  have "(\<lambda>y. key' y = key' (f x)) \<circ> f = (\<lambda>y. key y = key x)"
    using assms by (simp add: fun_eq_iff)
  then show ?thesis
    by (simp add: dedup_unshift_take_def js_find_index_map js_splice1_map Let_def flip: take_map)
qed
end
