(* ===== verification/Stock_Model.thy ===== *)
theory Stock_Model
  imports Prelude
begin

text \<open>
  The data model of the application: the interfaces of
  \<open>src/src/app/shared/models/stock.model.ts\<close> as records and datatypes, and the
  store's state of \<open>src/src/app/store/app.state.ts\<close> (\<open>LoadingState\<close>,
  \<open>StockState\<close>, \<open>AppState\<close>, \<open>initialStockState\<close>).  TypeScript's optional
  fields (\<open>x?: T\<close>) and nullable fields (\<open>T | null\<close>) are \<open>option\<close>s.  Field
  names follow the source, with a prefix where two interfaces share a field name
  (\<open>stock\<close>, \<open>shares\<close>, \<open>symbol\<close>), since record fields share one name space.
  The service tags search results with a \<open>searchType\<close> the interface does not
  declare; the reducer's entries have none, so the tag is an optional field.
\<close>

subsection \<open>stock.model.ts\<close>

record day_range =
  low :: js_number
  high :: js_number

record stock_instrument =
  symbol :: string
  name :: string
  price :: js_number
  change_percent :: string
  shares :: "js_number option"
  logo :: "string option"
  market_cap :: "js_number option"
  volume :: "js_number option"
  day_range :: "day_range option"

record trending_stock =
  trending_id :: int
  trending_symbol :: string

record portfolio_holding =
  holding_stock :: stock_instrument
  holding_shares :: js_number
  current_value :: js_number

record portfolio =
  total_equity :: js_number
  holdings :: "portfolio_holding list"

datatype search_type = Search_tag | Recent_tag

record search_result =
  sr_stock :: stock_instrument
  search_type :: "search_type option"

datatype order_type = Market | Limit

record buy_order =
  order_stock :: stock_instrument
  order_shares :: js_number
  order_kind :: order_type
  limit_price :: "js_number option"
  estimated_total :: js_number

text \<open>\<open>ApiResponse<T>\<close>; the \<open>timestamp\<close> field is never read and is left out.\<close>

record 'a api_response =
  data :: 'a
  success :: bool
  message :: "string option"

subsection \<open>app.state.ts\<close>

record loading_state =
  is_loading :: bool
  error :: "string option"

record stock_state =
  portfolio :: "portfolio option"
  portfolio_loading :: loading_state
  stocks :: "stock_instrument list"
  stocks_loading :: loading_state
  trending_stocks :: "trending_stock list"
  trending_loading :: loading_state
  search_results :: "search_result list"
  recent_searches :: "search_result list"
  search_loading :: loading_state
  search_query :: string
  pending_buy_order :: "buy_order option"
  buy_order_loading :: loading_state
  buy_order_success :: bool

record app_state =
  app_stocks :: stock_state

text \<open>The two loading-state literals the reducer writes,
  \<open>{isLoading: true, error: null}\<close> and \<open>{isLoading: false, error: null}\<close>.\<close>

abbreviation loading_started :: loading_state where
  "loading_started \<equiv> \<lparr>is_loading = True, error = None\<rparr>"

abbreviation loading_idle :: loading_state where
  "loading_idle \<equiv> \<lparr>is_loading = False, error = None\<rparr>"

definition initial_stock_state :: stock_state where
  "initial_stock_state =
     \<lparr>portfolio = None,
      portfolio_loading = \<lparr>is_loading = False, error = None\<rparr>,
      stocks = [],
      stocks_loading = \<lparr>is_loading = False, error = None\<rparr>,
      trending_stocks = [],
      trending_loading = \<lparr>is_loading = False, error = None\<rparr>,
      search_results = [],
      recent_searches = [],
      search_loading = \<lparr>is_loading = False, error = None\<rparr>,
      search_query = [],
      pending_buy_order = None,
      buy_order_loading = \<lparr>is_loading = False, error = None\<rparr>,
      buy_order_success = False\<rparr>"

text \<open>Keys used throughout: a holding, a search result and an order are identified by
  the symbol of their instrument.\<close>

abbreviation holding_symbol :: "portfolio_holding \<Rightarrow> string" where
  "holding_symbol h \<equiv> symbol (holding_stock h)"

abbreviation sr_symbol :: "search_result \<Rightarrow> string" where
  "sr_symbol r \<equiv> symbol (sr_stock r)"

text \<open>An instrument with only the required fields set, as the examples use it.\<close>

definition plain_instrument :: "string \<Rightarrow> string \<Rightarrow> js_number \<Rightarrow> stock_instrument" where
  "plain_instrument sy nm pr =
     \<lparr>symbol = sy, name = nm, price = pr, change_percent = ''+0.00%'', shares = None,
      logo = None, market_cap = None, volume = None, day_range = None\<rparr>"

end
