(* ===== verification/Actions.thy ===== *)
theory Actions
  imports Stock_Model
begin

text \<open>
  The actions of \<open>src/src/app/store/stock.actions.ts\<close>: one constructor per
  \<open>createAction\<close>, carrying its \<open>props\<close>.  \<open>Other_action\<close> stands for an action
  of a creator outside this file (the store's own initialisation action, for
  instance), which every reducer and effect of the application ignores.
  \<open>action_type\<close> is the type string each creator declares; the store and the
  effects' \<open>ofType\<close> tell actions apart by it.
\<close>

datatype action =
    Load_portfolio
  | Load_portfolio_success portfolio
  | Load_portfolio_failure string
  | Load_trending_stocks
  | Load_trending_stocks_success "trending_stock list"
  | Load_trending_stocks_failure string
  | Load_stock
  | Load_stock_success "stock_instrument list"
  | Load_stock_failure string
  | Search_stocks string
  | Search_stocks_success "search_result list"
  | Search_stocks_failure string
  | Clear_search_results
  | Load_recent_searches
  | Load_recent_searches_success "search_result list"
  | Add_to_recent_searches stock_instrument
  | Clear_buy_order
  | Place_order buy_order
  | Place_order_success buy_order
  | Place_order_failure string
  | Set_search_query string
  | Other_action string

fun action_type :: "action \<Rightarrow> string" where
  "action_type Load_portfolio = ''[Portfolio] Load Portfolio''"
| "action_type (Load_portfolio_success _) = ''[Portfolio] Load Portfolio Success''"
| "action_type (Load_portfolio_failure _) = ''[Portfolio] Load Portfolio Failure''"
| "action_type Load_trending_stocks = ''[Stocks] Load Trending Stocks''"
| "action_type (Load_trending_stocks_success _) = ''[Stocks] Load Trending Stocks Success''"
| "action_type (Load_trending_stocks_failure _) = ''[Stocks] Load Trending Stocks Failure''"
| "action_type Load_stock = ''[Stocks] Load Stock''"
| "action_type (Load_stock_success _) = ''[Stocks] Load Stock Success''"
| "action_type (Load_stock_failure _) = ''[Stocks] Load Stock Failure''"
| "action_type (Search_stocks _) = ''[Search] Search Stocks''"
| "action_type (Search_stocks_success _) = ''[Search] Search Stocks Success''"
| "action_type (Search_stocks_failure _) = ''[Search] Search Stocks Failure''"
| "action_type Clear_search_results = ''[Search] Clear Search Results''"
| "action_type Load_recent_searches = ''[Search] Load Recent Searches''"
| "action_type (Load_recent_searches_success _) = ''[Search] Load Recent Searches Success''"
| "action_type (Add_to_recent_searches _) = ''[Search] Add To Recent Searches''"
| "action_type Clear_buy_order = ''[Orders] Clear Buy Order''"
| "action_type (Place_order _) = ''[Orders] Place Order''"
| "action_type (Place_order_success _) = ''[Orders] Place Order Success''"
| "action_type (Place_order_failure _) = ''[Orders] Place Order Failure''"
| "action_type (Set_search_query _) = ''[UI] Set Search Query''"
| "action_type (Other_action t) = t"

text \<open>The failure actions of the four resources that report errors.\<close>

fun is_failure_action :: "action \<Rightarrow> bool" where
  "is_failure_action (Load_portfolio_failure _) = True"
| "is_failure_action (Load_trending_stocks_failure _) = True"
| "is_failure_action (Load_stock_failure _) = True"
| "is_failure_action (Search_stocks_failure _) = True"
| "is_failure_action (Place_order_failure _) = True"
| "is_failure_action _ = False"

text \<open>Whether an action comes from a creator of \<open>stock.actions.ts\<close>.\<close>

fun is_stock_action :: "action \<Rightarrow> bool" where
  "is_stock_action (Other_action _) = False"
| "is_stock_action _ = True"

end
