(* ===== verification/Reducer.thy ===== *)
theory Reducer
  imports Actions
begin

text \<open>
  The reducer of \<open>src/src/app/store/stock.reducer.ts\<close>: \<open>createReducer\<close> with one
  \<open>on(...)\<close> handler per action, modelled as \<open>stock_reducer\<close>, one equation per
  handler in the source's order.  The two handlers with logic of their own are
  separate definitions: \<open>add_to_recent_searches_r\<close> (the bounded recency list) and
  \<open>place_order_success_r\<close> with \<open>merge_holding\<close> (the portfolio update on a filled
  order).  \<open>Load_recent_searches\<close> has no handler and, like an action of another
  creator, leaves the state as it is, as \<open>createReducer\<close> does.
\<close>

subsection \<open>Handlers\<close>

definition add_to_recent_searches_r :: "stock_state \<Rightarrow> stock_instrument \<Rightarrow> stock_state" where
  "add_to_recent_searches_r s stock =
     s\<lparr>recent_searches :=
         dedup_unshift_take sr_symbol 5 \<lparr>sr_stock = stock, search_type = None\<rparr>
           (recent_searches s)\<rparr>"

text \<open>The holdings after an order fills: the existing holding of the symbol gets the
  order's shares and is revalued at the order's price; otherwise a new holding is
  appended.\<close>

definition merge_holding :: "portfolio_holding list \<Rightarrow> buy_order \<Rightarrow> portfolio_holding list" where
  "merge_holding hs order =
     (let i = js_find_index (\<lambda>h. holding_symbol h = symbol (order_stock order)) hs
      in if i \<noteq> -1 then
           (let existing = hs ! nat i;
                new_total_shares = holding_shares existing + order_shares order;
                new_current_value = new_total_shares * price (order_stock order)
            in hs[nat i := existing\<lparr>holding_shares := new_total_shares,
                                   current_value := new_current_value\<rparr>])
         else hs @ [\<lparr>holding_stock = order_stock order,
                     holding_shares = order_shares order,
                     current_value = order_shares order * price (order_stock order)\<rparr>])"

definition place_order_success_r :: "stock_state \<Rightarrow> buy_order \<Rightarrow> stock_state" where
  "place_order_success_r s order =
     (case portfolio s of
        None \<Rightarrow> s\<lparr>buy_order_loading := \<lparr>is_loading = False, error = None\<rparr>,
                   buy_order_success := True\<rparr>
      | Some p \<Rightarrow>
          (let updated_holdings = merge_holding (holdings p) order;
               updated_total_equity = total_equity p + estimated_total order;
               updated_portfolio = p\<lparr>total_equity := updated_total_equity,
                                     holdings := updated_holdings\<rparr>
           in s\<lparr>portfolio := Some updated_portfolio,
                buy_order_loading := \<lparr>is_loading = False, error = None\<rparr>,
                buy_order_success := True,
                pending_buy_order := None\<rparr>))"

fun stock_reducer :: "stock_state \<Rightarrow> action \<Rightarrow> stock_state" where
  "stock_reducer s Load_portfolio =
     s\<lparr>portfolio_loading := \<lparr>is_loading = True, error = None\<rparr>\<rparr>"
| "stock_reducer s (Load_portfolio_success p) =
     s\<lparr>portfolio := Some p, portfolio_loading := \<lparr>is_loading = False, error = None\<rparr>\<rparr>"
| "stock_reducer s (Load_portfolio_failure e) =
     s\<lparr>portfolio_loading := \<lparr>is_loading = False, error = Some e\<rparr>\<rparr>"
| "stock_reducer s Load_trending_stocks =
     s\<lparr>trending_loading := \<lparr>is_loading = True, error = None\<rparr>\<rparr>"
| "stock_reducer s (Load_trending_stocks_success ts) =
     s\<lparr>trending_stocks := ts, trending_loading := \<lparr>is_loading = False, error = None\<rparr>\<rparr>"
| "stock_reducer s (Load_trending_stocks_failure e) =
     s\<lparr>trending_loading := \<lparr>is_loading = False, error = Some e\<rparr>\<rparr>"
| "stock_reducer s Load_stock =
     s\<lparr>stocks_loading := \<lparr>is_loading = True, error = None\<rparr>\<rparr>"
| "stock_reducer s (Load_stock_success xs) =
     s\<lparr>stocks := xs, stocks_loading := \<lparr>is_loading = False, error = None\<rparr>\<rparr>"
| "stock_reducer s (Load_stock_failure e) =
     s\<lparr>stocks_loading := \<lparr>is_loading = False, error = Some e\<rparr>\<rparr>"
| "stock_reducer s (Search_stocks q) =
     s\<lparr>search_query := q, search_loading := \<lparr>is_loading = True, error = None\<rparr>\<rparr>"
| "stock_reducer s (Search_stocks_success rs) =
     s\<lparr>search_results := rs, search_loading := \<lparr>is_loading = False, error = None\<rparr>\<rparr>"
| "stock_reducer s (Search_stocks_failure e) =
     s\<lparr>search_loading := \<lparr>is_loading = False, error = Some e\<rparr>\<rparr>"
| "stock_reducer s Clear_search_results =
     s\<lparr>search_results := [], search_query := []\<rparr>"
| "stock_reducer s (Load_recent_searches_success rs) =
     s\<lparr>recent_searches := rs\<rparr>"
| "stock_reducer s (Add_to_recent_searches stock) = add_to_recent_searches_r s stock"
| "stock_reducer s Clear_buy_order =
     s\<lparr>pending_buy_order := None, buy_order_success := False,
       buy_order_loading := \<lparr>is_loading = False, error = None\<rparr>\<rparr>"
| "stock_reducer s (Place_order _) =
     s\<lparr>buy_order_loading := \<lparr>is_loading = True, error = None\<rparr>\<rparr>"
| "stock_reducer s (Place_order_success order) = place_order_success_r s order"
| "stock_reducer s (Place_order_failure e) =
     s\<lparr>buy_order_loading := \<lparr>is_loading = False, error = Some e\<rparr>,
       buy_order_success := False\<rparr>"
| "stock_reducer s (Set_search_query q) = s\<lparr>search_query := q\<rparr>"
| "stock_reducer s Load_recent_searches = s"
| "stock_reducer s (Other_action _) = s"

text \<open>A run of the store: the actions reduced one after the other.\<close>

definition reduce_all :: "stock_state \<Rightarrow> action list \<Rightarrow> stock_state" where
  "reduce_all s as = foldl stock_reducer s as"

subsection \<open>Invariants\<close>

text \<open>Holdings are keyed by symbol; recent searches are bounded and keyed by symbol;
  a loading slice that is loading carries no error.\<close>

definition holdings_distinct :: "portfolio \<Rightarrow> bool" where
  "holdings_distinct p \<longleftrightarrow> distinct (map holding_symbol (holdings p))"

definition recent_ok :: "search_result list \<Rightarrow> bool" where
  "recent_ok rs \<longleftrightarrow> length rs \<le> 5 \<and> distinct (map sr_symbol rs)"

definition loading_ok :: "loading_state \<Rightarrow> bool" where
  "loading_ok l \<longleftrightarrow> (is_loading l \<longrightarrow> error l = None)"

definition wf_state :: "stock_state \<Rightarrow> bool" where
  "wf_state s \<longleftrightarrow>
     (case portfolio s of None \<Rightarrow> True | Some p \<Rightarrow> holdings_distinct p)
     \<and> recent_ok (recent_searches s)
     \<and> loading_ok (portfolio_loading s) \<and> loading_ok (stocks_loading s)
     \<and> loading_ok (trending_loading s) \<and> loading_ok (search_loading s)
     \<and> loading_ok (buy_order_loading s)"

text \<open>The payloads that keep the invariant: what a well-behaved backend and service
  deliver.\<close>

fun wf_action :: "action \<Rightarrow> bool" where
  "wf_action (Load_portfolio_success p) = holdings_distinct p"
| "wf_action (Load_recent_searches_success rs) = recent_ok rs"
| "wf_action _ = True"


subsection \<open>Lemmas on the handlers\<close>

lemma merge_holding_existing:
  assumes "distinct (map holding_symbol hs)" "i < length hs"
    "holding_symbol (hs ! i) = symbol (order_stock order)"
  shows "merge_holding hs order =
    hs[i := (hs ! i)\<lparr>holding_shares := holding_shares (hs ! i) + order_shares order,
       current_value := (holding_shares (hs ! i) + order_shares order) * price (order_stock order)\<rparr>]"
  using js_find_index_distinct [of "\<lambda>h. holding_symbol h", OF assms]
  by (simp add: merge_holding_def Let_def)

lemma merge_holding_new:
  "\<forall>h \<in> set hs. holding_symbol h \<noteq> symbol (order_stock order) \<Longrightarrow>
   merge_holding hs order = hs @ [\<lparr>holding_stock = order_stock order,
     holding_shares = order_shares order,
     current_value = order_shares order * price (order_stock order)\<rparr>]"
  by (simp add: merge_holding_def js_find_index_not_found)

lemma map_symbol_merge_holding:
  "map holding_symbol (merge_holding hs order) =
     (if symbol (order_stock order) \<in> set (map holding_symbol hs) then map holding_symbol hs
      else map holding_symbol hs @ [symbol (order_stock order)])"
proof (cases "js_find_index (\<lambda>h. holding_symbol h = symbol (order_stock order)) hs = -1")
  case True
  then show ?thesis by (auto simp: merge_holding_def js_find_index_not_found)
next
  case False
  let ?i = "nat (js_find_index (\<lambda>h. holding_symbol h = symbol (order_stock order)) hs)"
  from js_find_index_found [OF False]
  have i: "?i < length hs" "holding_symbol (hs ! ?i) = symbol (order_stock order)" by auto
  then have "symbol (order_stock order) \<in> set (map holding_symbol hs)"
    by (metis in_set_conv_nth length_map nth_map)
  moreover from i have "(map holding_symbol hs)[?i := holding_symbol (hs ! ?i)] = map holding_symbol hs"
    by (metis list_update_id nth_map)
  ultimately show ?thesis
    using False by (simp add: merge_holding_def Let_def map_update)
qed

lemma merge_holding_distinct:
  "distinct (map holding_symbol hs) \<Longrightarrow> distinct (map holding_symbol (merge_holding hs order))"
  by (simp add: map_symbol_merge_holding)

lemma recent_ok_add:
  "recent_ok rs \<Longrightarrow> recent_ok (dedup_unshift_take sr_symbol 5 x rs)"
  by (simp add: recent_ok_def dedup_unshift_take_refines move_to_front_length move_to_front_distinct)

lemma wf_state_place_order_success:
  "wf_state s \<Longrightarrow> wf_state (place_order_success_r s order)"
  by (auto simp: wf_state_def place_order_success_r_def holdings_distinct_def loading_ok_def
      merge_holding_distinct split: option.splits)

lemma wf_state_step:
  "wf_state s \<Longrightarrow> wf_action a \<Longrightarrow> wf_state (stock_reducer s a)"
  by (cases a) (auto simp: wf_state_def loading_ok_def add_to_recent_searches_r_def recent_ok_add
      wf_state_place_order_success [unfolded wf_state_def loading_ok_def])

lemma wf_initial: "wf_state initial_stock_state"
  by (simp add: wf_state_def initial_stock_state_def recent_ok_def loading_ok_def)

lemma pending_buy_order_step:
  "pending_buy_order s = None \<Longrightarrow> pending_buy_order (stock_reducer s a) = None"
  by (cases a) (auto simp: add_to_recent_searches_r_def place_order_success_r_def
      split: option.splits)

lemma reduce_all_additions:
  "recent_searches (foldl stock_reducer s (map Add_to_recent_searches xs)) =
   foldl (\<lambda>l x. dedup_unshift_take sr_symbol 5 x l) (recent_searches s)
     (map (\<lambda>st. \<lparr>sr_stock = st, search_type = None\<rparr>) xs)"
  by (induction xs arbitrary: s) (simp_all add: add_to_recent_searches_r_def)

subsection \<open>Properties of the reducer\<close>

text \<open>C1: An order filled for a symbol the portfolio already holds adds the order's shares to that holding, revalues the whole holding at the order's price, leaves every other holding in place, adds the order's estimated total to the total equity, and marks the order as succeeded.\<close>

theorem place_order_success_existing_holding:
  assumes "portfolio s = Some p" "holdings_distinct p" "i < length (holdings p)"
    "holding_symbol (holdings p ! i) = symbol (order_stock order)"
  shows "stock_reducer s (Place_order_success order) =
    s\<lparr>portfolio := Some (p\<lparr>total_equity := total_equity p + estimated_total order,
        holdings := (holdings p)[i := (holdings p ! i)
           \<lparr>holding_shares := holding_shares (holdings p ! i) + order_shares order,
            current_value := (holding_shares (holdings p ! i) + order_shares order)
                             * price (order_stock order)\<rparr>]\<rparr>),
      buy_order_loading := loading_idle, buy_order_success := True, pending_buy_order := None\<rparr>"
  using assms merge_holding_existing [of "holdings p" i order]
  by (simp add: place_order_success_r_def holdings_distinct_def)

theorem place_order_success_existing_holding_witness:
  "stock_reducer
     (initial_stock_state\<lparr>portfolio := Some \<lparr>total_equity = 1000,
        holdings = [\<lparr>holding_stock = \<lparr>symbol = ''AAPL'', name = ''Apple'', price = 100,
            change_percent = ''+1.00%'', shares = None, logo = None, market_cap = None,
            volume = None, day_range = None\<rparr>,
          holding_shares = 10, current_value = 1000\<rparr>]\<rparr>\<rparr>)
     (Place_order_success \<lparr>order_stock = \<lparr>symbol = ''AAPL'', name = ''Apple'', price = 110,
            change_percent = ''+1.00%'', shares = None, logo = None, market_cap = None,
            volume = None, day_range = None\<rparr>,
        order_shares = 5, order_kind = Market, limit_price = None, estimated_total = 550\<rparr>)
   = initial_stock_state\<lparr>portfolio := Some \<lparr>total_equity = 1550,
        holdings = [\<lparr>holding_stock = \<lparr>symbol = ''AAPL'', name = ''Apple'', price = 100,
            change_percent = ''+1.00%'', shares = None, logo = None, market_cap = None,
            volume = None, day_range = None\<rparr>,
          holding_shares = 15, current_value = 1650\<rparr>]\<rparr>,
      buy_order_success := True\<rparr>"
  apply (rule trans [OF place_order_success_existing_holding [where i = 0]])
  apply simp
  apply (simp add: holdings_distinct_def)
  apply simp
  apply simp
  apply (simp add: initial_stock_state_def)
  done

text \<open>C2: An order filled for a symbol the portfolio does not hold appends a new holding with the order's shares valued at the order's price, and adds the estimated total to the total equity.\<close>

theorem place_order_success_new_holding:
  assumes "portfolio s = Some p"
    "\<forall>h \<in> set (holdings p). holding_symbol h \<noteq> symbol (order_stock order)"
  shows "stock_reducer s (Place_order_success order) =
    s\<lparr>portfolio := Some (p\<lparr>total_equity := total_equity p + estimated_total order,
        holdings := holdings p @ [\<lparr>holding_stock = order_stock order,
           holding_shares = order_shares order,
           current_value = order_shares order * price (order_stock order)\<rparr>]\<rparr>),
      buy_order_loading := loading_idle, buy_order_success := True, pending_buy_order := None\<rparr>"
  using assms merge_holding_new [of "holdings p" order]
  by (simp add: place_order_success_r_def)

theorem place_order_success_new_holding_witness:
  "portfolio (initial_stock_state\<lparr>portfolio := Some \<lparr>total_equity = 410,
       holdings = [\<lparr>holding_stock = plain_instrument ''MSFT'' ''Microsoft'' 410,
                    holding_shares = 1, current_value = 410\<rparr>]\<rparr>\<rparr>)
     = Some \<lparr>total_equity = 410,
       holdings = [\<lparr>holding_stock = plain_instrument ''MSFT'' ''Microsoft'' 410,
                    holding_shares = 1, current_value = 410\<rparr>]\<rparr> \<and>
   ''MSFT'' \<noteq> symbol (plain_instrument ''AAPL'' ''Apple'' 110) \<and>
   portfolio (stock_reducer
     (initial_stock_state\<lparr>portfolio := Some \<lparr>total_equity = 410,
       holdings = [\<lparr>holding_stock = plain_instrument ''MSFT'' ''Microsoft'' 410,
                    holding_shares = 1, current_value = 410\<rparr>]\<rparr>\<rparr>)
     (Place_order_success \<lparr>order_stock = plain_instrument ''AAPL'' ''Apple'' 110,
        order_shares = 5, order_kind = Market, limit_price = None, estimated_total = 550\<rparr>))
   = Some \<lparr>total_equity = 960,
       holdings = [\<lparr>holding_stock = plain_instrument ''MSFT'' ''Microsoft'' 410,
                    holding_shares = 1, current_value = 410\<rparr>,
                   \<lparr>holding_stock = plain_instrument ''AAPL'' ''Apple'' 110,
                    holding_shares = 5, current_value = 550\<rparr>]\<rparr>"
  using place_order_success_new_holding
    [of "initial_stock_state\<lparr>portfolio := Some \<lparr>total_equity = 410,
       holdings = [\<lparr>holding_stock = plain_instrument ''MSFT'' ''Microsoft'' 410,
                    holding_shares = 1, current_value = 410\<rparr>]\<rparr>\<rparr>"
        "\<lparr>total_equity = 410,
       holdings = [\<lparr>holding_stock = plain_instrument ''MSFT'' ''Microsoft'' 410,
                    holding_shares = 1, current_value = 410\<rparr>]\<rparr>"
        "\<lparr>order_stock = plain_instrument ''AAPL'' ''Apple'' 110,
        order_shares = 5, order_kind = Market, limit_price = None, estimated_total = 550\<rparr>"]
  by (simp add: plain_instrument_def)

text \<open>C3: After any sequence of additions to the recent searches, starting from the initial state, the list holds the latest entry of each of the five most recently added symbols, most recent first.\<close>

theorem recent_searches_after_additions:
  "recent_searches (reduce_all initial_stock_state (map Add_to_recent_searches xs)) =
   take 5 (latest_first sr_symbol (rev (map (\<lambda>st. \<lparr>sr_stock = st, search_type = None\<rparr>) xs)))"
  by (simp add: reduce_all_def reduce_all_additions initial_stock_state_def
      dedup_unshift_take_run move_to_front_run)

text \<open>C8: On a well-formed list the reducer's findIndex/splice/unshift/slice implementation of an addition is the abstract move-to-front-and-keep-five operation.\<close>

theorem add_to_recent_searches_refines:
  "recent_ok (recent_searches s) \<Longrightarrow>
   recent_searches (stock_reducer s (Add_to_recent_searches stock)) =
   move_to_front sr_symbol 5 \<lparr>sr_stock = stock, search_type = None\<rparr> (recent_searches s)"
  by (simp add: add_to_recent_searches_r_def recent_ok_def dedup_unshift_take_refines)

text \<open>C7: Every action except a filled order is idempotent: reducing it twice gives the state of reducing it once (clearing the search, clearing the order, the loading triggers, and adding the same recent search again all settle).\<close>

theorem stock_reducer_idempotent:
  "(\<forall>order. a \<noteq> Place_order_success order) \<Longrightarrow>
   stock_reducer (stock_reducer s a) a = stock_reducer s a"
  by (cases a) (simp_all add: add_to_recent_searches_r_def dedup_unshift_take_idem)

text \<open>C6: No action ever records a pending buy order: from the initial state, pendingBuyOrder is null after any sequence of actions.\<close>

theorem pending_buy_order_never_set:
  "pending_buy_order (reduce_all initial_stock_state as) = None"
proof -
  have "pending_buy_order s = None \<Longrightarrow> pending_buy_order (foldl stock_reducer s as) = None" for s
    by (induction as arbitrary: s) (simp_all add: pending_buy_order_step)
  then show ?thesis by (simp add: reduce_all_def initial_stock_state_def)
qed

text \<open>C5: A failure action changes no data slice: portfolio, stocks, trending list, search results, recent searches, query and pending order are untouched.\<close>

theorem failure_isolation:
  "is_failure_action a \<Longrightarrow>
   portfolio (stock_reducer s a) = portfolio s \<and> stocks (stock_reducer s a) = stocks s
   \<and> trending_stocks (stock_reducer s a) = trending_stocks s
   \<and> search_results (stock_reducer s a) = search_results s
   \<and> recent_searches (stock_reducer s a) = recent_searches s
   \<and> search_query (stock_reducer s a) = search_query s
   \<and> pending_buy_order (stock_reducer s a) = pending_buy_order s"
  by (cases a) simp_all

theorem add_to_recent_searches_refines_witness:
  "recent_ok [\<lparr>sr_stock = plain_instrument ''AAPL'' ''Apple'' 190, search_type = None\<rparr>] \<and>
   recent_searches (stock_reducer
     (initial_stock_state\<lparr>recent_searches :=
        [\<lparr>sr_stock = plain_instrument ''AAPL'' ''Apple'' 190, search_type = None\<rparr>]\<rparr>)
     (Add_to_recent_searches (plain_instrument ''MSFT'' ''Microsoft'' 410))) =
   [\<lparr>sr_stock = plain_instrument ''MSFT'' ''Microsoft'' 410, search_type = None\<rparr>,
    \<lparr>sr_stock = plain_instrument ''AAPL'' ''Apple'' 190, search_type = None\<rparr>]"
  using add_to_recent_searches_refines
    [of "initial_stock_state\<lparr>recent_searches :=
        [\<lparr>sr_stock = plain_instrument ''AAPL'' ''Apple'' 190, search_type = None\<rparr>]\<rparr>"
        "plain_instrument ''MSFT'' ''Microsoft'' 410"]
  by (simp add: recent_ok_def move_to_front_def plain_instrument_def)

theorem stock_reducer_idempotent_witness:
  "(\<forall>order. Clear_search_results \<noteq> Place_order_success order) \<and>
   stock_reducer (stock_reducer initial_stock_state Clear_search_results) Clear_search_results
   = stock_reducer initial_stock_state Clear_search_results"
  using stock_reducer_idempotent [of Clear_search_results initial_stock_state] by simp

theorem failure_isolation_witness:
  "is_failure_action (Load_portfolio_failure ''timeout'') \<and>
   stocks (stock_reducer initial_stock_state (Load_portfolio_failure ''timeout''))
   = stocks initial_stock_state"
  using failure_isolation [of "Load_portfolio_failure ''timeout''" initial_stock_state] by simp

text \<open>C4: The reducer keeps the state well formed (holdings keyed by symbol, at most five
  recent searches with distinct symbols, no error on a slice that is loading) over any
  sequence of actions whose payloads are well formed.\<close>

theorem wf_state_preserved:
  "wf_state s \<Longrightarrow> \<forall>a \<in> set as. wf_action a \<Longrightarrow> wf_state (reduce_all s as)"
proof (induction as arbitrary: s)
  case Nil
  then show ?case by (simp add: reduce_all_def)
next
  case (Cons a as)
  then have "wf_state (stock_reducer s a)" by (simp add: wf_state_step)
  with Cons show ?case by (simp add: reduce_all_def)
qed

theorem wf_state_preserved_witness:
  "wf_state initial_stock_state \<and>
   wf_action Load_portfolio \<and>
   wf_action (Add_to_recent_searches (plain_instrument ''AAPL'' ''Apple'' 190)) \<and>
   wf_state (reduce_all initial_stock_state
     [Load_portfolio, Add_to_recent_searches (plain_instrument ''AAPL'' ''Apple'' 190)])"
  using wf_state_preserved [OF wf_initial,
      of "[Load_portfolio, Add_to_recent_searches (plain_instrument ''AAPL'' ''Apple'' 190)]"]
    wf_initial
  by simp

end
