(* ===== verification/Selectors.thy ===== *)
theory Selectors
  imports Reducer
begin

text \<open>
  The selectors of \<open>src/src/app/store/stock.selectors.ts\<close>.  The projections
  (\<open>selectPortfolio\<close>, \<open>selectStocksLoading\<close>, ...) are record selectors applied to
  the feature slice \<open>app_stocks\<close>; the selectors with logic are definitions:
  the trending join \<open>select_trending_stocks\<close>, the top three by volume
  \<open>select_top3_stocks_by_volume\<close> and the two view models.  \<open>Array.prototype.sort\<close>
  with a comparator is modelled as the stable insertion sort \<open>js_sort\<close> (ECMAScript
  requires the sort to be stable); it is proved equal to the library's
  \<open>sort_key\<close>.  \<open>createSelector\<close>'s memoization (NgRx's \<open>defaultMemoize\<close>, outside
  the repository) is \<open>memo_select\<close>: the last argument and result, and a count of
  recomputations, so that "no recomputation" is observable.
\<close>

subsection \<open>Array.prototype.sort with a comparator\<close>

fun js_insert :: "('a \<Rightarrow> 'a \<Rightarrow> js_number) \<Rightarrow> 'a \<Rightarrow> 'a list \<Rightarrow> 'a list" where
  "js_insert cmp x [] = [x]"
| "js_insert cmp x (y # ys) = (if cmp x y < 0 then x # y # ys else y # js_insert cmp x ys)"

definition js_sort :: "('a \<Rightarrow> 'a \<Rightarrow> js_number) \<Rightarrow> 'a list \<Rightarrow> 'a list" where
  "js_sort cmp xs = foldl (\<lambda>acc x. js_insert cmp x acc) [] xs"

subsection \<open>Selectors with logic\<close>

definition select_stock_state :: "app_state \<Rightarrow> stock_state" where
  "select_stock_state st = app_stocks st"

text \<open>\<open>trendingList.map(t => allStocks.find(s => s.symbol === t.symbol) || null)
  .filter(s => s !== null)\<close>\<close>

definition select_trending_stocks ::
  "trending_stock list \<Rightarrow> stock_instrument list \<Rightarrow> stock_instrument list" where
  "select_trending_stocks trending_list all_stocks =
     map the (filter (\<lambda>d. d \<noteq> None)
       (map (\<lambda>t. find (\<lambda>s. symbol s = trending_symbol t) all_stocks) trending_list))"

text \<open>\<open>(b.volume || 0)\<close>: an absent volume counts as zero.\<close>

definition volume_or_zero :: "stock_instrument \<Rightarrow> js_number" where
  "volume_or_zero s = (case volume s of None \<Rightarrow> 0 | Some v \<Rightarrow> v)"

definition select_top3_stocks_by_volume :: "stock_instrument list \<Rightarrow> stock_instrument list" where
  "select_top3_stocks_by_volume stocks_list =
     take 3 (js_sort (\<lambda>a b. volume_or_zero b - volume_or_zero a)
               (filter (\<lambda>s. volume s \<noteq> None) stocks_list))"

record dashboard_data =
  dash_portfolio :: "portfolio option"
  dash_trending_stocks :: "stock_instrument list"
  dash_is_loading :: bool

definition select_dashboard_data :: "stock_state \<Rightarrow> dashboard_data" where
  "select_dashboard_data s =
     \<lparr>dash_portfolio = portfolio s,
      dash_trending_stocks = select_trending_stocks (trending_stocks s) (stocks s),
      dash_is_loading = (is_loading (portfolio_loading s) \<or> is_loading (trending_loading s))\<rparr>"

record search_data =
  sd_search_results :: "search_result list"
  sd_recent_searches :: "search_result list"
  sd_is_loading :: bool
  sd_query :: string

definition select_search_data :: "stock_state \<Rightarrow> search_data" where
  "select_search_data s =
     \<lparr>sd_search_results = search_results s, sd_recent_searches = recent_searches s,
      sd_is_loading = is_loading (search_loading s), sd_query = search_query s\<rparr>"

subsection \<open>Projections\<close>

text \<open>The selectors that project one field of the feature slice.\<close>

definition select_portfolio :: "app_state \<Rightarrow> portfolio option" where
  "select_portfolio st = portfolio (select_stock_state st)"

definition select_portfolio_loading :: "app_state \<Rightarrow> bool" where
  "select_portfolio_loading st = is_loading (portfolio_loading (select_stock_state st))"

definition select_portfolio_error :: "app_state \<Rightarrow> string option" where
  "select_portfolio_error st = error (portfolio_loading (select_stock_state st))"

definition select_stocks :: "app_state \<Rightarrow> stock_instrument list" where
  "select_stocks st = stocks (select_stock_state st)"

definition select_stocks_loading :: "app_state \<Rightarrow> bool" where
  "select_stocks_loading st = is_loading (stocks_loading (select_stock_state st))"

definition select_stocks_error :: "app_state \<Rightarrow> string option" where
  "select_stocks_error st = error (stocks_loading (select_stock_state st))"

definition select_trending_stocks_list :: "app_state \<Rightarrow> trending_stock list" where
  "select_trending_stocks_list st = trending_stocks (select_stock_state st)"

definition select_trending_loading :: "app_state \<Rightarrow> bool" where
  "select_trending_loading st = is_loading (trending_loading (select_stock_state st))"

definition select_trending_error :: "app_state \<Rightarrow> string option" where
  "select_trending_error st = error (trending_loading (select_stock_state st))"

definition select_search_results :: "app_state \<Rightarrow> search_result list" where
  "select_search_results st = search_results (select_stock_state st)"

definition select_recent_searches :: "app_state \<Rightarrow> search_result list" where
  "select_recent_searches st = recent_searches (select_stock_state st)"

definition select_search_loading :: "app_state \<Rightarrow> bool" where
  "select_search_loading st = is_loading (search_loading (select_stock_state st))"

definition select_search_error :: "app_state \<Rightarrow> string option" where
  "select_search_error st = error (search_loading (select_stock_state st))"

definition select_search_query :: "app_state \<Rightarrow> string" where
  "select_search_query st = search_query (select_stock_state st)"

definition select_pending_buy_order :: "app_state \<Rightarrow> buy_order option" where
  "select_pending_buy_order st = pending_buy_order (select_stock_state st)"

definition select_buy_order_loading :: "app_state \<Rightarrow> bool" where
  "select_buy_order_loading st = is_loading (buy_order_loading (select_stock_state st))"

definition select_buy_order_success :: "app_state \<Rightarrow> bool" where
  "select_buy_order_success st = buy_order_success (select_stock_state st)"

definition select_buy_order_error :: "app_state \<Rightarrow> string option" where
  "select_buy_order_error st = error (buy_order_loading (select_stock_state st))"

subsection \<open>Memoization\<close>

text \<open>The cache of a one-argument memoized projector: the last argument, the last
  result and how many times the projector has run.\<close>

record ('i, 'o) memo =
  memo_arg :: "'i option"
  memo_result :: "'o option"
  memo_runs :: nat

definition memo_empty :: "('i, 'o) memo" where
  "memo_empty = \<lparr>memo_arg = None, memo_result = None, memo_runs = 0\<rparr>"

definition memo_select :: "('i \<Rightarrow> 'o) \<Rightarrow> ('i, 'o) memo \<Rightarrow> 'i \<Rightarrow> 'o \<times> ('i, 'o) memo" where
  "memo_select f m x =
     (case (memo_arg m, memo_result m) of
        (Some x', Some r) \<Rightarrow>
          if x' = x then (r, m)
          else (f x, \<lparr>memo_arg = Some x, memo_result = Some (f x), memo_runs = Suc (memo_runs m)\<rparr>)
      | _ \<Rightarrow> (f x, \<lparr>memo_arg = Some x, memo_result = Some (f x), memo_runs = Suc (memo_runs m)\<rparr>))"

text \<open>A cache is consistent with its projector when it holds the projector's result
  for its argument.\<close>

definition memo_consistent :: "('i \<Rightarrow> 'o) \<Rightarrow> ('i, 'o) memo \<Rightarrow> bool" where
  "memo_consistent f m \<longleftrightarrow>
     (case memo_arg m of None \<Rightarrow> memo_result m = None | Some x \<Rightarrow> memo_result m = Some (f x))"

text \<open>\<open>selectTop3StocksByVolume\<close> as the store evaluates it: \<open>selectStocks\<close> feeds the
  memoized projector.\<close>

definition select_top3_memo ::
  "(stock_instrument list, stock_instrument list) memo \<Rightarrow> stock_state
   \<Rightarrow> stock_instrument list \<times> (stock_instrument list, stock_instrument list) memo" where
  "select_top3_memo m s = memo_select select_top3_stocks_by_volume m (stocks s)"

text \<open>A sample of loaded stocks, for the examples.\<close>

definition sample_volume_stocks :: "stock_instrument list" where
  "sample_volume_stocks =
     [(plain_instrument ''A'' ''Alpha'' 1)\<lparr>volume := Some 10\<rparr>,
      (plain_instrument ''B'' ''Bravo'' 1)\<lparr>volume := Some 40\<rparr>,
      plain_instrument ''X'' ''Xray'' 1,
      (plain_instrument ''C'' ''Charlie'' 1)\<lparr>volume := Some 30\<rparr>,
      (plain_instrument ''D'' ''Delta'' 1)\<lparr>volume := Some 20\<rparr>]"

subsection \<open>Lemmas\<close>

lemma mset_js_insert: "mset (js_insert cmp x ys) = add_mset x (mset ys)"
  by (induction ys) auto

lemma set_js_insert: "set (js_insert cmp x ys) = insert x (set ys)"
  by (induction ys) auto

lemma mset_js_sort_acc:
  "mset (foldl (\<lambda>acc x. js_insert cmp x acc) acc xs) = mset acc + mset xs"
  by (induction xs arbitrary: acc) (simp_all add: mset_js_insert)

lemma sorted_js_insert:
  "sorted (map k ys) \<Longrightarrow> sorted (map k (js_insert (\<lambda>a b. k a - k b) x ys))"
  by (induction ys) (auto simp: set_js_insert)

lemma filter_js_insert:
  "sorted (map k ys) \<Longrightarrow>
   filter (\<lambda>y. k y = c) (js_insert (\<lambda>a b. k a - k b) x ys) =
   (if k x = c then filter (\<lambda>y. k y = c) ys @ [x] else filter (\<lambda>y. k y = c) ys)"
proof (induction ys)
  case Nil
  then show ?case by simp
next
  case (Cons y ys)
  show ?case
  proof (cases "k x < k y")
    case True
    with Cons.prems have "\<forall>z \<in> set (y # ys). k x < k z" by auto
    then have "k x = c \<Longrightarrow> filter (\<lambda>y. k y = c) (y # ys) = []"
      by (auto simp: filter_empty_conv)
    with True show ?thesis by auto
  next
    case False
    with Cons show ?thesis by auto
  qed
qed

lemma js_sort_acc_props:
  "sorted (map k acc) \<Longrightarrow>
   sorted (map k (foldl (\<lambda>acc x. js_insert (\<lambda>a b. k a - k b) x acc) acc xs)) \<and>
   filter (\<lambda>y. k y = c) (foldl (\<lambda>acc x. js_insert (\<lambda>a b. k a - k b) x acc) acc xs) =
   filter (\<lambda>y. k y = c) acc @ filter (\<lambda>y. k y = c) xs"
proof (induction xs arbitrary: acc)
  case Nil
  then show ?case by simp
next
  case (Cons x xs)
  from Cons.prems have "sorted (map k (js_insert (\<lambda>a b. k a - k b) x acc))"
    by (rule sorted_js_insert)
  with Cons.IH Cons.prems show ?case by (simp add: filter_js_insert)
qed

lemma js_sort_sort_key:
  "js_sort (\<lambda>a b. k a - k b) xs = sort_key k xs"
proof (rule properties_for_sort_key [symmetric])
  show "mset (js_sort (\<lambda>a b. k a - k b) xs) = mset xs"
    by (simp add: js_sort_def mset_js_sort_acc)
  show "sorted (map k (js_sort (\<lambda>a b. k a - k b) xs))"
    using js_sort_acc_props [of k "[]" xs] by (simp add: js_sort_def)
  fix z
  have "(\<lambda>x. k z = k x) = (\<lambda>y. k y = k z)" by auto
  then show "filter (\<lambda>x. k z = k x) (js_sort (\<lambda>a b. k a - k b) xs) = filter (\<lambda>x. k z = k x) xs"
    using js_sort_acc_props [of k "[]" xs "k z"] by (simp add: js_sort_def)
qed

lemma find_Some_mem: "find P xs = Some x \<Longrightarrow> x \<in> set xs \<and> P x"
  by (auto simp: find_Some_iff nth_mem)

lemma memo_select_hit:
  "memo_arg m = Some x \<Longrightarrow> memo_result m = Some r \<Longrightarrow> memo_select f m x = (r, m)"
  by (simp add: memo_select_def)

lemma stocks_unchanged:
  "(\<forall>xs. a \<noteq> Load_stock_success xs) \<Longrightarrow> stocks (stock_reducer s a) = stocks s"
  by (cases a) (auto simp: add_to_recent_searches_r_def place_order_success_r_def
      split: option.splits)

subsection \<open>Properties of the selectors\<close>

text \<open>C9: The top-three selector, a filter, a comparator sort and a slice, is the first three of the stocks that have a volume, stably sorted by descending volume (the library's sort_key on the negated volume).\<close>

theorem top3_sort_key:
  "select_top3_stocks_by_volume stocks_list =
   take 3 (sort_key (\<lambda>s. - volume_or_zero s) (filter (\<lambda>s. volume s \<noteq> None) stocks_list))"
proof -
  have "(\<lambda>a b. volume_or_zero b - volume_or_zero a)
        = (\<lambda>a b. (\<lambda>s. - volume_or_zero s) a - (\<lambda>s. - volume_or_zero s) b)"
    by auto
  then show ?thesis
    by (simp only: select_top3_stocks_by_volume_def js_sort_sort_key)
qed

text \<open>C10: No stock with a volume that the top-three selector leaves out has a larger volume than one it returns.\<close>

theorem top3_is_top:
  "x \<in> set (select_top3_stocks_by_volume l) \<Longrightarrow> y \<in> set l \<Longrightarrow> volume y \<noteq> None \<Longrightarrow>
   y \<notin> set (select_top3_stocks_by_volume l) \<Longrightarrow> volume_or_zero y \<le> volume_or_zero x"
proof -
  let ?k = "\<lambda>s. - volume_or_zero s"
  let ?L = "sort_key ?k (filter (\<lambda>s. volume s \<noteq> None) l)"
  assume x: "x \<in> set (select_top3_stocks_by_volume l)" and y: "y \<in> set l" "volume y \<noteq> None"
    and ny: "y \<notin> set (select_top3_stocks_by_volume l)"
  from y have "y \<in> set ?L" by simp
  with ny have "y \<in> set (drop 3 ?L)"
    by (metis Un_iff append_take_drop_id set_append top3_sort_key)
  moreover from x have "x \<in> set (take 3 ?L)" by (simp add: top3_sort_key)
  moreover have "sorted (map ?k (take 3 ?L @ drop 3 ?L))" by simp
  ultimately have "?k x \<le> ?k y"
    by (auto simp: sorted_append simp del: append_take_drop_id)
  then show ?thesis by simp
qed

theorem top3_is_top_witness:
  "(plain_instrument ''B'' ''Bravo'' 1)\<lparr>volume := Some 40\<rparr>
     \<in> set (select_top3_stocks_by_volume sample_volume_stocks) \<and>
   (plain_instrument ''A'' ''Alpha'' 1)\<lparr>volume := Some 10\<rparr> \<in> set sample_volume_stocks \<and>
   (plain_instrument ''A'' ''Alpha'' 1)\<lparr>volume := Some 10\<rparr>
     \<notin> set (select_top3_stocks_by_volume sample_volume_stocks) \<and>
   volume_or_zero ((plain_instrument ''A'' ''Alpha'' 1)\<lparr>volume := Some 10\<rparr>)
     \<le> volume_or_zero ((plain_instrument ''B'' ''Bravo'' 1)\<lparr>volume := Some 40\<rparr>)"
proof -
  have top: "select_top3_stocks_by_volume sample_volume_stocks =
    [(plain_instrument ''B'' ''Bravo'' 1)\<lparr>volume := Some 40\<rparr>,
     (plain_instrument ''C'' ''Charlie'' 1)\<lparr>volume := Some 30\<rparr>,
     (plain_instrument ''D'' ''Delta'' 1)\<lparr>volume := Some 20\<rparr>]"
    by (simp add: select_top3_stocks_by_volume_def sample_volume_stocks_def js_sort_def
        volume_or_zero_def plain_instrument_def)
  have mem: "(plain_instrument ''A'' ''Alpha'' 1)\<lparr>volume := Some 10\<rparr> \<in> set sample_volume_stocks"
    by (simp add: sample_volume_stocks_def)
  show ?thesis
    using top3_is_top [of "(plain_instrument ''B'' ''Bravo'' 1)\<lparr>volume := Some 40\<rparr>"
        sample_volume_stocks "(plain_instrument ''A'' ''Alpha'' 1)\<lparr>volume := Some 10\<rparr>"] mem
    by (simp add: top plain_instrument_def volume_or_zero_def)
qed

text \<open>The top-three selector returns three stocks, or all that have a volume when there are fewer, in non-increasing order of volume, each a stock of the input with a volume.\<close>

theorem top3_shape:
  "length (select_top3_stocks_by_volume l) = min 3 (length (filter (\<lambda>s. volume s \<noteq> None) l))
   \<and> sorted (rev (map volume_or_zero (select_top3_stocks_by_volume l)))
   \<and> set (select_top3_stocks_by_volume l) \<subseteq> {s \<in> set l. volume s \<noteq> None}"
proof -
  let ?L = "sort_key (\<lambda>s. - volume_or_zero s) (filter (\<lambda>s. volume s \<noteq> None) l)"
  have "sorted (map (\<lambda>s. - volume_or_zero s) (take 3 ?L))"
    by (metis sorted_sort_key sorted_wrt_take take_map)
  then have "sorted (rev (map volume_or_zero (take 3 ?L)))"
    by (simp add: sorted_wrt_map rev_map sorted_wrt_rev)
  moreover have "set (take 3 ?L) \<subseteq> {s \<in> set l. volume s \<noteq> None}"
    by (auto dest: in_set_takeD)
  ultimately show ?thesis by (simp add: top3_sort_key length_sort)
qed

text \<open>C12: The trending selector keeps the trending list's order, drops exactly the entries whose symbol no loaded instrument has, and returns loaded instruments only.\<close>

theorem trending_join:
  "map symbol (select_trending_stocks ts all) =
     filter (\<lambda>x. x \<in> set (map symbol all)) (map trending_symbol ts)
   \<and> set (select_trending_stocks ts all) \<subseteq> set all"
proof (induction ts)
  case Nil
  then show ?case by (simp add: select_trending_stocks_def)
next
  case (Cons t ts)
  show ?case
  proof (cases "find (\<lambda>s. symbol s = trending_symbol t) all")
    case None
    then have "trending_symbol t \<notin> set (map symbol all)"
      by (auto simp: find_None_iff)
    with None Cons.IH show ?thesis by (simp add: select_trending_stocks_def)
  next
    case (Some s)
    then have mem: "s \<in> set all" and eq: "symbol s = trending_symbol t"
      by (auto dest: find_Some_mem)
    then have "trending_symbol t \<in> set (map symbol all)" by (metis image_eqI set_map)
    with Some Cons.IH mem eq show ?thesis by (simp add: select_trending_stocks_def)
  qed
qed

text \<open>Memoization is transparent: from a cache consistent with its projector, a memoized call returns what the projector returns and leaves a consistent cache.\<close>

theorem memo_select_correct:
  "memo_consistent f m \<Longrightarrow>
   fst (memo_select f m x) = f x \<and> memo_consistent f (snd (memo_select f m x))"
  by (auto simp: memo_select_def memo_consistent_def split: option.splits)

theorem memo_select_correct_witness:
  "memo_consistent select_top3_stocks_by_volume memo_empty \<and>
   fst (memo_select select_top3_stocks_by_volume memo_empty sample_volume_stocks)
     = select_top3_stocks_by_volume sample_volume_stocks"
  using memo_select_correct [of select_top3_stocks_by_volume memo_empty sample_volume_stocks]
  by (simp add: memo_consistent_def memo_empty_def)

text \<open>C13: Once the top-three selector has run on the current stocks, no action other than a stocks load makes it run again: it returns the cached result and the cache, run count included, is unchanged.\<close>

theorem top3_not_recomputed:
  "memo_consistent select_top3_stocks_by_volume m \<Longrightarrow> memo_arg m = Some (stocks s) \<Longrightarrow>
   (\<forall>xs. a \<noteq> Load_stock_success xs) \<Longrightarrow>
   select_top3_memo m (stock_reducer s a) = (select_top3_stocks_by_volume (stocks s), m)"
  by (simp add: select_top3_memo_def stocks_unchanged memo_select_hit memo_consistent_def)

theorem top3_not_recomputed_witness:
  "select_top3_memo
     \<lparr>memo_arg = Some [], memo_result = Some [], memo_runs = 1\<rparr>
     (stock_reducer initial_stock_state (Search_stocks ''AA''))
   = ([], \<lparr>memo_arg = Some [], memo_result = Some [], memo_runs = 1\<rparr>)"
  using top3_not_recomputed [of "\<lparr>memo_arg = Some [], memo_result = Some [], memo_runs = 1\<rparr>"
      initial_stock_state "Search_stocks ''AA''"]
  by (simp add: memo_consistent_def initial_stock_state_def select_top3_stocks_by_volume_def
      js_sort_def)

end
