(* ===== verification/Service_Format.thy ===== *)
theory Service_Format
  imports Stock_Model
begin

text \<open>
  The value-level helpers the service of \<open>src/src/app/shared/services/stock.service.ts\<close>
  relies on, with JavaScript's semantics:
  \<^item> \<open>js_num\<close>: a JavaScript number as the service's arithmetic can produce it,
    a finite value or one of the three non-finite values that \<open>x / 0\<close> yields;
  \<^item> \<open>js_to_fixed2\<close>: \<open>Number.prototype.toFixed(2)\<close> (round half away from zero on the
    magnitude, a \<open>-\<close> sign for negative values, \<open>"Infinity"\<close>, \<open>"NaN"\<close>);
  \<^item> \<open>format_change_percent\<close>: the \<open>x > 0 ? `+${x.toFixed(2)}%` : `${x.toFixed(2)}%`\<close>
    expression that all three mappings of the service use;
  \<^item> \<open>js_trim\<close>, \<open>js_lower\<close>, \<open>js_includes\<close>: \<open>String.prototype.trim\<close>,
    \<open>toLowerCase\<close> and \<open>includes\<close> on ASCII text (Unicode case mapping and Unicode
    white space are not modelled);
  \<^item> the raw backend records and their mappings into the domain model
    (\<open>map_raw_stock\<close> for \<open>getStocks\<close>, \<open>map_position\<close> for \<open>getPortfolio\<close>,
    \<open>map_search_stock\<close> for \<open>searchStocks\<close>);
  \<^item> the stock card's change colour (\<open>stock-card.component.ts\<close>), which reads the sign
    the formatting writes.
  Numbers of magnitude \<open>10^21\<close> or more, which \<open>toFixed\<close> prints in exponent notation,
  are outside the model.
\<close>

subsection \<open>JavaScript numbers in the change computation\<close>

datatype js_num = Fin js_number | Pos_inf | Neg_inf | NaN

definition js_div :: "js_number \<Rightarrow> js_number \<Rightarrow> js_num" where
  "js_div a b =
     (if b \<noteq> 0 then Fin (a / b)
      else if a > 0 then Pos_inf else if a < 0 then Neg_inf else NaN)"

text \<open>\<open>b\<close> is never zero in the service's use (it is the constant 100); only signs of
  infinities can change.\<close>

fun js_mul :: "js_num \<Rightarrow> js_number \<Rightarrow> js_num" where
  "js_mul (Fin a) b = Fin (a * b)"
| "js_mul Pos_inf b = (if b > 0 then Pos_inf else if b < 0 then Neg_inf else NaN)"
| "js_mul Neg_inf b = (if b > 0 then Neg_inf else if b < 0 then Pos_inf else NaN)"
| "js_mul NaN b = NaN"

fun js_gt0 :: "js_num \<Rightarrow> bool" where
  "js_gt0 (Fin a) = (a > 0)"
| "js_gt0 Pos_inf = True"
| "js_gt0 Neg_inf = False"
| "js_gt0 NaN = False"

subsection \<open>toFixed(2)\<close>

definition digit_char :: "nat \<Rightarrow> char" where
  "digit_char d = ''0123456789'' ! d"

fun show_nat :: "nat \<Rightarrow> string" where
  "show_nat n = (if n < 10 then [digit_char n] else show_nat (n div 10) @ [digit_char (n mod 10)])"

declare show_nat.simps [simp del]

text \<open>The digits of \<open>|x|\<close> rounded to hundredths: the integer \<open>n\<close> nearest to
  \<open>100 |x|\<close>, the larger on a tie, as the specification of \<open>toFixed\<close> says.\<close>

definition fixed2_digits :: "js_number \<Rightarrow> string" where
  "fixed2_digits x =
     (let n = nat \<lfloor>\<bar>x\<bar> * 100 + 1 / 2\<rfloor>
      in show_nat (n div 100) @ ''.'' @ [digit_char (n mod 100 div 10), digit_char (n mod 10)])"

fun js_to_fixed2 :: "js_num \<Rightarrow> string" where
  "js_to_fixed2 (Fin x) = (if x < 0 then ''-'' @ fixed2_digits x else fixed2_digits x)"
| "js_to_fixed2 Pos_inf = ''Infinity''"
| "js_to_fixed2 Neg_inf = ''-Infinity''"
| "js_to_fixed2 NaN = ''NaN''"

definition format_change_percent :: "js_num \<Rightarrow> string" where
  "format_change_percent v =
     (if js_gt0 v then ''+'' @ js_to_fixed2 v @ ''%'' else js_to_fixed2 v @ ''%'')"

subsection \<open>Strings\<close>

definition js_is_space :: "char \<Rightarrow> bool" where
  "js_is_space c \<longleftrightarrow> of_char c = (32::nat) \<or> (9 \<le> (of_char c::nat) \<and> (of_char c::nat) \<le> 13)"

definition js_trim :: "string \<Rightarrow> string" where
  "js_trim s = rev (dropWhile js_is_space (rev (dropWhile js_is_space s)))"

definition js_lower_char :: "char \<Rightarrow> char" where
  "js_lower_char c =
     (if 65 \<le> (of_char c::nat) \<and> (of_char c::nat) \<le> 90 then char_of (of_char c + (32::nat)) else c)"

definition js_lower :: "string \<Rightarrow> string" where
  "js_lower s = map js_lower_char s"

text \<open>\<open>s.includes(sub)\<close>: \<open>sub\<close> occurs in \<open>s\<close> at some position, searched
  from the left.\<close>

fun js_includes :: "string \<Rightarrow> string \<Rightarrow> bool" where
  "js_includes [] sub = (sub = [])"
| "js_includes (c # s) sub = (prefix sub (c # s) \<or> js_includes s sub)"

subsection \<open>Raw backend records and their mappings\<close>

text \<open>An element of \<open>GET /stocks\<close> and a position of \<open>GET /portfolio\<close>, with the
  fields the service reads.\<close>

record raw_stock =
  raw_symbol :: string
  full_name :: string
  ask :: js_number
  raw_open :: js_number
  raw_close :: js_number
  raw_volume :: js_number
  raw_market_cap :: js_number
  raw_logo :: string
  raw_low :: js_number
  raw_high :: js_number

record raw_position =
  pos_symbol :: string
  current_price :: js_number
  pos_change_percent :: "js_number option"
  quantity :: js_number
  market_value :: js_number

record raw_portfolio =
  total_value :: js_number
  positions :: "raw_position list"

text \<open>The change in percent of a quote: \<open>((close - open) / open) * 100\<close>.\<close>

definition raw_change_percent :: "raw_stock \<Rightarrow> js_num" where
  "raw_change_percent r = js_mul (js_div (raw_close r - raw_open r) (raw_open r)) 100"

definition map_raw_stock :: "raw_stock \<Rightarrow> stock_instrument" where
  "map_raw_stock r =
     \<lparr>symbol = raw_symbol r, name = full_name r, price = ask r,
      change_percent = format_change_percent (raw_change_percent r),
      shares = None, logo = Some (raw_logo r), market_cap = Some (raw_market_cap r / 1000000),
      volume = Some (raw_volume r),
      day_range = Some \<lparr>low = raw_low r, high = raw_high r\<rparr>\<rparr>"

text \<open>\<open>position.changePercent || 0\<close>: an absent change counts as zero.\<close>

definition map_position :: "raw_position \<Rightarrow> portfolio_holding" where
  "map_position p =
     \<lparr>holding_stock =
        \<lparr>symbol = pos_symbol p, name = [], price = current_price p,
         change_percent = format_change_percent
           (Fin (case pos_change_percent p of None \<Rightarrow> 0 | Some c \<Rightarrow> c)),
         shares = None, logo = Some [], market_cap = Some 0, volume = Some 0, day_range = None\<rparr>,
      holding_shares = quantity p, current_value = market_value p\<rparr>"

definition map_portfolio :: "raw_portfolio \<Rightarrow> portfolio" where
  "map_portfolio d = \<lparr>total_equity = total_value d, holdings = map map_position (positions d)\<rparr>"

definition map_search_stock :: "raw_stock \<Rightarrow> search_result" where
  "map_search_stock r = \<lparr>sr_stock = map_raw_stock r, search_type = Some Search_tag\<rparr>"

text \<open>The client-side search filter of \<open>searchStocks\<close>.\<close>

definition search_matches :: "string \<Rightarrow> raw_stock \<Rightarrow> bool" where
  "search_matches query r \<longleftrightarrow>
     js_includes (js_lower (raw_symbol r)) (js_lower query)
     \<or> js_includes (js_lower (full_name r)) (js_lower query)"

subsection \<open>The stock card\<close>

datatype change_color = Success | Danger

definition get_change_color :: "stock_instrument \<Rightarrow> change_color" where
  "get_change_color s = (if prefix ''+'' (change_percent s) then Success else Danger)"

subsection \<open>Reading a fixed-point string back\<close>

text \<open>What a \<open>toFixed(2)\<close> string denotes: an optional minus sign, the digits before
  the point, two digits after it.  These readers state what the formatting promises;
  the program does not parse the strings.\<close>

definition read_digits :: "string \<Rightarrow> nat" where
  "read_digits s = foldl (\<lambda>acc c. 10 * acc + (of_char c - 48)) 0 s"

definition decimal_value :: "string \<Rightarrow> js_number" where
  "decimal_value t =
     of_nat (read_digits (takeWhile (\<lambda>c. c \<noteq> CHR ''.'') t))
     + of_nat (read_digits (drop 1 (dropWhile (\<lambda>c. c \<noteq> CHR ''.'') t))) / 100"

definition parse_fixed2 :: "string \<Rightarrow> js_number" where
  "parse_fixed2 s = (if take 1 s = ''-'' then - decimal_value (drop 1 s) else decimal_value s)"

text \<open>A quote of \<open>GET /stocks\<close> with the given open and close, for the examples.\<close>

definition sample_quote :: "js_number \<Rightarrow> js_number \<Rightarrow> raw_stock" where
  "sample_quote op cl = \<lparr>raw_symbol = ''AAPL'', full_name = ''Apple Inc.'', ask = 190, raw_open = op,
     raw_close = cl, raw_volume = 1000, raw_market_cap = 3000000000000, raw_logo = [],
     raw_low = 180, raw_high = 195\<rparr>"

subsection \<open>Evaluation and basic lemmas\<close>

lemma js_includes_sublist: "js_includes s sub \<longleftrightarrow> sublist sub s"
  by (induction s) (auto simp: sublist_Cons_right)

lemma digit_char_value: "d < 10 \<Longrightarrow> of_char (digit_char d) = (48 + d :: nat)"
proof -
  assume "d < 10"
  then have "d \<in> {0,1,2,3,4,5,6,7,8,9}" by auto
  then show ?thesis by (auto simp: digit_char_def)
qed

lemma digit_char_not_special:
  "d < 10 \<Longrightarrow> digit_char d \<noteq> CHR ''.'' \<and> digit_char d \<noteq> CHR ''+'' \<and> digit_char d \<noteq> CHR ''-''"
proof -
  assume "d < 10"
  then have "d \<in> {0,1,2,3,4,5,6,7,8,9}" by auto
  then show ?thesis by (auto simp: digit_char_def)
qed

lemma show_nat_nonempty: "show_nat n \<noteq> []"
  by (subst show_nat.simps) simp

lemma show_nat_lt: "n < 10 \<Longrightarrow> show_nat n = [digit_char n]"
  by (subst show_nat.simps) simp

lemma show_nat_ge: "\<not> n < 10 \<Longrightarrow> show_nat n = show_nat (n div 10) @ [digit_char (n mod 10)]"
  by (subst show_nat.simps) simp

lemma show_nat_chars: "c \<in> set (show_nat n) \<Longrightarrow> \<exists>d < 10. c = digit_char d"
proof (induction n rule: show_nat.induct)
  case (1 n)
  show ?case
  proof (cases "n < 10")
    case True
    with "1.prems" have "c = digit_char n" by (simp add: show_nat_lt)
    with True show ?thesis by blast
  next
    case False
    with "1.prems" have "c \<in> set (show_nat (n div 10)) \<or> c = digit_char (n mod 10)"
      by (auto simp: show_nat_ge)
    then show ?thesis
    proof
      assume "c \<in> set (show_nat (n div 10))"
      with False "1.IH" show ?thesis by blast
    next
      assume "c = digit_char (n mod 10)"
      then show ?thesis by (intro exI [of _ "n mod 10"]) simp
    qed
  qed
qed

lemma show_nat_no_special:
  "c \<in> set (show_nat n) \<Longrightarrow> c \<noteq> CHR ''.'' \<and> c \<noteq> CHR ''+'' \<and> c \<noteq> CHR ''-''"
proof -
  assume "c \<in> set (show_nat n)"
  then obtain d where "d < 10" "c = digit_char d" using show_nat_chars by blast
  then show ?thesis using digit_char_not_special by simp
qed

lemma read_show_nat: "read_digits (show_nat n) = n"
proof (induction n rule: show_nat.induct)
  case (1 n)
  show ?case
  proof (cases "n < 10")
    case True
    then show ?thesis by (simp add: show_nat_lt read_digits_def digit_char_value)
  next
    case False
    with "1.IH" have "read_digits (show_nat (n div 10)) = n div 10" by simp
    then show ?thesis
      using False by (simp add: show_nat_ge read_digits_def digit_char_value)
  qed
qed

lemma show_nat_head:
  "\<exists>c cs. show_nat n = c # cs \<and> c \<noteq> CHR ''+'' \<and> c \<noteq> CHR ''-'' \<and> c \<noteq> CHR ''.''"
proof -
  obtain c cs where c: "show_nat n = c # cs"
    by (metis list.exhaust show_nat_nonempty)
  then have "c \<in> set (show_nat n)" by simp
  with c show ?thesis using show_nat_no_special by blast
qed

lemma js_to_fixed2_no_plus: "\<not> prefix ''+'' (js_to_fixed2 v @ s)"
proof (cases v)
  case (Fin x)
  from show_nat_head obtain c cs
    where "show_nat (nat \<lfloor>\<bar>x\<bar> * 100 + 1 / 2\<rfloor> div 100) = c # cs" "c \<noteq> CHR ''+''"
    by blast
  with Fin show ?thesis by (auto simp: fixed2_digits_def Let_def)
qed simp_all

lemma takeWhile_show_nat: "takeWhile (\<lambda>c. c \<noteq> CHR ''.'') (show_nat n @ rest) = show_nat n @ takeWhile (\<lambda>c. c \<noteq> CHR ''.'') rest"
  using show_nat_no_special [of _ n] by (subst takeWhile_append2) auto

lemma dropWhile_show_nat: "dropWhile (\<lambda>c. c \<noteq> CHR ''.'') (show_nat n @ rest) = dropWhile (\<lambda>c. c \<noteq> CHR ''.'') rest"
  using show_nat_no_special [of _ n] by (subst dropWhile_append2) auto

lemma ten_digits: "10 * (n mod 100 div 10) + n mod 10 = (n::nat) mod 100"
proof -
  have "n mod 100 mod 10 = n mod 10" by (simp add: mod_mod_cancel)
  then show ?thesis by (metis div_mult_mod_eq mult.commute)
qed

lemma fixed2_digits_value:
  "decimal_value (fixed2_digits x) = of_nat (nat \<lfloor>\<bar>x\<bar> * 100 + 1 / 2\<rfloor>) / 100"
proof -
  let ?n = "nat \<lfloor>\<bar>x\<bar> * 100 + 1 / 2\<rfloor>"
  have d1: "?n mod 100 div 10 < 10" and d2: "?n mod 10 < 10" by simp_all
  have "read_digits [digit_char (?n mod 100 div 10), digit_char (?n mod 10)]
        = 10 * (?n mod 100 div 10) + ?n mod 10"
    by (simp add: read_digits_def digit_char_value [OF d1] digit_char_value [OF d2])
  then have r: "read_digits [digit_char (?n mod 100 div 10), digit_char (?n mod 10)] = ?n mod 100"
    by (simp only: ten_digits)
  have "(of_nat ?n :: js_number) = 100 * of_nat (?n div 100) + of_nat (?n mod 100)"
    by (metis div_mult_mod_eq mult.commute of_nat_add of_nat_mult of_nat_numeral)
  then have eq: "of_nat (?n div 100) + of_nat (?n mod 100) / 100 = (of_nat ?n / 100 :: js_number)"
    by (simp add: field_simps)
  have "decimal_value (fixed2_digits x) = of_nat (?n div 100) + of_nat (?n mod 100) / 100"
    unfolding decimal_value_def fixed2_digits_def Let_def
    by (simp only: takeWhile_show_nat dropWhile_show_nat) (simp add: read_show_nat r)
  then show ?thesis using eq by (rule trans)
qed

lemma round_hundredths_bound:
  "\<bar>(of_nat (nat \<lfloor>y * 100 + 1 / 2\<rfloor>) / 100 :: js_number) - y\<bar> \<le> 1 / 200" if "0 \<le> y"
proof -
  let ?f = "\<lfloor>y * 100 + 1 / 2\<rfloor>"
  let ?a = "(of_int ?f :: js_number)"
  have f0: "0 \<le> ?f" using that by simp
  have fl: "?a \<le> y * 100 + 1 / 2 \<and> y * 100 + 1 / 2 < of_int (?f + 1)"
    by (rule floor_correct)
  then have "y * 100 + 1 / 2 < ?a + 1" by simp
  with fl have h1: "?a - y * 100 \<le> 1 / 2" and h2: "y * 100 - ?a < 1 / 2" by linarith+
  have "\<bar>?a - y * 100\<bar> \<le> 1 / 2" using h1 h2 by (intro abs_leI) linarith+
  moreover have "\<bar>?a / 100 - y\<bar> = \<bar>?a - y * 100\<bar> / 100"
  proof -
    have "?a / 100 - y = (?a - y * 100) / 100" by (simp add: field_simps)
    then show ?thesis by (simp only: abs_divide abs_numeral)
  qed
  moreover have "(of_nat (nat ?f) :: js_number) = ?a" using f0 by simp
  ultimately show ?thesis by linarith
qed

lemma fixed2_digits_head: "take 1 (fixed2_digits x) \<noteq> ''-''"
proof -
  from show_nat_head obtain c cs
    where "show_nat (nat \<lfloor>\<bar>x\<bar> * 100 + 1 / 2\<rfloor> div 100) = c # cs" "c \<noteq> CHR ''-''"
    by blast
  then show ?thesis by (simp add: fixed2_digits_def Let_def)
qed

lemma to_fixed2_example: "js_to_fixed2 (Fin (12345/10)) = ''1234.50''"
  by (simp add: fixed2_digits_def show_nat_lt show_nat_ge digit_char_def)

subsection \<open>Properties of the formatting\<close>

text \<open>C14: The change-percent formatting starts with a plus sign exactly when the value is positive: zero, negative and NaN values never get one.\<close>

theorem format_change_percent_sign:
  "prefix ''+'' (format_change_percent v) \<longleftrightarrow> js_gt0 v"
  using js_to_fixed2_no_plus [of v "''%''"] by (simp add: format_change_percent_def)

text \<open>C15: For a quote with a positive open, the stock card built from the mapped instrument is green exactly when the close is above the open.\<close>

theorem change_color_quote:
  "0 < raw_open r \<Longrightarrow>
   get_change_color (map_raw_stock r) = Success \<longleftrightarrow> raw_open r < raw_close r"
  by (simp add: get_change_color_def map_raw_stock_def format_change_percent_sign
      raw_change_percent_def js_div_def zero_less_divide_iff)

theorem change_color_quote_witness:
  "get_change_color (map_raw_stock (sample_quote 100 110)) = Success"
  using change_color_quote [of "sample_quote 100 110"] by (simp add: sample_quote_def)

text \<open>The model of \<open>toFixed(2)\<close> is exact to half a cent: the decimal string it prints denotes a
  value within 1/200 of the number, negative ones and ties included.  (JavaScript prints
  exponent notation from \<open>10^21\<close> on; the model prints digits there.)\<close>

theorem to_fixed2_roundtrip:
  "\<bar>parse_fixed2 (js_to_fixed2 (Fin x)) - x\<bar> \<le> 1 / 200"
proof -
  define N where "N = (of_nat (nat \<lfloor>\<bar>x\<bar> * 100 + 1 / 2\<rfloor>) / 100 :: js_number)"
  have b: "\<bar>N - \<bar>x\<bar>\<bar> \<le> 1 / 200"
    unfolding N_def by (rule round_hundredths_bound) simp
  have v: "decimal_value (fixed2_digits x) = N"
    unfolding N_def by (rule fixed2_digits_value)
  show ?thesis
  proof (cases "x < 0")
    case True
    then have "parse_fixed2 (js_to_fixed2 (Fin x)) = - N"
      using v by (simp add: parse_fixed2_def)
    moreover have "- N - x = - (N - \<bar>x\<bar>)" using True by simp
    ultimately show ?thesis using b by (simp only: abs_minus_cancel)
  next
    case False
    then have "parse_fixed2 (js_to_fixed2 (Fin x)) = N"
      using v fixed2_digits_head [of x] by (simp add: parse_fixed2_def)
    with False b show ?thesis by simp
  qed
qed

text \<open>C16: A quote that closed at its open is shown as 0.00% without a plus sign, and the stock card colours it as a loss (danger).\<close>

theorem flat_quote_danger:
  "raw_open r \<noteq> 0 \<Longrightarrow> raw_close r = raw_open r \<Longrightarrow>
   change_percent (map_raw_stock r) = ''0.00%'' \<and> get_change_color (map_raw_stock r) = Danger"
  by (simp add: map_raw_stock_def raw_change_percent_def js_div_def format_change_percent_def
      fixed2_digits_def show_nat_lt digit_char_def get_change_color_def)

theorem flat_quote_danger_witness:
  "change_percent (map_raw_stock (sample_quote 100 100)) = ''0.00%'' \<and>
   get_change_color (map_raw_stock (sample_quote 100 100)) = Danger"
  using flat_quote_danger [of "sample_quote 100 100"] by (simp add: sample_quote_def)

end
