(* ===== verification/Service.thy ===== *)
theory Service
  imports Service_Format
begin

text \<open>
  \<open>StockService\<close> of \<open>src/src/app/shared/services/stock.service.ts\<close>: its state
  (the in-memory recent searches and the browser's \<open>localStorage\<close>), its constructor,
  and its endpoints.
  \<^item> The recent searches are kept as the JavaScript objects they are at run time:
    JSON values (\<open>json\<close>).  The app writes them with \<open>JSON.stringify\<close> of a
    \<open>StockInstrument\<close> (\<open>stock_to_json\<close>) and reads them back with \<open>JSON.parse\<close>;
    the text level is not modelled, a stored value is either a parsed JSON value or text
    that \<open>JSON.parse\<close> rejects (\<open>Unparsable\<close>).  Where the code treats such an object
    as a \<open>StockInstrument\<close> (a TypeScript cast), \<open>json_to_stock\<close> reads its fields.
  \<^item> The constructor's \<open>try\<close>/\<open>catch\<close> is a sum: \<open>cached_filter\<close> returns \<open>Inl\<close> when
    the filter's property access throws (a \<open>null\<close> element), and the constructor then
    keeps the empty list.
  \<^item> An endpoint that calls the backend takes the HTTP outcome (\<open>http_result\<close>) and
    returns what its observable emits (\<open>call_result\<close>): a response or an error.
  The \<open>console\<close> output, the response timestamps, the order receipt and the purchase
  message (which no code reads) are not modelled; the delays are in the effects model.
\<close>

subsection \<open>JSON values\<close>

datatype json =
    JNull
  | JBool bool
  | JNum js_number
  | JStr string
  | JArr "json list"
  | JObj "(string \<times> json) list"

text \<open>Property access on a parsed value: a missing property is \<open>None\<close>
  (\<open>undefined\<close>); \<open>JSON.parse\<close> keeps the last of duplicate keys.\<close>

fun json_get :: "json \<Rightarrow> string \<Rightarrow> json option" where
  "json_get (JObj fs) k = map_of (rev fs) k"
| "json_get _ k = None"

fun json_truthy :: "json option \<Rightarrow> bool" where
  "json_truthy None = False"
| "json_truthy (Some JNull) = False"
| "json_truthy (Some (JBool b)) = b"
| "json_truthy (Some (JNum n)) = (n \<noteq> 0)"
| "json_truthy (Some (JStr s)) = (s \<noteq> [])"
| "json_truthy (Some (JArr _)) = True"
| "json_truthy (Some (JObj _)) = True"

definition opt_field :: "string \<Rightarrow> json option \<Rightarrow> (string \<times> json) list" where
  "opt_field k v = (case v of None \<Rightarrow> [] | Some j \<Rightarrow> [(k, j)])"

text \<open>\<open>JSON.stringify\<close> of an instrument: \<open>undefined\<close> properties are left out.\<close>

definition stock_to_json :: "stock_instrument \<Rightarrow> json" where
  "stock_to_json s = JObj
     ([(''symbol'', JStr (symbol s)), (''name'', JStr (name s)), (''price'', JNum (price s)),
       (''changePercent'', JStr (change_percent s))]
      @ opt_field ''shares'' (map_option JNum (shares s))
      @ opt_field ''logo'' (map_option JStr (logo s))
      @ opt_field ''marketCap'' (map_option JNum (market_cap s))
      @ opt_field ''volume'' (map_option JNum (volume s))
      @ opt_field ''dayRange''
          (map_option (\<lambda>r. JObj [(''low'', JNum (low r)), (''high'', JNum (high r))]) (day_range s)))"

fun json_str :: "json option \<Rightarrow> string" where
  "json_str (Some (JStr s)) = s"
| "json_str _ = []"

fun json_num :: "json option \<Rightarrow> js_number" where
  "json_num (Some (JNum n)) = n"
| "json_num _ = 0"

fun json_opt_num :: "json option \<Rightarrow> js_number option" where
  "json_opt_num (Some (JNum n)) = Some n"
| "json_opt_num _ = None"

fun json_opt_str :: "json option \<Rightarrow> string option" where
  "json_opt_str (Some (JStr s)) = Some s"
| "json_opt_str _ = None"

fun json_range :: "json option \<Rightarrow> day_range option" where
  "json_range (Some (JObj fs)) =
     Some \<lparr>low = json_num (json_get (JObj fs) ''low''), high = json_num (json_get (JObj fs) ''high'')\<rparr>"
| "json_range _ = None"

text \<open>The fields of an object the code treats as a \<open>StockInstrument\<close>.\<close>

definition json_to_stock :: "json \<Rightarrow> stock_instrument" where
  "json_to_stock j =
     \<lparr>symbol = json_str (json_get j ''symbol''), name = json_str (json_get j ''name''),
      price = json_num (json_get j ''price''),
      change_percent = json_str (json_get j ''changePercent''),
      shares = json_opt_num (json_get j ''shares''), logo = json_opt_str (json_get j ''logo''),
      market_cap = json_opt_num (json_get j ''marketCap''),
      volume = json_opt_num (json_get j ''volume''),
      day_range = json_range (json_get j ''dayRange'')\<rparr>"

subsection \<open>Service state and constructor\<close>

datatype storage_value = Parsed json | Unparsable string

record service_state =
  svc_recent :: "json list"
  svc_storage :: "string \<Rightarrow> storage_value option"

definition recent_searches_key :: string where
  "recent_searches_key = ''app_recent_searches_v1''"

text \<open>\<open>!!s.symbol && !!s.name && typeof s.price === 'number'\<close>; reading a property of
  \<open>null\<close> throws.\<close>

fun cached_entry_ok :: "json \<Rightarrow> unit + bool" where
  "cached_entry_ok JNull = Inl ()"
| "cached_entry_ok j =
     Inr (json_truthy (json_get j ''symbol'') \<and> json_truthy (json_get j ''name'')
          \<and> (case json_get j ''price'' of Some (JNum _) \<Rightarrow> True | _ \<Rightarrow> False))"

text \<open>\<open>parsed.filter(...)\<close>: the first throwing element aborts the whole filter.\<close>

fun cached_filter :: "json list \<Rightarrow> unit + json list" where
  "cached_filter [] = Inr []"
| "cached_filter (j # js) =
     (case cached_entry_ok j of
        Inl e \<Rightarrow> Inl e
      | Inr ok \<Rightarrow> (case cached_filter js of
                    Inl e \<Rightarrow> Inl e
                  | Inr rest \<Rightarrow> Inr (if ok then j # rest else rest)))"

text \<open>The constructor: \<open>localStorage.getItem\<close>, \<open>JSON.parse\<close>, the array check and the
  filter, inside \<open>try\<close>; on any exception the list stays empty.  An empty stored text is
  falsy and skipped, and any other unparsable text throws: both leave the list empty.\<close>

definition load_cached_recent :: "storage_value option \<Rightarrow> json list" where
  "load_cached_recent cached =
     (case cached of
        None \<Rightarrow> []
      | Some (Unparsable _) \<Rightarrow> []
      | Some (Parsed (JArr xs)) \<Rightarrow> (case cached_filter xs of Inl _ \<Rightarrow> [] | Inr ys \<Rightarrow> ys)
      | Some (Parsed _) \<Rightarrow> [])"

definition service_init :: "(string \<Rightarrow> storage_value option) \<Rightarrow> service_state" where
  "service_init storage =
     \<lparr>svc_recent = load_cached_recent (storage recent_searches_key), svc_storage = storage\<rparr>"

subsection \<open>Endpoints\<close>

datatype 'a http_result = Http_ok 'a | Http_error "string option"

datatype 'a call_result = Call_ok "'a api_response" | Call_error "string option"

definition ok_response :: "'a \<Rightarrow> 'a api_response" where
  "ok_response d = \<lparr>data = d, success = True, message = None\<rparr>"

definition get_portfolio_s :: "raw_portfolio http_result \<Rightarrow> portfolio call_result" where
  "get_portfolio_s r =
     (case r of Http_ok d \<Rightarrow> Call_ok (ok_response (map_portfolio d)) | Http_error m \<Rightarrow> Call_error m)"

definition get_stocks_s :: "raw_stock list http_result \<Rightarrow> stock_instrument list call_result" where
  "get_stocks_s r =
     (case r of Http_ok d \<Rightarrow> Call_ok (ok_response (map map_raw_stock d)) | Http_error m \<Rightarrow> Call_error m)"

definition get_trending_stocks_s :: "trending_stock list http_result \<Rightarrow> trending_stock list call_result" where
  "get_trending_stocks_s r =
     (case r of Http_ok d \<Rightarrow> Call_ok (ok_response d) | Http_error m \<Rightarrow> Call_error m)"

text \<open>\<open>searchStocks(query)\<close>: a blank query answers at once with no results and makes
  no request (\<open>search_needs_backend\<close>); otherwise \<open>GET /stocks\<close> filtered by the
  query.\<close>

definition search_needs_backend :: "string \<Rightarrow> bool" where
  "search_needs_backend query \<longleftrightarrow> js_trim query \<noteq> []"

definition search_stocks_s :: "string \<Rightarrow> raw_stock list http_result \<Rightarrow> search_result list call_result" where
  "search_stocks_s query r =
     (if \<not> search_needs_backend query then Call_ok (ok_response [])
      else (case r of
              Http_ok d \<Rightarrow> Call_ok (ok_response (map map_search_stock (filter (search_matches query) d)))
            | Http_error m \<Rightarrow> Call_error m))"

definition get_recent_searches_s :: "service_state \<Rightarrow> search_result list call_result" where
  "get_recent_searches_s st =
     Call_ok (ok_response (map (\<lambda>j. \<lparr>sr_stock = json_to_stock j, search_type = Some Recent_tag\<rparr>)
                              (svc_recent st)))"

text \<open>\<open>placeOrder\<close> always answers with a filled order.\<close>

definition place_order_s :: "buy_order \<Rightarrow> unit call_result" where
  "place_order_s order = Call_ok (ok_response ())"

text \<open>\<open>addToRecentSearches(stock)\<close>: the same findIndex/splice/unshift/slice as the reducer,
  on the service's own list, then \<open>localStorage.setItem\<close>; \<open>write_ok\<close> says whether
  the write succeeds (a failing write is only logged).\<close>

definition add_to_recent_searches_s :: "bool \<Rightarrow> service_state \<Rightarrow> stock_instrument \<Rightarrow> service_state" where
  "add_to_recent_searches_s write_ok st stock =
     (let rs = dedup_unshift_take (\<lambda>j. json_get j ''symbol'') 5 (stock_to_json stock) (svc_recent st)
      in st\<lparr>svc_recent := rs,
            svc_storage := (if write_ok then (svc_storage st)(recent_searches_key \<mapsto> Parsed (JArr rs))
                            else svc_storage st)\<rparr>)"

text \<open>Six instruments with distinct symbols, for the examples.\<close>

definition six_instruments :: "stock_instrument list" where
  "six_instruments =
     [plain_instrument ''A'' ''Alpha'' 1, plain_instrument ''B'' ''Bravo'' 2,
      plain_instrument ''C'' ''Charlie'' 3, plain_instrument ''D'' ''Delta'' 4,
      plain_instrument ''E'' ''Echo'' 5, plain_instrument ''F'' ''Foxtrot'' 6]"

subsection \<open>The type of a stored entry\<close>

text \<open>What the code assumes when it uses a parsed entry as a \<open>StockInstrument\<close>: the
  JSON shape of the interface, required and optional properties with their types.
  \<open>typed_storage\<close> says the stored list has only entries of that shape, as every list
  the app itself writes has; the constructor's check is weaker than the shape
  (\<open>untyped_entry_loaded\<close>).\<close>

fun is_jnum :: "json \<Rightarrow> bool" where
  "is_jnum (JNum _) = True"
| "is_jnum _ = False"

fun is_jstr :: "json \<Rightarrow> bool" where
  "is_jstr (JStr _) = True"
| "is_jstr _ = False"

definition opt_typed :: "(json \<Rightarrow> bool) \<Rightarrow> json option \<Rightarrow> bool" where
  "opt_typed P v = (case v of None \<Rightarrow> True | Some x \<Rightarrow> P x)"

definition req_typed :: "(json \<Rightarrow> bool) \<Rightarrow> json option \<Rightarrow> bool" where
  "req_typed P v = (case v of None \<Rightarrow> False | Some x \<Rightarrow> P x)"

fun is_jrange :: "json \<Rightarrow> bool" where
  "is_jrange (JObj fs) = (req_typed is_jnum (json_get (JObj fs) ''low'') \<and> req_typed is_jnum (json_get (JObj fs) ''high''))"
| "is_jrange _ = False"

definition json_stock_typed :: "json \<Rightarrow> bool" where
  "json_stock_typed j \<longleftrightarrow>
     req_typed is_jstr (json_get j ''symbol'') \<and> req_typed is_jstr (json_get j ''name'')
     \<and> req_typed is_jnum (json_get j ''price'') \<and> req_typed is_jstr (json_get j ''changePercent'')
     \<and> opt_typed is_jnum (json_get j ''shares'') \<and> opt_typed is_jstr (json_get j ''logo'')
     \<and> opt_typed is_jnum (json_get j ''marketCap'') \<and> opt_typed is_jnum (json_get j ''volume'')
     \<and> opt_typed is_jrange (json_get j ''dayRange'')"

definition typed_storage :: "(string \<Rightarrow> storage_value option) \<Rightarrow> bool" where
  "typed_storage storage \<longleftrightarrow>
     (case storage recent_searches_key of Some (Parsed (JArr xs)) \<Rightarrow> list_all json_stock_typed xs | _ \<Rightarrow> True)"

subsection \<open>Lemmas\<close>

lemma stock_json_ok:
  "symbol s \<noteq> [] \<Longrightarrow> name s \<noteq> [] \<Longrightarrow> cached_entry_ok (stock_to_json s) = Inr True"
  by (simp add: stock_to_json_def opt_field_def split: option.split)

lemma cached_filter_all_ok:
  "\<forall>j \<in> set xs. cached_entry_ok j = Inr True \<Longrightarrow> cached_filter xs = Inr xs"
  by (induction xs) auto

lemma cached_filter_null: "JNull \<in> set xs \<Longrightarrow> cached_filter xs = Inl ()"
  by (induction xs) (auto split: sum.split)

lemma set_remove_first: "set (remove_first P xs) \<subseteq> set xs"
  by (induction xs) auto

lemma set_dedup_unshift_take: "set (dedup_unshift_take key n x xs) \<subseteq> insert x (set xs)"
  using set_remove_first
  by (fastforce simp: dedup_unshift_take_remove_first dest: in_set_takeD)

lemma js_lower_char_space: "js_is_space (js_lower_char c) = js_is_space c"
  by (auto simp: js_lower_char_def js_is_space_def)

lemma js_lower_char_idem: "js_lower_char (js_lower_char c) = js_lower_char c"
  by (auto simp: js_lower_char_def)

lemma js_trim_lower: "(js_trim (js_lower q) = []) = (js_trim q = [])"
proof -
  have "dropWhile js_is_space (map js_lower_char q) = map js_lower_char (dropWhile js_is_space q)"
    by (induction q) (simp_all add: js_lower_char_space)
  moreover have "(dropWhile js_is_space (rev xs) = []) = (\<forall>c \<in> set xs. js_is_space c)" for xs
    by (simp add: dropWhile_eq_Nil_conv)
  ultimately show ?thesis
    by (simp add: js_trim_def js_lower_def dropWhile_eq_Nil_conv js_lower_char_space rev_map [symmetric])
qed

lemma json_symbol_stock_to_json: "json_get (stock_to_json s) ''symbol'' = Some (JStr (symbol s))"
  by (simp add: stock_to_json_def opt_field_def split: option.split)
lemma load_cached_all_ok:
  "\<forall>j \<in> set xs. cached_entry_ok j = Inr True \<Longrightarrow>
   load_cached_recent (Some (Parsed (JArr xs))) = xs"
  by (simp add: load_cached_recent_def cached_filter_all_ok)

subsection \<open>Properties of the service\<close>

text \<open>C17: What the service persists it reads back: after an addition whose write succeeds, a new service constructed from the same storage starts with exactly the in-memory list, when the stock has a symbol and a name and the list held only valid entries.\<close>

theorem reload_after_add:
  "\<forall>j \<in> set (svc_recent st). cached_entry_ok j = Inr True \<Longrightarrow>
   symbol stock \<noteq> [] \<Longrightarrow> name stock \<noteq> [] \<Longrightarrow>
   svc_recent (service_init (svc_storage (add_to_recent_searches_s True st stock)))
   = svc_recent (add_to_recent_searches_s True st stock)"
proof -
  assume ok: "\<forall>j \<in> set (svc_recent st). cached_entry_ok j = Inr True"
    and s: "symbol stock \<noteq> []" "name stock \<noteq> []"
  let ?rs = "dedup_unshift_take (\<lambda>j. json_get j ''symbol'') 5 (stock_to_json stock) (svc_recent st)"
  have sub: "set ?rs \<subseteq> insert (stock_to_json stock) (set (svc_recent st))"
    by (rule set_dedup_unshift_take)
  have "\<forall>j \<in> set ?rs. cached_entry_ok j = Inr True"
  proof
    fix j
    assume "j \<in> set ?rs"
    with sub have "j = stock_to_json stock \<or> j \<in> set (svc_recent st)" by blast
    then show "cached_entry_ok j = Inr True" using ok stock_json_ok [OF s] by blast
  qed
  then show ?thesis
    by (simp add: add_to_recent_searches_s_def service_init_def load_cached_all_ok Let_def)
qed

theorem reload_after_add_witness:
  "svc_recent (service_init (svc_storage
     (add_to_recent_searches_s True (service_init Map.empty) (plain_instrument ''AAPL'' ''Apple'' 190))))
   = [stock_to_json (plain_instrument ''AAPL'' ''Apple'' 190)]"
  using reload_after_add [of "service_init Map.empty" "plain_instrument ''AAPL'' ''Apple'' 190"]
  by (simp add: service_init_def load_cached_recent_def add_to_recent_searches_s_def
      dedup_unshift_take_def plain_instrument_def Let_def)

text \<open>C18: A null element in the stored array makes the constructor's filter throw; the exception is caught and the service starts with no recent searches at all, the valid entries included.\<close>

theorem null_entry_empties_cache:
  "JNull \<in> set xs \<Longrightarrow> load_cached_recent (Some (Parsed (JArr xs))) = []"
  by (simp add: load_cached_recent_def cached_filter_null)

theorem null_entry_empties_cache_witness:
  "load_cached_recent (Some (Parsed (JArr [stock_to_json (plain_instrument ''AAPL'' ''Apple'' 190), JNull])))
   = []"
  using null_entry_empties_cache [of "[stock_to_json (plain_instrument ''AAPL'' ''Apple'' 190), JNull]"]
  by simp

text \<open>C19: Loading a stored array keeps every entry that passes the shape check, in order: the load neither bounds the list to five nor removes duplicate symbols.\<close>

theorem load_keeps_valid:
  "\<forall>s \<in> set ss. symbol s \<noteq> [] \<and> name s \<noteq> [] \<Longrightarrow>
   load_cached_recent (Some (Parsed (JArr (map stock_to_json ss)))) = map stock_to_json ss"
  by (rule load_cached_all_ok) (auto intro: stock_json_ok)

theorem load_keeps_valid_witness:
  "length (load_cached_recent (Some (Parsed (JArr (map stock_to_json six_instruments))))) = 6"
  using load_keeps_valid [of six_instruments]
  by (simp add: six_instruments_def plain_instrument_def)

text \<open>C20: A blank query (empty or white space only) is answered at once with no results, whatever the backend would have answered: it never reaches the backend.\<close>

theorem blank_query_no_backend:
  "js_trim q = [] \<Longrightarrow> search_stocks_s q r = Call_ok (ok_response [])"
  by (simp add: search_stocks_s_def search_needs_backend_def)

theorem blank_query_no_backend_witness:
  "js_trim ''  '' = [] \<and> search_stocks_s ''  '' (Http_error None) = Call_ok (ok_response [])"
  using blank_query_no_backend [of "''  ''" "Http_error None"]
  by (simp add: js_trim_def js_is_space_def)

text \<open>Search is case-insensitive in the query: a query and its lower-case form give the same answer on every backend reply.\<close>

theorem search_case_insensitive:
  "search_stocks_s (js_lower q) r = search_stocks_s q r"
proof -
  have "js_lower (js_lower q) = js_lower q"
    by (simp add: js_lower_def comp_def js_lower_char_idem)
  then have m: "search_matches (js_lower q) = search_matches q"
    by (simp add: search_matches_def fun_eq_iff)
  show ?thesis
    unfolding search_stocks_s_def search_needs_backend_def m js_trim_lower ..
qed

text \<open>JSON round trip: reading back the fields of an instrument written by JSON.stringify gives the instrument, for every combination of optional fields.\<close>

theorem json_stock_roundtrip: "json_to_stock (stock_to_json s) = s"
  by (intro stock_instrument.equality)
     (simp_all add: json_to_stock_def stock_to_json_def opt_field_def split: option.split)

lemma stock_to_json_typed: "json_stock_typed (stock_to_json s)"
  by (simp add: json_stock_typed_def stock_to_json_def opt_field_def req_typed_def opt_typed_def
      split: option.split)

lemma cached_filter_subset: "cached_filter xs = Inr ys \<Longrightarrow> set ys \<subseteq> set xs"
  by (induction xs arbitrary: ys) (auto split: sum.splits if_splits)

lemma load_typed:
  "typed_storage storage \<Longrightarrow> list_all json_stock_typed (load_cached_recent (storage recent_searches_key))"
  by (auto simp: typed_storage_def load_cached_recent_def list_all_iff
      dest!: cached_filter_subset [OF sym] split: option.splits storage_value.splits json.splits sum.splits)

lemma add_typed:
  "list_all json_stock_typed (svc_recent st) \<Longrightarrow>
   list_all json_stock_typed (svc_recent (add_to_recent_searches_s w st s))"
  using set_dedup_unshift_take [of "\<lambda>j. json_get j ''symbol''" 5 "stock_to_json s" "svc_recent st"]
    stock_to_json_typed [of s]
  by (auto simp: add_to_recent_searches_s_def Let_def list_all_iff)

text \<open>The constructor's check accepts an entry without \<open>changePercent\<close>, which the
  stock card then reads with \<open>startsWith\<close>.\<close>

lemma untyped_entry_loaded:
  "load_cached_recent (Some (Parsed (JArr [JObj [(''symbol'', JStr ''A''), (''name'', JStr ''Alpha''), (''price'', JNum 1)]])))
     = [JObj [(''symbol'', JStr ''A''), (''name'', JStr ''Alpha''), (''price'', JNum 1)]]
   \<and> \<not> json_stock_typed (JObj [(''symbol'', JStr ''A''), (''name'', JStr ''Alpha''), (''price'', JNum 1)])"
  by (simp add: load_cached_recent_def json_stock_typed_def req_typed_def)
end
