(* ===== verification/Routing.thy ===== *)
theory Routing
  imports Prelude
begin

text \<open>
  The route tables of \<open>src/src/app/tabs/tabs-routing.module.ts\<close>,
  \<open>tab-invest/tab-invest-routing.module.ts\<close> and
  \<open>tab-discover/tab-discover-routing.module.ts\<close>, and how the Angular router resolves a
  URL against them.  A route is its \<open>path\<close>, whether \<open>pathMatch: 'full'\<close> is set, and
  its target: a component with its \<open>children\<close>, a lazily loaded module (the routes of
  its \<open>RouterModule.forChild\<close>), or a \<open>redirectTo\<close> URL.  \<open>recognize\<close> follows the
  router's matching: routes are tried in order, a path matches a prefix of the remaining
  segments (all of them under \<open>'full'\<close>), a matched route that cannot consume the rest
  of the URL is passed over, an empty remainder needs no further route, and an absolute
  redirect starts matching again from the root table.  A redirect uses one unit of fuel,
  so a table whose redirects loop gives \<open>Out_of_fuel\<close> rather than no value.  The root
  \<open>AppRoutingModule\<close> is not in the repository; the tabs table is taken as the root
  table, as its absolute redirect target \<open>/tabs/tab-invest\<close> presumes.
\<close>

subsection \<open>Route tables\<close>

datatype component = Tabs_page | Tab_invest_page | Tab_discover_page

datatype route = Route string bool target
and target = Comp component "route list" | Lazy "route list" | Redirect string

datatype nav_result = Activated "component list" | No_match "string list" | Out_of_fuel

text \<open>The path segments of a URL: the path ends at the query string (\<open>?\<close>) or the
  fragment (\<open>#\<close>); its parts between slashes, empty parts dropped.  This is a reading of
  the simple URLs the tables and the start-up use, not Angular's \<open>DefaultUrlSerializer\<close>
  (matrix parameters, outlets and percent-decoding are not modelled); the claim about
  the router is stated over the segment lists it hands to matching.\<close>

fun url_segments_aux :: "string \<Rightarrow> string \<Rightarrow> string list" where
  "url_segments_aux cur [] = (if cur = [] then [] else [rev cur])"
| "url_segments_aux cur (c # cs) =
     (if c = CHR ''/'' then (if cur = [] then [] else [rev cur]) @ url_segments_aux [] cs
      else url_segments_aux (c # cur) cs)"

definition url_segments :: "string \<Rightarrow> string list" where
  "url_segments u = url_segments_aux [] (takeWhile (\<lambda>c. c \<noteq> CHR ''?'' \<and> c \<noteq> CHR ''#'') u)"

definition tab_invest_routes :: "route list" where
  "tab_invest_routes = [Route '''' False (Comp Tab_invest_page [])]"

definition tab_discover_routes :: "route list" where
  "tab_discover_routes = [Route '''' False (Comp Tab_discover_page [])]"

definition tabs_routes :: "route list" where
  "tabs_routes =
     [Route ''tabs'' False
        (Comp Tabs_page
          [Route ''tab-invest'' False (Lazy tab_invest_routes),
           Route ''tab-discover'' False (Lazy tab_discover_routes),
           Route '''' True (Redirect ''/tabs/tab-invest'')]),
      Route '''' True (Redirect ''/tabs/tab-invest'')]"

subsection \<open>Recognition\<close>

text \<open>The outcome of matching one level: the components matched, no route matching
  (the caller tries its next route), or the final outcome of an absolute redirect,
  which replaces the whole match.\<close>

datatype match_result = Matched "component list" | Unmatched | Final nav_result

fun to_nav :: "string list \<Rightarrow> match_result \<Rightarrow> nav_result" where
  "to_nav segs (Matched cs) = Activated cs"
| "to_nav segs Unmatched = No_match segs"
| "to_nav segs (Final r) = r"

text \<open>\<open>recognize n tbl rs segs\<close>: match the segments \<open>segs\<close> against the routes \<open>rs\<close>
  of one level, with \<open>n\<close> redirects left and \<open>tbl\<close> the table an absolute redirect
  restarts from.\<close>

fun recognize :: "nat \<Rightarrow> route list \<Rightarrow> route list \<Rightarrow> string list \<Rightarrow> match_result" where
  "recognize n tbl [] segs = (if segs = [] then Matched [] else Unmatched)"
| "recognize n tbl (Route p full t # rs) segs =
     (let ps = url_segments p
      in if prefix ps segs \<and> (full \<longrightarrow> ps = segs) then
           (case t of
              Redirect u \<Rightarrow>
                (case n of
                   0 \<Rightarrow> Final Out_of_fuel
                 | Suc m \<Rightarrow> Final (to_nav (url_segments u) (recognize m tbl tbl (url_segments u))))
            | Comp c ch \<Rightarrow>
                (case recognize n tbl ch (drop (length ps) segs) of
                   Matched cs \<Rightarrow> Matched (c # cs)
                 | Unmatched \<Rightarrow> recognize n tbl rs segs
                 | Final r \<Rightarrow> Final r)
            | Lazy ch \<Rightarrow>
                (case recognize n tbl ch (drop (length ps) segs) of
                   Unmatched \<Rightarrow> recognize n tbl rs segs
                 | r \<Rightarrow> r))
         else recognize n tbl rs segs)"

text \<open>Navigation to a URL in the application, with one redirect allowed.\<close>

definition navigate :: "string \<Rightarrow> nav_result" where
  "navigate u = to_nav (url_segments u) (recognize 1 tabs_routes tabs_routes (url_segments u))"

subsection \<open>Lemmas\<close>

lemmas route_tables = Let_def tabs_routes_def tab_invest_routes_def tab_discover_routes_def url_segments_def

text \<open>The start URL and the tabs' URLs, with and without a query string.\<close>

lemma navigate_tabs:
  "navigate '''' = Activated [Tabs_page, Tab_invest_page]
   \<and> navigate ''/tabs'' = Activated [Tabs_page, Tab_invest_page]
   \<and> navigate ''/tabs/tab-invest'' = Activated [Tabs_page, Tab_invest_page]
   \<and> navigate ''/tabs/tab-discover'' = Activated [Tabs_page, Tab_discover_page]
   \<and> navigate ''/tabs/tab-discover?x=1#top'' = Activated [Tabs_page, Tab_discover_page]"
  by (simp add: navigate_def route_tables)

subsection \<open>Properties of the route tables\<close>

text \<open>C11: The route tables on every path the router matches: for every list of path
  segments (what the URL parser hands to matching; query string, fragment and matrix
  parameters are not in it), the empty path, \<open>tabs\<close> and \<open>tabs/tab-invest\<close> activate
  the tabs page with the invest tab, \<open>tabs/tab-discover\<close> activates it with the discover
  tab, every other path fails with no matching route, and one redirect of fuel always
  suffices.\<close>

theorem recognize_resolves:
  "to_nav segs (recognize 1 tabs_routes tabs_routes segs) =
     (if segs = [] \<or> segs = [''tabs''] \<or> segs = [''tabs'', ''tab-invest'']
      then Activated [Tabs_page, Tab_invest_page]
      else if segs = [''tabs'', ''tab-discover''] then Activated [Tabs_page, Tab_discover_page]
      else No_match segs)"
proof (cases segs)
  case Nil
  then show ?thesis by (simp add: route_tables)
next
  case (Cons a rest)
  then show ?thesis
    by (cases rest) (auto simp: route_tables prefix_Cons)
qed

end
