(* ===== verification/Effects.thy ===== *)
theory Effects
  imports Service Actions
begin

text \<open>
  The effects of \<open>src/src/app/store/stock.effects.ts\<close>.  Each effect is \<open>ofType\<close>
  followed by \<open>switchMap\<close> into a service call whose emission is mapped to an action:
  \<^item> \<open>effect_request\<close> says which call an action starts (\<open>ofType\<close>), as a
    \<open>request\<close>, and \<open>request_channel\<close> names the effect it belongs to; \<open>switchMap\<close>
    keeps one inner subscription per effect, so a new request of a channel replaces
    the one in flight (the system theory holds the requests in flight);
  \<^item> \<open>effect_outcome\<close> is the \<open>map\<close>/\<open>catchError\<close> pair every data effect shares,
    with its \<open>response.message || default\<close> and \<open>error.message || default\<close>;
  \<^item> \<open>resolve\<close> is the action a request ends in, given what the backend answers
    (\<open>backend\<close>); the recent-search load and the order placement do not reach the
    backend, and \<open>clearOrderAfterSuccess$\<close> ends in \<open>clearBuyOrder\<close> after its delay;
  \<^item> \<open>effect_service\<close> is \<open>addToRecentSearches$\<close>, the one effect that only
    changes the service (\<open>dispatch: false\<close>).
  \<open>getRecentSearches\<close> builds its answer when the effect subscribes and only delays
  its delivery, so \<open>Req_recent\<close> carries that snapshot.  A search for a blank query
  answers with \<open>of(...)\<close> without a delay; the model delivers it as any other answer,
  at a later step.
\<close>

subsection \<open>Mapping a service answer to an action\<close>

definition effect_outcome ::
  "('a \<Rightarrow> action) \<Rightarrow> (string \<Rightarrow> action) \<Rightarrow> string \<Rightarrow> 'a call_result \<Rightarrow> action" where
  "effect_outcome ok fail dflt r =
     (case r of
        Call_ok resp \<Rightarrow> (if success resp then ok (data resp) else fail (msg_or (message resp) dflt))
      | Call_error m \<Rightarrow> fail (msg_or m dflt))"

definition load_portfolio_outcome :: "portfolio call_result \<Rightarrow> action" where
  "load_portfolio_outcome =
     effect_outcome Load_portfolio_success Load_portfolio_failure ''Failed to load portfolio''"

definition load_trending_outcome :: "trending_stock list call_result \<Rightarrow> action" where
  "load_trending_outcome =
     effect_outcome Load_trending_stocks_success Load_trending_stocks_failure
       ''Failed to load trending stocks''"

definition load_stock_outcome :: "stock_instrument list call_result \<Rightarrow> action" where
  "load_stock_outcome =
     effect_outcome Load_stock_success Load_stock_failure ''Failed to load stocks''"

definition search_outcome :: "search_result list call_result \<Rightarrow> action" where
  "search_outcome =
     effect_outcome Search_stocks_success Search_stocks_failure ''Failed to search stocks''"

text \<open>\<open>loadRecentSearches$\<close> never fails: an unsuccessful answer and an error both give
  an empty list.\<close>

definition load_recent_outcome :: "search_result list call_result \<Rightarrow> action" where
  "load_recent_outcome r =
     (case r of
        Call_ok resp \<Rightarrow> Load_recent_searches_success (if success resp then data resp else [])
      | Call_error _ \<Rightarrow> Load_recent_searches_success [])"

text \<open>\<open>placeOrder$\<close> reports success with the order it was given, not with the answer.\<close>

definition place_order_outcome :: "buy_order \<Rightarrow> unit call_result \<Rightarrow> action" where
  "place_order_outcome order =
     effect_outcome (\<lambda>_. Place_order_success order) Place_order_failure ''Failed to place order''"

subsection \<open>Requests and channels\<close>

datatype channel = Ch_portfolio | Ch_trending | Ch_stocks | Ch_search | Ch_recent | Ch_order | Ch_clear

datatype request =
    Req_portfolio
  | Req_trending
  | Req_stocks
  | Req_search string
  | Req_recent "search_result list call_result"
  | Req_order buy_order
  | Req_clear

fun request_channel :: "request \<Rightarrow> channel" where
  "request_channel Req_portfolio = Ch_portfolio"
| "request_channel Req_trending = Ch_trending"
| "request_channel Req_stocks = Ch_stocks"
| "request_channel (Req_search _) = Ch_search"
| "request_channel (Req_recent _) = Ch_recent"
| "request_channel (Req_order _) = Ch_order"
| "request_channel Req_clear = Ch_clear"

text \<open>\<open>ofType\<close> of each effect: the request an action starts, given the service (whose
  recent list \<open>getRecentSearches\<close> reads when the effect subscribes).\<close>

fun effect_request :: "service_state \<Rightarrow> action \<Rightarrow> request option" where
  "effect_request sv Load_portfolio = Some Req_portfolio"
| "effect_request sv Load_trending_stocks = Some Req_trending"
| "effect_request sv Load_stock = Some Req_stocks"
| "effect_request sv (Search_stocks q) = Some (Req_search q)"
| "effect_request sv Load_recent_searches = Some (Req_recent (get_recent_searches_s sv))"
| "effect_request sv (Place_order order) = Some (Req_order order)"
| "effect_request sv (Place_order_success _) = Some Req_clear"
| "effect_request sv _ = None"

text \<open>\<open>addToRecentSearches$\<close>: \<open>tap\<close> into the service; \<open>write_ok\<close> says whether the
  \<open>localStorage\<close> write succeeds.\<close>

fun effect_service :: "bool \<Rightarrow> service_state \<Rightarrow> action \<Rightarrow> service_state" where
  "effect_service write_ok sv (Add_to_recent_searches stock) = add_to_recent_searches_s write_ok sv stock"
| "effect_service write_ok sv _ = sv"

subsection \<open>Resolving a request\<close>

text \<open>What the backend answers at the moment a request completes; \<open>searchStocks\<close> reads
  \<open>GET /stocks\<close> as \<open>getStocks\<close> does.\<close>

record backend =
  be_portfolio :: "raw_portfolio http_result"
  be_trending :: "trending_stock list http_result"
  be_stocks :: "raw_stock list http_result"

fun resolve :: "backend \<Rightarrow> request \<Rightarrow> action" where
  "resolve be Req_portfolio = load_portfolio_outcome (get_portfolio_s (be_portfolio be))"
| "resolve be Req_trending = load_trending_outcome (get_trending_stocks_s (be_trending be))"
| "resolve be Req_stocks = load_stock_outcome (get_stocks_s (be_stocks be))"
| "resolve be (Req_search q) = search_outcome (search_stocks_s q (be_stocks be))"
| "resolve be (Req_recent r) = load_recent_outcome r"
| "resolve be (Req_order order) = place_order_outcome order (place_order_s order)"
| "resolve be Req_clear = Clear_buy_order"

text \<open>The message a failure action carries.\<close>

fun failure_message :: "action \<Rightarrow> string option" where
  "failure_message (Load_portfolio_failure m) = Some m"
| "failure_message (Load_trending_stocks_failure m) = Some m"
| "failure_message (Load_stock_failure m) = Some m"
| "failure_message (Search_stocks_failure m) = Some m"
| "failure_message (Place_order_failure m) = Some m"
| "failure_message _ = None"

text \<open>A backend that fails every call without a message.\<close>

definition backend_down :: backend where
  "backend_down = \<lparr>be_portfolio = Http_error None, be_trending = Http_error None,
                   be_stocks = Http_error None\<rparr>"

lemmas outcome_defs = load_portfolio_outcome_def load_trending_outcome_def load_stock_outcome_def
  search_outcome_def load_recent_outcome_def place_order_outcome_def effect_outcome_def

subsection \<open>Properties of the effects\<close>

text \<open>C26: Every failure action an effect dispatches carries a non-empty message: a
  missing or empty message from the service or from the HTTP error is replaced by the
  effect's default text.\<close>

theorem failure_message_nonempty: "failure_message (resolve be rq) = Some m \<Longrightarrow> m \<noteq> []"
  by (cases rq) (auto simp: outcome_defs msg_or_nonempty split: call_result.splits if_splits)

theorem failure_message_nonempty_witness:
  "failure_message (resolve backend_down Req_portfolio) = Some ''Failed to load portfolio''
   \<and> ''Failed to load portfolio'' \<noteq> []"
  using failure_message_nonempty [of backend_down Req_portfolio "''Failed to load portfolio''"]
  by (simp add: backend_down_def get_portfolio_s_def outcome_defs msg_or_def)

text \<open>Loading the recent searches never fails: whatever the service answers, the
  effect dispatches a success, and an error degrades to an empty list.\<close>

lemma recent_load_never_fails:
  "(\<exists>rs. resolve be (Req_recent r) = Load_recent_searches_success rs)
   \<and> resolve be (Req_recent (Call_error m)) = Load_recent_searches_success []"
  by (simp add: load_recent_outcome_def split: call_result.split)

end
