(* ===== verification/Buy_Order.thy ===== *)
theory Buy_Order
  imports Stock_Model
begin

text \<open>
  The buy-order sheet of \<open>src/src/app/shared/components/buy-order.component.ts\<close>:
  the two linked inputs (an amount in dollars and a number of shares), each recomputed
  from the other with \<open>Math.round\<close> to cents, the order the sheet emits, and the
  swipe-to-buy decision.  The component's \<open>@Input() stock!\<close> is declared always
  bound, so the \<open>this.stock &&\<close> tests only guard the price.  The animation and the
  DOM writes of the swipe handlers are not modelled; their arithmetic is
  (\<open>swipe_offset\<close>, \<open>swipe_threshold\<close>, \<open>on_swipe_end\<close>).
\<close>

subsection \<open>State and the two conversions\<close>

record buy_order_form =
  bo_stock :: stock_instrument
  amount :: js_number
  bo_shares :: js_number

text \<open>\<open>Math.round\<close>: the nearest integer, ties toward \<open>+\<infinity>\<close>.\<close>

definition js_round :: "js_number \<Rightarrow> int" where
  "js_round x = \<lfloor>x + 1 / 2\<rfloor>"

text \<open>The field initialisers \<open>amount = 500\<close>, \<open>shares = 8.55\<close>.\<close>

definition buy_order_form_init :: "stock_instrument \<Rightarrow> buy_order_form" where
  "buy_order_form_init s = \<lparr>bo_stock = s, amount = 500, bo_shares = 855 / 100\<rparr>"

definition calculate_shares :: "buy_order_form \<Rightarrow> buy_order_form" where
  "calculate_shares f =
     (if 0 < price (bo_stock f)
      then f\<lparr>bo_shares := of_int (js_round (amount f / price (bo_stock f) * 100)) / 100\<rparr>
      else f)"

definition calculate_amount :: "buy_order_form \<Rightarrow> buy_order_form" where
  "calculate_amount f =
     (if 0 < price (bo_stock f)
      then f\<lparr>amount := of_int (js_round (bo_shares f * price (bo_stock f) * 100)) / 100\<rparr>
      else f)"

subsection \<open>Handlers\<close>

text \<open>\<open>ngOnInit\<close>, and \<open>ngOnChanges\<close> when the \<open>stock\<close> input changes.\<close>

definition ng_on_init :: "buy_order_form \<Rightarrow> buy_order_form" where
  "ng_on_init f = calculate_shares f"

definition stock_changed :: "buy_order_form \<Rightarrow> stock_instrument \<Rightarrow> buy_order_form" where
  "stock_changed f s = calculate_shares (f\<lparr>bo_stock := s\<rparr>)"

text \<open>The two input handlers: the template's two-way binding writes the field, then the
  handler clamps it at zero and recomputes the other field.\<close>

definition on_amount_change :: "buy_order_form \<Rightarrow> js_number \<Rightarrow> buy_order_form" where
  "on_amount_change f a =
     (let f1 = f\<lparr>amount := a\<rparr>;
          f2 = (if amount f1 < 0 then f1\<lparr>amount := 0\<rparr> else f1)
      in calculate_shares f2)"

definition on_shares_change :: "buy_order_form \<Rightarrow> js_number \<Rightarrow> buy_order_form" where
  "on_shares_change f n =
     (let f1 = f\<lparr>bo_shares := n\<rparr>;
          f2 = (if bo_shares f1 < 0 then f1\<lparr>bo_shares := 0\<rparr> else f1)
      in calculate_amount f2)"

text \<open>\<open>completePurchase\<close>: the order the sheet emits on \<open>orderPlaced\<close>.\<close>

definition complete_purchase :: "buy_order_form \<Rightarrow> buy_order" where
  "complete_purchase f =
     \<lparr>order_stock = bo_stock f, order_shares = bo_shares f, order_kind = Market,
      limit_price = None, estimated_total = amount f\<rparr>"

text \<open>The events the sheet handles, and the sheet as a function of a sequence of them.\<close>

datatype form_event = Amount_input js_number | Shares_input js_number | Stock_input stock_instrument

fun form_step :: "buy_order_form \<Rightarrow> form_event \<Rightarrow> buy_order_form" where
  "form_step f (Amount_input a) = on_amount_change f a"
| "form_step f (Shares_input n) = on_shares_change f n"
| "form_step f (Stock_input s) = stock_changed f s"

subsection \<open>Swipe to buy\<close>

text \<open>\<open>maxSwipeDistance = trackWidth - buttonWidth - 8\<close>,
  \<open>threshold = Math.max(maxSwipeDistance * 0.8, 150)\<close>.\<close>

definition swipe_max_distance :: "js_number \<Rightarrow> js_number \<Rightarrow> js_number" where
  "swipe_max_distance track button = track - button - 8"

definition swipe_threshold :: "js_number \<Rightarrow> js_number \<Rightarrow> js_number" where
  "swipe_threshold track button = max (swipe_max_distance track button * 8 / 10) 150"

text \<open>\<open>onSwipeMove\<close>: the button follows the finger to the right, up to the end of the
  track.\<close>

definition swipe_offset :: "js_number \<Rightarrow> js_number \<Rightarrow> js_number \<Rightarrow> js_number" where
  "swipe_offset track button delta_x = min (max 0 delta_x) (swipe_max_distance track button)"

datatype swipe_outcome = Swipe_complete | Swipe_reset

text \<open>\<open>onSwipeEnd\<close>: the raw \<open>deltaX\<close> of the gesture against the threshold.\<close>

definition on_swipe_end :: "js_number \<Rightarrow> js_number \<Rightarrow> js_number \<Rightarrow> swipe_outcome" where
  "on_swipe_end track button delta_x =
     (if swipe_threshold track button \<le> delta_x then Swipe_complete else Swipe_reset)"

definition form_ok :: "buy_order_form \<Rightarrow> bool" where
  "form_ok f \<longleftrightarrow> 0 \<le> amount f \<and> 0 \<le> bo_shares f"

subsection \<open>Lemmas\<close>

lemma js_round_bound: "\<bar>of_int (js_round x) - x\<bar> \<le> 1 / 2"
proof -
  have "of_int \<lfloor>x + 1 / 2\<rfloor> \<le> x + 1 / 2" "x + 1 / 2 < of_int \<lfloor>x + 1 / 2\<rfloor> + 1"
    using floor_correct [of "x + 1 / 2"] by simp_all
  then show ?thesis unfolding js_round_def abs_le_iff by linarith
qed

lemma js_round_nonneg: "0 \<le> x \<Longrightarrow> 0 \<le> js_round x"
  unfolding js_round_def by simp

lemma cents_bound:
  "\<bar>of_int (js_round (x * 100)) / 100 - x\<bar> \<le> (1 / 200 :: js_number)"
proof -
  have "\<bar>of_int (js_round (x * 100)) - x * 100\<bar> \<le> 1 / 2" by (rule js_round_bound)
  then have "\<bar>(of_int (js_round (x * 100)) - x * 100) / 100\<bar> \<le> 1 / 200"
    by (simp add: abs_divide)
  then show ?thesis by (simp add: diff_divide_distrib)
qed

lemma shares_times_price_bound:
  assumes "0 < p"
  shows "\<bar>of_int (js_round (a / p * 100)) / 100 * p - a\<bar> \<le> p / 200"
proof -
  define d where "d = of_int (js_round (a / p * 100)) / 100 - a / p"
  have "\<bar>d\<bar> \<le> 1 / 200" unfolding d_def by (rule cents_bound)
  then have "\<bar>d\<bar> * p \<le> 1 / 200 * p" using assms by (simp add: mult_right_mono)
  moreover have "d * p = of_int (js_round (a / p * 100)) / 100 * p - a"
    using assms unfolding d_def by (simp add: left_diff_distrib)
  moreover have "\<bar>d\<bar> * p = \<bar>d * p\<bar>" using assms by (simp add: abs_mult)
  ultimately show ?thesis by simp
qed

text \<open>The two conversions are exact to rounding: shares from an amount within a
  half-cent's worth of shares, an amount from shares within half a cent.\<close>

lemma calculate_shares_bound:
  "0 < price (bo_stock f) \<Longrightarrow>
   \<bar>bo_shares (calculate_shares f) * price (bo_stock f) - amount f\<bar> \<le> price (bo_stock f) / 200"
  using shares_times_price_bound [of "price (bo_stock f)" "amount f"]
  by (simp add: calculate_shares_def)

lemma calculate_amount_bound:
  "0 < price (bo_stock f) \<Longrightarrow>
   \<bar>amount (calculate_amount f) - bo_shares f * price (bo_stock f)\<bar> \<le> 1 / 200"
  using cents_bound [of "bo_shares f * price (bo_stock f)"]
  by (simp add: calculate_amount_def)

lemma calculate_shares_keeps:
  "bo_stock (calculate_shares f) = bo_stock f" "amount (calculate_shares f) = amount f"
  by (simp_all add: calculate_shares_def)

lemma calculate_amount_keeps:
  "bo_stock (calculate_amount f) = bo_stock f" "bo_shares (calculate_amount f) = bo_shares f"
  by (simp_all add: calculate_amount_def)

lemma on_amount_change_unfold:
  "on_amount_change f a = calculate_shares (f\<lparr>amount := (if a < 0 then 0 else a)\<rparr>)"
  by (simp add: on_amount_change_def Let_def)

lemma on_shares_change_unfold:
  "on_shares_change f n = calculate_amount (f\<lparr>bo_shares := (if n < 0 then 0 else n)\<rparr>)"
  by (simp add: on_shares_change_def Let_def)

lemma calculate_shares_ok:
  "0 \<le> amount f \<Longrightarrow> 0 \<le> bo_shares f \<Longrightarrow>
   0 \<le> amount (calculate_shares f) \<and> 0 \<le> bo_shares (calculate_shares f)"
  by (simp add: calculate_shares_def js_round_nonneg)

lemma calculate_amount_ok:
  "0 \<le> amount f \<Longrightarrow> 0 \<le> bo_shares f \<Longrightarrow>
   0 \<le> amount (calculate_amount f) \<and> 0 \<le> bo_shares (calculate_amount f)"
  by (simp add: calculate_amount_def js_round_nonneg)

lemma form_step_ok: "form_ok f \<Longrightarrow> form_ok (form_step f e)"
  by (cases e)
     (simp_all add: on_amount_change_def on_shares_change_def stock_changed_def Let_def
        form_ok_def calculate_shares_ok calculate_amount_ok)

subsection \<open>Properties of the buy-order sheet\<close>

text \<open>C23: After an amount is typed, the order the sheet emits has as its estimated total the amount typed (clamped at zero), and shares times price differs from it by at most price / 200: the shares are the amount's worth rounded to a hundredth.\<close>

theorem amount_input_bound:
  "0 < price (bo_stock f) \<Longrightarrow>
   \<bar>order_shares (complete_purchase (on_amount_change f a)) * price (bo_stock f)
     - estimated_total (complete_purchase (on_amount_change f a))\<bar> \<le> price (bo_stock f) / 200"
  using calculate_shares_bound [of "f\<lparr>amount := (if a < 0 then 0 else a)\<rparr>"]
  by (simp add: complete_purchase_def on_amount_change_unfold calculate_shares_keeps)

theorem amount_input_bound_witness:
  "0 < price (plain_instrument ''AAPL'' ''Apple'' 190) \<and>
   order_shares (complete_purchase (on_amount_change (buy_order_form_init (plain_instrument ''AAPL'' ''Apple'' 190)) 500)) = 263 / 100 \<and>
   estimated_total (complete_purchase (on_amount_change (buy_order_form_init (plain_instrument ''AAPL'' ''Apple'' 190)) 500)) = 500"
  using amount_input_bound [of "buy_order_form_init (plain_instrument ''AAPL'' ''Apple'' 190)" 500]
  by (simp add: plain_instrument_def buy_order_form_init_def complete_purchase_def
      on_amount_change_def calculate_shares_def js_round_def)

text \<open>C24: After a number of shares is typed, the estimated total of the emitted order is shares times price rounded to the cent: they differ by at most half a cent.\<close>

theorem shares_input_bound:
  "0 < price (bo_stock f) \<Longrightarrow>
   \<bar>estimated_total (complete_purchase (on_shares_change f n))
     - order_shares (complete_purchase (on_shares_change f n)) * price (bo_stock f)\<bar> \<le> 1 / 200"
  using calculate_amount_bound [of "f\<lparr>bo_shares := (if n < 0 then 0 else n)\<rparr>"]
  by (simp add: complete_purchase_def on_shares_change_unfold calculate_amount_keeps)

theorem shares_input_bound_witness:
  "0 < price (plain_instrument ''AAPL'' ''Apple'' 190) \<and>
   estimated_total (complete_purchase (on_shares_change (buy_order_form_init (plain_instrument ''AAPL'' ''Apple'' 190)) (1 / 3)))
     = 6333 / 100"
  using shares_input_bound [of "buy_order_form_init (plain_instrument ''AAPL'' ''Apple'' 190)" "1 / 3"]
  by (simp add: plain_instrument_def buy_order_form_init_def complete_purchase_def
      on_shares_change_def calculate_amount_def js_round_def)

text \<open>C25: Whatever sequence of amount, share and stock inputs the sheet receives, the amount and the number of shares it holds are never negative.\<close>

theorem form_invariant: "form_ok (foldl form_step (buy_order_form_init s) es)"
proof (induction es rule: rev_induct)
  case Nil
  then show ?case by (simp add: buy_order_form_init_def form_ok_def)
next
  case (snoc e es)
  then show ?case by (simp add: form_step_ok)
qed

text \<open>A swipe completes the purchase exactly when the finger travelled at least 150 pixels and at least 80 percent of the free track; every shorter swipe, and every swipe to the left, resets the button.\<close>

lemma swipe_completes_iff:
  "on_swipe_end track button delta_x = Swipe_complete \<longleftrightarrow>
   150 \<le> delta_x \<and> swipe_max_distance track button * 8 / 10 \<le> delta_x"
  unfolding on_swipe_end_def swipe_threshold_def by (simp add: max.bounded_iff conj_commute)

end
