(* ===== verification/Pages.thy ===== *)
theory Pages
  imports Actions Service_Format
begin

text \<open>
  The two pages that drive the store.
  \<^item> \<open>src/src/app/tab-discover/tab-discover.page.ts\<close>: the page's fields
    (\<open>discover_page\<close>), its handlers (\<open>discover_handle\<close>), and the search pipeline of
    \<open>setupSearch\<close>: \<open>searchSubject.pipe(debounceTime(300), distinctUntilChanged())\<close>.
    The pipeline's state is the value waiting in \<open>debounceTime\<close> with the time it
    arrived (\<open>dp_pending\<close>) and the last value \<open>distinctUntilChanged\<close> let through
    (\<open>dp_last\<close>).  Events carry their time in milliseconds; before an event is handled,
    a waiting value whose 300 ms have passed is emitted (\<open>debounce_flush\<close>).
    \<open>Tick\<close> is an event with no handler, which lets time pass.
  \<^item> \<open>src/src/app/tab-invest/tab-invest.page.ts\<close>: the dashboard load and the buy
    sheet's open/close (\<open>invest_page\<close>, \<open>invest_handle\<close>).
  A handler returns the page's new fields and the actions it dispatches, in order.
  Toasts, \<open>console.log\<close>, the pull-to-refresh spinner and the unsubscription on
  destroy are not modelled; the pages' \<open>clearBuyOrder\<close> timers are in the system
  theory.
\<close>

subsection \<open>The discover page\<close>

record discover_page =
  dp_query :: string
  dp_show_results :: bool
  dp_selected :: "stock_instrument option"
  dp_modal_open :: bool
  dp_pending :: "(nat \<times> string) option"
  dp_last :: "string option"

definition discover_init :: discover_page where
  "discover_init =
     \<lparr>dp_query = [], dp_show_results = False, dp_selected = None, dp_modal_open = False,
      dp_pending = None, dp_last = None\<rparr>"

text \<open>\<open>ngOnInit\<close> \<open>\<rightarrow>\<close> \<open>loadDiscoverData\<close>.\<close>

definition load_discover_data :: "action list" where
  "load_discover_data = [Load_recent_searches, Load_trending_stocks, Load_stock]"

datatype page_event =
    Search_input string
  | Search_focus
  | Search_blur
  | Stock_click stock_instrument
  | Recent_click stock_instrument
  | Cancel_search
  | Card_click stock_instrument
  | Buy_order_close
  | Order_placed buy_order
  | Tick

text \<open>The subscriber of \<open>setupSearch\<close>.\<close>

definition search_emission :: "string \<Rightarrow> action" where
  "search_emission v = (let q = js_trim v in if q = [] then Clear_search_results else Search_stocks q)"

definition debounce_ms :: nat where
  "debounce_ms = 300"

definition debounce_flush :: "nat \<Rightarrow> discover_page \<Rightarrow> discover_page \<times> action list" where
  "debounce_flush t p =
     (case dp_pending p of
        None \<Rightarrow> (p, [])
      | Some (t0, v) \<Rightarrow>
          (if t0 + debounce_ms \<le> t then
             (if dp_last p = Some v then (p\<lparr>dp_pending := None\<rparr>, [])
              else (p\<lparr>dp_pending := None, dp_last := Some v\<rparr>, [search_emission v]))
           else (p, [])))"

fun discover_handle :: "nat \<Rightarrow> discover_page \<Rightarrow> page_event \<Rightarrow> discover_page \<times> action list" where
  "discover_handle t p (Search_input v) =
     (if js_trim v \<noteq> []
      then (p\<lparr>dp_query := v, dp_show_results := True, dp_pending := Some (t, v)\<rparr>,
            [Set_search_query v])
      else (p\<lparr>dp_query := v, dp_show_results := False\<rparr>, [Set_search_query v, Clear_search_results]))"
| "discover_handle t p Search_focus =
     (p\<lparr>dp_show_results := True\<rparr>, if js_trim (dp_query p) \<noteq> [] then [] else [Clear_search_results])"
| "discover_handle t p Search_blur = (p, [])"
| "discover_handle t p (Stock_click s) =
     (p\<lparr>dp_show_results := False, dp_query := []\<rparr>,
      [Add_to_recent_searches s, Clear_search_results, Set_search_query []])"
| "discover_handle t p (Recent_click s) =
     (p\<lparr>dp_show_results := False, dp_query := []\<rparr>, [Clear_search_results, Set_search_query []])"
| "discover_handle t p Cancel_search =
     (p\<lparr>dp_query := [], dp_show_results := False\<rparr>, [Clear_search_results, Set_search_query []])"
| "discover_handle t p (Card_click s) = (p\<lparr>dp_selected := Some s, dp_modal_open := True\<rparr>, [])"
| "discover_handle t p Buy_order_close = (p\<lparr>dp_modal_open := False, dp_selected := None\<rparr>, [])"
| "discover_handle t p (Order_placed order) =
     (p\<lparr>dp_modal_open := False, dp_selected := None\<rparr>, [Place_order order])"
| "discover_handle t p Tick = (p, [])"

definition page_step :: "discover_page \<Rightarrow> nat \<times> page_event \<Rightarrow> discover_page \<times> action list" where
  "page_step p te =
     (let (p1, as1) = debounce_flush (fst te) p;
          (p2, as2) = discover_handle (fst te) p1 (snd te)
      in (p2, as1 @ as2))"

text \<open>The actions the page dispatches on a sequence of timed events, and its fields
  afterwards.\<close>

fun page_run :: "discover_page \<Rightarrow> (nat \<times> page_event) list \<Rightarrow> action list" where
  "page_run p [] = []"
| "page_run p (te # es) = snd (page_step p te) @ page_run (fst (page_step p te)) es"

fun page_after :: "discover_page \<Rightarrow> (nat \<times> page_event) list \<Rightarrow> discover_page" where
  "page_after p [] = p"
| "page_after p (te # es) = page_after (fst (page_step p te)) es"

text \<open>The search dispatches, the invariant of the pipeline (a waiting value is never
  blank: \<open>onSearchInput\<close> only feeds the subject non-blank values), and bursts of
  input that arrive less than 300 ms apart.\<close>

fun is_search_action :: "action \<Rightarrow> bool" where
  "is_search_action (Search_stocks _) = True"
| "is_search_action _ = False"

definition pending_ok :: "discover_page \<Rightarrow> bool" where
  "pending_ok p \<longleftrightarrow> (case dp_pending p of None \<Rightarrow> True | Some (_, v) \<Rightarrow> js_trim v \<noteq> [])"

fun quick_burst :: "(nat \<times> string) list \<Rightarrow> bool" where
  "quick_burst (a # b # xs) \<longleftrightarrow> fst b < fst a + debounce_ms \<and> quick_burst (b # xs)"
| "quick_burst _ \<longleftrightarrow> True"

definition inputs :: "(nat \<times> string) list \<Rightarrow> (nat \<times> page_event) list" where
  "inputs xs = map (\<lambda>(t, v). (t, Search_input v)) xs"

subsection \<open>The invest page\<close>

record invest_page =
  ip_selected :: "stock_instrument option"
  ip_modal_open :: bool

definition invest_init :: invest_page where
  "invest_init = \<lparr>ip_selected = None, ip_modal_open = False\<rparr>"

text \<open>\<open>loadDashboardData\<close>, dispatched by \<open>ngOnInit\<close> and by \<open>onRefresh\<close>.\<close>

definition load_dashboard_data :: "action list" where
  "load_dashboard_data = [Load_stock, Load_portfolio, Load_trending_stocks]"

datatype invest_event =
    Invest_refresh
  | Invest_stock_click stock_instrument
  | Invest_card_click stock_instrument
  | Invest_buy_order_close
  | Invest_order_placed buy_order

fun invest_handle :: "invest_page \<Rightarrow> invest_event \<Rightarrow> invest_page \<times> action list" where
  "invest_handle p Invest_refresh = (p, load_dashboard_data)"
| "invest_handle p (Invest_stock_click s) = (p, [])"
| "invest_handle p (Invest_card_click s) = (p\<lparr>ip_selected := Some s, ip_modal_open := True\<rparr>, [])"
| "invest_handle p Invest_buy_order_close = (p\<lparr>ip_modal_open := False, ip_selected := None\<rparr>, [])"
| "invest_handle p (Invest_order_placed order) =
     (p\<lparr>ip_modal_open := False, ip_selected := None\<rparr>, [Place_order order])"

subsection \<open>Lemmas\<close>

lemma js_trim_idem: "js_trim (js_trim v) = js_trim v"
proof -
  let ?sp = js_is_space
  define u where "u = dropWhile ?sp v"
  define t where "t = js_trim v"
  have t: "t = rev (dropWhile ?sp (rev u))" by (simp add: t_def u_def js_trim_def)
  have "rev u = takeWhile ?sp (rev u) @ dropWhile ?sp (rev u)" by simp
  then obtain r where split: "u = t @ r"
    by (metis rev_append rev_rev_ident t)
  have hd_t: "dropWhile ?sp t = t"
  proof (cases t)
    case Nil then show ?thesis by simp
  next
    case (Cons c cs)
    then have "u \<noteq> []" "hd u = c" using split by auto
    moreover have "u \<noteq> [] \<Longrightarrow> \<not> ?sp (hd u)" unfolding u_def by (rule hd_dropWhile)
    ultimately show ?thesis using Cons by simp
  qed
  have last_t: "dropWhile ?sp (rev t) = rev t"
  proof (cases "rev t")
    case Nil then show ?thesis by simp
  next
    case (Cons c cs)
    then have "dropWhile ?sp (rev u) \<noteq> []" by (simp add: t)
    then have "\<not> ?sp (hd (dropWhile ?sp (rev u)))" by (rule hd_dropWhile)
    then show ?thesis using Cons t by simp
  qed
  show ?thesis unfolding t_def [symmetric]
    by (simp add: js_trim_def hd_t last_t)
qed

lemma flush_cases:
  "debounce_flush t p = (p, []) \<or>
   (\<exists>t0 v. dp_pending p = Some (t0, v) \<and> debounce_flush t p = (p\<lparr>dp_pending := None\<rparr>, []))
   \<or> (\<exists>t0 v. dp_pending p = Some (t0, v)
        \<and> debounce_flush t p = (p\<lparr>dp_pending := None, dp_last := Some v\<rparr>, [search_emission v]))"
  by (auto simp: debounce_flush_def split: option.split)

lemma handle_no_search: "Search_stocks q \<notin> set (snd (discover_handle t p e))"
  by (cases e) simp_all

lemma handle_pending_ok: "pending_ok p \<Longrightarrow> pending_ok (fst (discover_handle t p e))"
  by (cases e) (simp_all add: pending_ok_def)

lemma search_emission_trimmed:
  "js_trim v \<noteq> [] \<Longrightarrow> search_emission v = Search_stocks q \<Longrightarrow> q \<noteq> [] \<and> js_trim q = q"
  by (auto simp: search_emission_def Let_def js_trim_idem split: if_splits)

lemma page_step_eq:
  "debounce_flush (fst te) p = (p1, as1) \<Longrightarrow>
   page_step p te = (fst (discover_handle (fst te) p1 (snd te)), as1 @ snd (discover_handle (fst te) p1 (snd te)))"
  by (simp add: page_step_def split: prod.split)

lemma flush_pending_ok: "pending_ok p \<Longrightarrow> debounce_flush t p = (p1, as1) \<Longrightarrow> pending_ok p1"
  using flush_cases [of t p] by (auto simp: pending_ok_def)

lemma page_step_pending_ok: "pending_ok p \<Longrightarrow> pending_ok (fst (page_step p te))"
proof -
  assume ok: "pending_ok p"
  obtain p1 as1 where fl: "debounce_flush (fst te) p = (p1, as1)" by fastforce
  have "pending_ok p1" by (rule flush_pending_ok [OF ok fl])
  then show ?thesis by (simp add: page_step_eq [OF fl] handle_pending_ok)
qed

lemma page_step_search:
  assumes "pending_ok p" "Search_stocks q \<in> set (snd (page_step p te))"
  shows "q \<noteq> [] \<and> js_trim q = q"
proof -
  obtain p1 as1 where fl: "debounce_flush (fst te) p = (p1, as1)" by fastforce
  have "Search_stocks q \<in> set as1"
    using assms(2) handle_no_search [of q "fst te" p1 "snd te"] by (simp add: page_step_eq [OF fl])
  then obtain t0 v where "dp_pending p = Some (t0, v)" "search_emission v = Search_stocks q"
    using flush_cases [of "fst te" p] fl by auto
  moreover from this(1) assms(1) have "js_trim v \<noteq> []" by (simp add: pending_ok_def)
  ultimately show ?thesis using search_emission_trimmed by blast
qed

lemma page_run_append: "page_run p (es1 @ es2) = page_run p es1 @ page_run (page_after p es1) es2"
  by (induction p es1 rule: page_run.induct) simp_all

lemma burst_silent:
  "quick_burst xs \<Longrightarrow> xs \<noteq> [] \<Longrightarrow> list_all (\<lambda>(t, v). js_trim v \<noteq> []) xs \<Longrightarrow>
   (case dp_pending p of None \<Rightarrow> True | Some (t0, _) \<Rightarrow> fst (hd xs) < t0 + debounce_ms) \<Longrightarrow>
   filter is_search_action (page_run p (inputs xs)) = []
   \<and> dp_pending (page_after p (inputs xs)) = Some (last xs)
   \<and> dp_last (page_after p (inputs xs)) = dp_last p"
proof (induction xs arbitrary: p rule: quick_burst.induct)
  case (1 a b xs)
  obtain t v where a: "a = (t, v)" by fastforce
  let ?p1 = "fst (page_step p (t, Search_input v))"
  have st: "page_step p (t, Search_input v) = (p\<lparr>dp_query := v, dp_show_results := True, dp_pending := Some (t, v)\<rparr>, [Set_search_query v])"
    using "1.prems" a by (auto simp: page_step_def debounce_flush_def split: option.split)
  have "quick_burst (b # xs)" "list_all (\<lambda>(t, v). js_trim v \<noteq> []) (b # xs)"
    "case dp_pending ?p1 of None \<Rightarrow> True | Some (t0, _) \<Rightarrow> fst (hd (b # xs)) < t0 + debounce_ms"
    using "1.prems" a st by simp_all
  from "1.IH" [OF this(1) _ this(2,3)] show ?case using st a by (simp add: inputs_def)
qed (auto simp: inputs_def page_step_def debounce_flush_def split: option.split prod.split)

lemma burst_last_nonblank:
  "xs \<noteq> [] \<Longrightarrow> list_all (\<lambda>(t, v). js_trim v \<noteq> []) xs \<Longrightarrow> js_trim (snd (last xs)) \<noteq> []"
  by (metis (mono_tags, lifting) last_in_set list_all_iff prod.collapse case_prod_conv)

subsection \<open>Properties of the discover page\<close>

text \<open>C33: Every search the discover page dispatches is for a non-blank, already trimmed
  query, so the service's blank-query branch and the subscriber's clear branch are never
  taken from this page.\<close>

theorem page_searches_trimmed:
  "pending_ok p \<Longrightarrow> Search_stocks q \<in> set (page_run p es) \<Longrightarrow> q \<noteq> [] \<and> js_trim q = q"
proof (induction p es rule: page_run.induct)
  case (1 p)
  then show ?case by simp
next
  case (2 p te es)
  show ?case
  proof (cases "Search_stocks q \<in> set (snd (page_step p te))")
    case True
    then show ?thesis by (rule page_step_search [OF "2.prems"(1)])
  next
    case False
    then have "Search_stocks q \<in> set (page_run (fst (page_step p te)) es)" using "2.prems"(2) by simp
    then show ?thesis using "2.IH" page_step_pending_ok [OF "2.prems"(1)] by blast
  qed
qed

theorem page_searches_trimmed_witness:
  "pending_ok discover_init \<and> Search_stocks ''AAPL'' \<in> set (page_run discover_init [(0, Search_input '' AAPL ''), (400, Tick)])
   \<and> ''AAPL'' \<noteq> [] \<and> js_trim ''AAPL'' = ''AAPL''"
proof -
  have e: "page_run discover_init [(0, Search_input '' AAPL ''), (400, Tick)]
      = [Set_search_query '' AAPL '', Search_stocks ''AAPL'']"
    by (simp add: discover_init_def page_step_def debounce_flush_def debounce_ms_def
        search_emission_def js_trim_def js_is_space_def)
  have p: "pending_ok discover_init" by (simp add: pending_ok_def discover_init_def)
  show ?thesis
    using page_searches_trimmed [OF p, of "''AAPL''" "[(0, Search_input '' AAPL ''), (400, Tick)]"] p
    unfolding e by simp
qed

text \<open>C34: Debouncing: a burst of non-blank inputs less than 300 ms apart dispatches
  exactly one search, for the trimmed last value, once 300 ms have passed, unless that
  value is the one searched last.\<close>

theorem burst_searches_last:
  "xs \<noteq> [] \<Longrightarrow> quick_burst xs \<Longrightarrow> list_all (\<lambda>(t, v). js_trim v \<noteq> []) xs \<Longrightarrow>
   dp_pending p = None \<Longrightarrow> fst (last xs) + debounce_ms \<le> T \<Longrightarrow>
   filter is_search_action (page_run p (inputs xs @ [(T, Tick)]))
     = (if dp_last p = Some (snd (last xs)) then [] else [Search_stocks (js_trim (snd (last xs)))])"
proof -
  assume ne: "xs \<noteq> []" and qb: "quick_burst xs" and nb: "list_all (\<lambda>(t, v). js_trim v \<noteq> []) xs"
    and pn: "dp_pending p = None" and T: "fst (last xs) + debounce_ms \<le> T"
  let ?q = "page_after p (inputs xs)"
  have s: "filter is_search_action (page_run p (inputs xs)) = []" "dp_pending ?q = Some (last xs)"
    "dp_last ?q = dp_last p"
    using burst_silent [OF qb ne nb] pn by simp_all
  obtain tl vl where l: "last xs = (tl, vl)" by fastforce
  have "js_trim vl \<noteq> []" using burst_last_nonblank [OF ne nb] l by simp
  then show ?thesis using s l T
    by (simp add: page_run_append page_step_def debounce_flush_def search_emission_def Let_def)
qed
theorem burst_searches_last_witness:
  "filter is_search_action
     (page_run discover_init (inputs [(0, ''A''), (100, ''AA''), (250, ''AAP''), (400, ''AAPL'')] @ [(700, Tick)]))
   = [Search_stocks ''AAPL'']"
  using burst_searches_last [of "[(0, ''A''), (100, ''AA''), (250, ''AAP''), (400, ''AAPL'')]" discover_init 700]
  by (simp add: discover_init_def debounce_ms_def js_trim_def js_is_space_def)

text \<open>C35: \<open>distinctUntilChanged\<close> is not reset when the search is cancelled: after any
  burst of input has been searched, cancelling the search and typing the same value
  again, at any later times, dispatches no second search, so the results cleared by the
  cancel are not loaded again.\<close>

theorem retype_after_cancel_no_search:
  "xs \<noteq> [] \<Longrightarrow> quick_burst xs \<Longrightarrow> list_all (\<lambda>(t, v). js_trim v \<noteq> []) xs \<Longrightarrow>
   dp_pending p = None \<Longrightarrow> dp_last p \<noteq> Some (snd (last xs)) \<Longrightarrow>
   fst (last xs) + debounce_ms \<le> t1 \<Longrightarrow> t2 + debounce_ms \<le> T \<Longrightarrow>
   filter is_search_action
     (page_run p (inputs xs @ [(t1, Cancel_search), (t2, Search_input (snd (last xs))), (T, Tick)]))
     = [Search_stocks (js_trim (snd (last xs)))]"
proof -
  assume ne: "xs \<noteq> []" and qb: "quick_burst xs" and nb: "list_all (\<lambda>(t, v). js_trim v \<noteq> []) xs"
    and pn: "dp_pending p = None" and nl: "dp_last p \<noteq> Some (snd (last xs))"
    and t1: "fst (last xs) + debounce_ms \<le> t1" and T: "t2 + debounce_ms \<le> T"
  let ?q = "page_after p (inputs xs)"
  have s: "filter is_search_action (page_run p (inputs xs)) = []" "dp_pending ?q = Some (last xs)"
    "dp_last ?q = dp_last p"
    using burst_silent [OF qb ne nb] pn by simp_all
  obtain tl vl where l: "last xs = (tl, vl)" by fastforce
  have "js_trim vl \<noteq> []" using burst_last_nonblank [OF ne nb] l by simp
  then show ?thesis using s l t1 T nl
    by (simp add: page_run_append page_step_def debounce_flush_def search_emission_def Let_def)
qed

theorem retype_after_cancel_no_search_witness:
  "filter is_search_action
     (page_run discover_init (inputs [(0, ''AAPL'')] @ [(400, Cancel_search), (500, Search_input ''AAPL''), (1000, Tick)]))
   = [Search_stocks ''AAPL'']"
  using retype_after_cancel_no_search [of "[(0, ''AAPL'')]" discover_init 400 500 1000]
  by (simp add: discover_init_def debounce_ms_def js_trim_def js_is_space_def)

text \<open>Clearing the input does not cancel a value waiting in \<open>debounceTime\<close>:
  typing a letter and deleting it within 300 ms still dispatches the search for the
  letter after the clear, which also sets the store's query back to that letter.\<close>

lemma cleared_input_still_searched:
  "page_run discover_init [(0, Search_input ''A''), (100, Search_input []), (400, Tick)]
   = [Set_search_query ''A'', Set_search_query [], Clear_search_results, Search_stocks ''A'']"
  by (simp add: discover_init_def page_step_def debounce_flush_def debounce_ms_def
      search_emission_def js_trim_def js_is_space_def)

end
