(* ===== verification/System.thy ===== *)
theory System
  imports Reducer Effects Buy_Order Pages Routing
begin

text \<open>
  The running application as a transition system: the NgRx store (\<open>stock_reducer\<close>),
  the effects with their requests in flight (\<open>inflight\<close>, one per \<open>switchMap\<close>
  channel), the \<open>StockService\<close> with its storage, and the \<open>setTimeout\<close> timers the
  pages start (\<open>tab-discover.page.ts\<close>, \<open>tab-invest.page.ts\<close>: each mounted page
  subscribed to \<open>selectBuyOrderSuccess\<close> dispatches \<open>clearBuyOrder\<close> 100 ms after
  the flag becomes true).  A step is one of:
  \<^item> \<open>ui\<close>: a page dispatches an action (\<open>ui_action\<close>);
  \<^item> \<open>deliver\<close>: a request in flight completes with whatever the backend answers,
    and its action is dispatched;
  \<^item> \<open>timer\<close>: a page timer fires.
  \<^item> \<open>mount\<close>: a tab page runs \<open>ngOnInit\<close> (its loads, then its subscriptions);
  \<^item> \<open>unmount\<close>: a page runs \<open>ngOnDestroy\<close> and its subscriptions end.
  A dispatch (\<open>dispatch\<close>) runs the reducer, then the effects: \<open>addToRecentSearches$\<close>
  updates the service, the \<open>ofType\<close> effects start a request that replaces the one of
  their channel (\<open>switchMap\<close>), and the pages' subscriptions start a timer each when
  \<open>buyOrderSuccess\<close> turns true (\<open>store.select\<close> emits only on change).  Delays are
  not counted: any request in flight may complete at any later step, which covers
  every timing of the 100 ms and 500 ms delays and of the backend.
\<close>

subsection \<open>State and steps\<close>

record sys_state =
  store :: stock_state
  svc :: service_state
  inflight :: "channel \<Rightarrow> request option"
  page_timers :: nat
  live_pages :: nat

definition sys_init :: "(string \<Rightarrow> storage_value option) \<Rightarrow> nat \<Rightarrow> sys_state" where
  "sys_init storage n =
     \<lparr>store = initial_stock_state, svc = service_init storage, inflight = Map.empty,
      page_timers = 0, live_pages = n\<rparr>"

definition dispatch :: "bool \<Rightarrow> action \<Rightarrow> sys_state \<Rightarrow> sys_state" where
  "dispatch write_ok a s =
     (let st' = stock_reducer (store s) a;
          sv' = effect_service write_ok (svc s) a;
          fl' = (case effect_request sv' a of
                   None \<Rightarrow> inflight s
                 | Some rq \<Rightarrow> (inflight s)(request_channel rq \<mapsto> rq));
          tm' = page_timers s
                + (if \<not> buy_order_success (store s) \<and> buy_order_success st' then live_pages s else 0)
      in s\<lparr>store := st', svc := sv', inflight := fl', page_timers := tm'\<rparr>)"

definition complete :: "bool \<Rightarrow> backend \<Rightarrow> channel \<Rightarrow> sys_state \<Rightarrow> sys_state" where
  "complete write_ok be c s =
     (case inflight s c of
        None \<Rightarrow> s
      | Some rq \<Rightarrow> dispatch write_ok (resolve be rq) (s\<lparr>inflight := (inflight s)(c := None)\<rparr>))"

definition fire_timer :: "bool \<Rightarrow> sys_state \<Rightarrow> sys_state" where
  "fire_timer write_ok s = dispatch write_ok Clear_buy_order (s\<lparr>page_timers := page_timers s - 1\<rparr>)"

text \<open>The actions the pages dispatch from user input and lifecycle hooks.\<close>

fun ui_action :: "action \<Rightarrow> bool" where
  "ui_action Load_portfolio = True"
| "ui_action Load_trending_stocks = True"
| "ui_action Load_stock = True"
| "ui_action Load_recent_searches = True"
| "ui_action (Search_stocks _) = True"
| "ui_action Clear_search_results = True"
| "ui_action (Set_search_query _) = True"
| "ui_action (Add_to_recent_searches _) = True"
| "ui_action (Place_order _) = True"
| "ui_action _ = False"

text \<open>A page's \<open>ngOnInit\<close>: the loads it dispatches (\<open>loadDiscoverData\<close>,
  \<open>loadDashboardData\<close>), then its subscriptions.  \<open>store.select\<close> emits the current
  value on subscription, so a page mounted while \<open>buyOrderSuccess\<close> is up starts its
  \<open>clearBuyOrder\<close> timer at once.  \<open>ngOnDestroy\<close> ends the subscriptions
  (\<open>takeUntil(this.destroy$)\<close>); a \<open>setTimeout\<close> already started still fires.\<close>

fun page_loads :: "component \<Rightarrow> action list" where
  "page_loads Tab_discover_page = load_discover_data"
| "page_loads Tab_invest_page = load_dashboard_data"
| "page_loads Tabs_page = []"

definition dispatch_all :: "bool \<Rightarrow> action list \<Rightarrow> sys_state \<Rightarrow> sys_state" where
  "dispatch_all w as s = foldl (\<lambda>s a. dispatch w a s) s as"

definition page_init :: "bool \<Rightarrow> component \<Rightarrow> sys_state \<Rightarrow> sys_state" where
  "page_init w c s =
     (let s1 = dispatch_all w (page_loads c) s
      in s1\<lparr>live_pages := live_pages s1 + 1,
             page_timers := page_timers s1 + (if buy_order_success (store s1) then 1 else 0)\<rparr>)"

definition page_destroy :: "sys_state \<Rightarrow> sys_state" where
  "page_destroy s = s\<lparr>live_pages := live_pages s - 1\<rparr>"

inductive sys_step :: "sys_state \<Rightarrow> sys_state \<Rightarrow> bool" where
  ui: "ui_action a \<Longrightarrow> sys_step s (dispatch w a s)"
| deliver: "inflight s c \<noteq> None \<Longrightarrow> sys_step s (complete w be c s)"
| timer: "0 < page_timers s \<Longrightarrow> sys_step s (fire_timer w s)"
| mount: "c \<noteq> Tabs_page \<Longrightarrow> sys_step s (page_init w c s)"
| unmount: "0 < live_pages s \<Longrightarrow> sys_step s (page_destroy s)"

inductive reachable :: "sys_state \<Rightarrow> bool" where
  init: "reachable (sys_init storage n)"
| step: "reachable s \<Longrightarrow> sys_step s s' \<Longrightarrow> reachable s'"

subsection \<open>Invariants\<close>

text \<open>The actions with which the request of each channel completes.\<close>

inductive completes :: "channel \<Rightarrow> action \<Rightarrow> bool" where
  "completes Ch_portfolio (Load_portfolio_success p)"
| "completes Ch_portfolio (Load_portfolio_failure e)"
| "completes Ch_trending (Load_trending_stocks_success ts)"
| "completes Ch_trending (Load_trending_stocks_failure e)"
| "completes Ch_stocks (Load_stock_success xs)"
| "completes Ch_stocks (Load_stock_failure e)"
| "completes Ch_search (Search_stocks_success rs)"
| "completes Ch_search (Search_stocks_failure e)"
| "completes Ch_recent (Load_recent_searches_success rs)"
| "completes Ch_order (Place_order_success order)"
| "completes Ch_order (Place_order_failure e)"
| "completes Ch_clear Clear_buy_order"

definition channels_ok :: "sys_state \<Rightarrow> bool" where
  "channels_ok s \<longleftrightarrow> (\<forall>c rq. inflight s c = Some rq \<longrightarrow> request_channel rq = c)"

text \<open>A resource is loading exactly while its request is in flight; an order is
  loading only while one is in flight, and the success flag is up only while the
  delayed clear is pending.\<close>

definition loading_tracks :: "sys_state \<Rightarrow> bool" where
  "loading_tracks s \<longleftrightarrow>
     is_loading (portfolio_loading (store s)) = (inflight s Ch_portfolio \<noteq> None)
     \<and> is_loading (trending_loading (store s)) = (inflight s Ch_trending \<noteq> None)
     \<and> is_loading (stocks_loading (store s)) = (inflight s Ch_stocks \<noteq> None)
     \<and> is_loading (search_loading (store s)) = (inflight s Ch_search \<noteq> None)
     \<and> (is_loading (buy_order_loading (store s)) \<longrightarrow> inflight s Ch_order \<noteq> None)
     \<and> (buy_order_success (store s) \<longrightarrow> inflight s Ch_clear \<noteq> None)"

definition sys_inv :: "sys_state \<Rightarrow> bool" where
  "sys_inv s \<longleftrightarrow> channels_ok s \<and> loading_tracks s"

subsection \<open>Progress measure\<close>

text \<open>A weight that every completion and every timer lowers: an order in flight may
  start the delayed clear and one timer per page, so it weighs more than they do.\<close>

definition req_weight :: "nat \<Rightarrow> request \<Rightarrow> nat" where
  "req_weight n rq = (case rq of Req_order _ \<Rightarrow> n + 2 | _ \<Rightarrow> 1)"

definition slot_weight :: "nat \<Rightarrow> request option \<Rightarrow> nat" where
  "slot_weight n r = (case r of None \<Rightarrow> 0 | Some rq \<Rightarrow> req_weight n rq)"

definition flight_weight :: "nat \<Rightarrow> (channel \<Rightarrow> request option) \<Rightarrow> nat" where
  "flight_weight n f =
     slot_weight n (f Ch_portfolio) + slot_weight n (f Ch_trending) + slot_weight n (f Ch_stocks)
     + slot_weight n (f Ch_search) + slot_weight n (f Ch_recent) + slot_weight n (f Ch_order)
     + slot_weight n (f Ch_clear)"

definition sys_weight :: "sys_state \<Rightarrow> nat" where
  "sys_weight s = flight_weight (live_pages s) (inflight s) + page_timers s"

definition quiescent :: "sys_state \<Rightarrow> bool" where
  "quiescent s \<longleftrightarrow> inflight s = Map.empty \<and> page_timers s = 0"

text \<open>A backend that answers \<open>GET /stocks\<close> with the given quotes and fails the rest.\<close>

definition backend_quotes :: "raw_stock list \<Rightarrow> backend" where
  "backend_quotes qs = \<lparr>be_portfolio = Http_error None, be_trending = Http_error None,
                        be_stocks = Http_ok qs\<rparr>"

subsection \<open>Draining the event loop\<close>

text \<open>With no user input, the JavaScript event loop runs the pending callbacks one at a
  time: \<open>drain_step\<close> completes the first request in flight (in the order of
  \<open>all_channels\<close>) or else fires a page timer, with storage writes succeeding and the
  backend answering \<open>be\<close>.  \<open>drain\<close> repeats it with fuel.\<close>

definition all_channels :: "channel list" where
  "all_channels = [Ch_portfolio, Ch_trending, Ch_stocks, Ch_search, Ch_recent, Ch_order, Ch_clear]"

definition drain_step :: "backend \<Rightarrow> sys_state \<Rightarrow> sys_state" where
  "drain_step be s =
     (case find (\<lambda>c. inflight s c \<noteq> None) all_channels of
        Some c \<Rightarrow> complete True be c s
      | None \<Rightarrow> fire_timer True s)"

fun drain :: "nat \<Rightarrow> backend \<Rightarrow> sys_state \<Rightarrow> sys_state option" where
  "drain 0 be s = (if quiescent s then Some s else None)"
| "drain (Suc n) be s = (if quiescent s then Some s else drain n be (drain_step be s))"

subsection \<open>Lemmas\<close>

lemma dispatch_fields [simp]:
  "store (dispatch w a s) = stock_reducer (store s) a"
  "svc (dispatch w a s) = effect_service w (svc s) a"
  "inflight (dispatch w a s) =
     (case effect_request (effect_service w (svc s) a) a of
        None \<Rightarrow> inflight s | Some rq \<Rightarrow> (inflight s)(request_channel rq \<mapsto> rq))"
  "page_timers (dispatch w a s) = page_timers s
     + (if \<not> buy_order_success (store s) \<and> buy_order_success (stock_reducer (store s) a)
        then live_pages s else 0)"
  "live_pages (dispatch w a s) = live_pages s"
  by (simp_all add: dispatch_def Let_def)

lemma resolve_completes: "completes (request_channel rq) (resolve be rq)"
  by (cases rq)
     (auto simp: load_portfolio_outcome_def load_trending_outcome_def load_stock_outcome_def
        search_outcome_def load_recent_outcome_def place_order_outcome_def effect_outcome_def
        intro: completes.intros split: call_result.split)

lemma channels_ok_dispatch: "channels_ok s \<Longrightarrow> channels_ok (dispatch w a s)"
  by (auto simp: channels_ok_def split: option.splits)

lemma channels_ok_drop: "channels_ok s \<Longrightarrow> channels_ok (s\<lparr>inflight := (inflight s)(c := None)\<rparr>)"
  by (simp add: channels_ok_def)

lemma tracks_ui: "ui_action a \<Longrightarrow> loading_tracks s \<Longrightarrow> loading_tracks (dispatch w a s)"
  by (cases a) (simp_all add: loading_tracks_def add_to_recent_searches_r_def)

lemma tracks_completes:
  assumes "loading_tracks s" "inflight s c \<noteq> None" "completes c a"
  shows "loading_tracks (dispatch w a (s\<lparr>inflight := (inflight s)(c := None)\<rparr>))"
  using assms(3,1,2)
  by cases (simp_all add: loading_tracks_def place_order_success_r_def split: option.split)

lemma tracks_timer: "loading_tracks s \<Longrightarrow> loading_tracks (fire_timer w s)"
  by (simp add: loading_tracks_def fire_timer_def)

lemma channels_ok_timer: "channels_ok s \<Longrightarrow> channels_ok (fire_timer w s)"
  unfolding fire_timer_def by (rule channels_ok_dispatch) (simp add: channels_ok_def)

lemma sys_inv_counts [simp]:
  "sys_inv (s\<lparr>live_pages := n, page_timers := m\<rparr>) = sys_inv s"
  "sys_inv (s\<lparr>live_pages := n\<rparr>) = sys_inv s"
  by (simp_all add: sys_inv_def channels_ok_def loading_tracks_def)

lemma page_loads_ui: "a \<in> set (page_loads c) \<Longrightarrow> ui_action a"
  by (cases c) (auto simp: load_discover_data_def load_dashboard_data_def)

lemma sys_inv_dispatch_all:
  "\<forall>a \<in> set as. ui_action a \<Longrightarrow> sys_inv s \<Longrightarrow> sys_inv (dispatch_all w as s)"
  by (induction as arbitrary: s)
     (simp_all add: dispatch_all_def sys_inv_def channels_ok_dispatch tracks_ui)

lemma sys_inv_page_init: "sys_inv s \<Longrightarrow> sys_inv (page_init w c s)"
  by (simp add: page_init_def Let_def sys_inv_dispatch_all page_loads_ui)

lemma sys_inv_step: "sys_step s s' \<Longrightarrow> sys_inv s \<Longrightarrow> sys_inv s'"
proof (induction rule: sys_step.induct)
  case (ui a s w)
  then show ?case by (simp add: sys_inv_def channels_ok_dispatch tracks_ui)
next
  case (deliver s c w be)
  then obtain rq where rq: "inflight s c = Some rq" by blast
  with deliver.prems have "request_channel rq = c" by (simp add: sys_inv_def channels_ok_def)
  with resolve_completes [of rq be] have "completes c (resolve be rq)" by simp
  with deliver rq show ?case
    by (simp add: sys_inv_def complete_def channels_ok_dispatch channels_ok_drop tracks_completes)
next
  case (timer s w)
  then show ?case
    by (simp add: sys_inv_def channels_ok_timer tracks_timer)
next
  case (mount c s w)
  then show ?case by (simp add: sys_inv_page_init)
next
  case (unmount s)
  then show ?case by (simp add: page_destroy_def)
qed

lemma sys_inv_init: "sys_inv (sys_init storage n)"
  by (simp add: sys_inv_def channels_ok_def loading_tracks_def sys_init_def initial_stock_state_def)

lemma reachable_sys_inv: "reachable s \<Longrightarrow> sys_inv s"
  by (induction rule: reachable.induct) (auto intro: sys_inv_init sys_inv_step)

lemma flight_weight_drop:
  "f c = Some rq \<Longrightarrow> flight_weight n (f(c := None)) + req_weight n rq = flight_weight n f"
  by (cases c) (simp_all add: flight_weight_def slot_weight_def)

lemma flight_weight_add: "flight_weight n (f(c \<mapsto> rq)) \<le> flight_weight n f + req_weight n rq"
  by (cases c) (simp_all add: flight_weight_def slot_weight_def split: option.split)

lemma dispatch_weight_le:
  "sys_weight (dispatch w a s) \<le> sys_weight s
     + slot_weight (live_pages s) (effect_request (effect_service w (svc s) a) a)
     + (if \<not> buy_order_success (store s) \<and> buy_order_success (stock_reducer (store s) a)
        then live_pages s else 0)"
  using flight_weight_add [of "live_pages s" "inflight s"]
  by (simp add: sys_weight_def slot_weight_def split: option.split)

lemma completes_cost:
  "completes ch a \<Longrightarrow>
   slot_weight n (effect_request sv a)
   + (if \<not> buy_order_success st \<and> buy_order_success (stock_reducer st a) then n else 0)
   \<le> (if ch = Ch_order then n + 1 else 0)"
  by (induction rule: completes.induct)
     (simp_all add: slot_weight_def req_weight_def place_order_success_r_def split: option.split)

lemma req_weight_channel: "(if request_channel rq = Ch_order then n + 1 else 0) < req_weight n rq"
  by (cases rq) (simp_all add: req_weight_def)

lemma complete_weight:
  assumes "inflight s c = Some rq"
  shows "sys_weight (complete w be c s) < sys_weight s"
proof -
  let ?s0 = "s\<lparr>inflight := (inflight s)(c := None)\<rparr>"
  let ?a = "resolve be rq"
  have drop: "sys_weight ?s0 + req_weight (live_pages s) rq = sys_weight s"
    using flight_weight_drop [of "inflight s" c rq "live_pages s"] assms by (simp add: sys_weight_def)
  let ?cost = "slot_weight (live_pages s) (effect_request (effect_service w (svc s) ?a) ?a)
      + (if \<not> buy_order_success (store s) \<and> buy_order_success (stock_reducer (store s) ?a)
         then live_pages s else 0)"
  have cost: "?cost < req_weight (live_pages s) rq"
    using completes_cost [OF resolve_completes [of rq be]] req_weight_channel [of rq "live_pages s"]
    by (meson le_less_trans)
  have le: "sys_weight (dispatch w ?a ?s0) \<le> sys_weight ?s0 + ?cost"
  proof -
    have lp: "live_pages ?s0 = live_pages s" "store ?s0 = store s" "svc ?s0 = svc s" by simp_all
    show ?thesis using dispatch_weight_le [of w ?a ?s0] unfolding lp by (simp only: add.assoc)
  qed
  have "sys_weight (dispatch w ?a ?s0) < sys_weight s"
    using le cost drop by linarith
  with assms show ?thesis by (simp add: complete_def)
qed

lemma timer_weight: "0 < page_timers s \<Longrightarrow> sys_weight (fire_timer w s) < sys_weight s"
  using dispatch_weight_le [of w Clear_buy_order "s\<lparr>page_timers := page_timers s - 1\<rparr>"]
  by (simp add: fire_timer_def sys_weight_def slot_weight_def)

lemma step_down: "\<not> quiescent s \<Longrightarrow> \<exists>s1. sys_step s s1 \<and> sys_weight s1 < sys_weight s"
proof -
  assume "\<not> quiescent s"
  then consider c rq where "inflight s c = Some rq" | "0 < page_timers s"
    by (auto simp: quiescent_def fun_eq_iff)
  then show ?thesis
  proof cases
    case 1
    then show ?thesis using sys_step.deliver [of s c True backend_down] complete_weight by blast
  next
    case 2
    then show ?thesis using sys_step.timer [of s True] timer_weight by blast
  qed
qed

lemma can_settle: "\<exists>s'. sys_step\<^sup>*\<^sup>* s s' \<and> quiescent s'"
proof (induction "sys_weight s" arbitrary: s rule: less_induct)
  case less
  show ?case
  proof (cases "quiescent s")
    case True
    then show ?thesis by blast
  next
    case False
    then obtain s1 where "sys_step s s1" "sys_weight s1 < sys_weight s" using step_down by blast
    with less show ?thesis by (meson converse_rtranclp_into_rtranclp)
  qed
qed

lemma reachable_steps: "sys_step\<^sup>*\<^sup>* s s' \<Longrightarrow> reachable s \<Longrightarrow> reachable s'"
  by (induction rule: rtranclp_induct) (auto intro: reachable.step)

lemma search_matches_own_symbol: "search_matches (raw_symbol r) r"
  by (simp add: search_matches_def js_includes_sublist)

lemma reachable_ui: "reachable s \<Longrightarrow> ui_action a \<Longrightarrow> reachable (dispatch w a s)"
  by (blast intro: reachable.step sys_step.ui)

lemma reachable_complete: "reachable s \<Longrightarrow> inflight s c \<noteq> None \<Longrightarrow> reachable (complete w be c s)"
  by (blast intro: reachable.step sys_step.deliver)

lemma all_channels_complete: "c \<in> set all_channels"
  by (cases c) (simp_all add: all_channels_def)

lemma no_channel_in_flight:
  "find (\<lambda>c. inflight s c \<noteq> None) all_channels = None \<Longrightarrow> inflight s = Map.empty"
  by (auto simp: find_None_iff fun_eq_iff all_channels_complete)

lemma drain_step_down:
  assumes "\<not> quiescent s"
  shows "sys_step s (drain_step be s) \<and> sys_weight (drain_step be s) < sys_weight s"
proof (cases "find (\<lambda>c. inflight s c \<noteq> None) all_channels")
  case None
  then have "0 < page_timers s" using assms no_channel_in_flight by (auto simp: quiescent_def)
  with None show ?thesis by (simp add: drain_step_def sys_step.timer timer_weight)
next
  case (Some c)
  then obtain rq where rq: "inflight s c = Some rq" by (auto simp: find_Some_iff)
  with Some show ?thesis
    using sys_step.deliver [of s c True be] complete_weight [OF rq, of True be]
    by (simp add: drain_step_def)
qed

lemma weight_zero_quiescent: "sys_weight s = 0 \<Longrightarrow> quiescent s"
proof -
  assume w: "sys_weight s = 0"
  have "inflight s c = None" for c
    using w by (cases c) (auto simp: sys_weight_def flight_weight_def slot_weight_def req_weight_def
        split: option.splits request.splits)
  with w show ?thesis by (auto simp: quiescent_def sys_weight_def fun_eq_iff)
qed

lemma drain_enough:
  "sys_weight s \<le> n \<Longrightarrow> \<exists>s'. drain n be s = Some s' \<and> quiescent s' \<and> sys_step\<^sup>*\<^sup>* s s'"
proof (induction n arbitrary: s)
  case 0
  then show ?case using weight_zero_quiescent by auto
next
  case (Suc n)
  show ?case
  proof (cases "quiescent s")
    case True
    then show ?thesis by simp
  next
    case False
    with drain_step_down [OF False, of be] Suc.prems
    have st: "sys_step s (drain_step be s)" and "sys_weight (drain_step be s) \<le> n" by auto
    with Suc.IH obtain s' where "drain n be (drain_step be s) = Some s'" "quiescent s'"
      "sys_step\<^sup>*\<^sup>* (drain_step be s) s'" by blast
    with False st show ?thesis by (auto intro: converse_rtranclp_into_rtranclp)
  qed
qed

lemma drain_mono: "drain n be s = Some s' \<Longrightarrow> drain (Suc n) be s = Some s'"
  by (induction n be s rule: drain.induct) (auto split: if_splits)

subsection \<open>Properties of the running system\<close>

text \<open>C28: In every reachable state the loading flag of the portfolio, the trending list,
  the stocks and the search is up exactly while that effect's request is in flight, an
  order is marked loading only while one is in flight, and the success flag is up only
  while the delayed clear is pending.\<close>

theorem loading_flags_track: "reachable s \<Longrightarrow> loading_tracks s"
  using reachable_sys_inv [of s] by (simp add: sys_inv_def)

theorem loading_flags_track_witness:
  "is_loading (portfolio_loading (store (dispatch True Load_portfolio (sys_init Map.empty 2))))
   \<and> loading_tracks (dispatch True Load_portfolio (sys_init Map.empty 2))"
proof -
  have r: "reachable (dispatch True Load_portfolio (sys_init Map.empty 2))"
    by (rule reachable_ui [OF reachable.init]) simp
  show ?thesis using loading_flags_track [OF r] by (simp add: sys_init_def)
qed

text \<open>C29: The system never gets stuck loading: from every reachable state the pending
  requests and timers can all complete, reaching a state with nothing in flight, no
  resource loading and the order-success flag down.\<close>

theorem settles_idle:
  "reachable s \<Longrightarrow>
   \<exists>s'. sys_step\<^sup>*\<^sup>* s s' \<and> inflight s' = Map.empty
        \<and> \<not> is_loading (portfolio_loading (store s')) \<and> \<not> is_loading (trending_loading (store s'))
        \<and> \<not> is_loading (stocks_loading (store s')) \<and> \<not> is_loading (search_loading (store s'))
        \<and> \<not> is_loading (buy_order_loading (store s')) \<and> \<not> buy_order_success (store s')"
proof -
  assume r: "reachable s"
  obtain s' where st: "sys_step\<^sup>*\<^sup>* s s'" and q: "quiescent s'" using can_settle by blast
  have "sys_inv s'" using reachable_steps [OF st r] by (rule reachable_sys_inv)
  with st q show ?thesis by (auto simp: quiescent_def sys_inv_def loading_tracks_def)
qed

theorem settles_idle_witness:
  "\<exists>s'. sys_step\<^sup>*\<^sup>* (dispatch True Load_portfolio (sys_init Map.empty 2)) s' \<and> inflight s' = Map.empty
        \<and> \<not> is_loading (portfolio_loading (store s'))"
proof -
  have "reachable (dispatch True Load_portfolio (sys_init Map.empty 2))"
    by (rule reachable.step [OF reachable.init]) (rule sys_step.ui, simp)
  from settles_idle [OF this] show ?thesis by auto
qed
text \<open>C27: The event loop drains: with as much fuel as the system's weight, running the
  pending requests and timers one after the other ends in a state with nothing in
  flight and no timer, reached by steps of the system.\<close>

theorem drain_terminates:
  "\<exists>s'. drain (sys_weight s) be s = Some s' \<and> quiescent s' \<and> sys_step\<^sup>*\<^sup>* s s'"
  by (rule drain_enough) simp

text \<open>C30: Clearing the search does not cancel a search in flight: from any state with a
  search request in flight, \<open>clearSearchResults\<close> leaves the request in flight, and
  when it completes with results they are shown under the emptied query.\<close>

theorem stale_search_after_clear:
  "inflight s Ch_search = Some rq \<Longrightarrow> resolve be rq = Search_stocks_success rs \<Longrightarrow>
   inflight (dispatch w Clear_search_results s) Ch_search = Some rq
   \<and> search_query (store (complete w' be Ch_search (dispatch w Clear_search_results s))) = []
   \<and> search_results (store (complete w' be Ch_search (dispatch w Clear_search_results s))) = rs"
  by (simp add: complete_def)

theorem stale_search_after_clear_witness:
  "search_query (store (complete True (backend_quotes [sample_quote 100 110]) Ch_search
      (dispatch True Clear_search_results (dispatch True (Search_stocks ''AAPL'') (sys_init Map.empty 1))))) = []
   \<and> search_results (store (complete True (backend_quotes [sample_quote 100 110]) Ch_search
      (dispatch True Clear_search_results (dispatch True (Search_stocks ''AAPL'') (sys_init Map.empty 1))))) \<noteq> []"
proof -
  have m: "search_matches ''AAPL'' (sample_quote 100 110)"
    using search_matches_own_symbol [of "sample_quote 100 110"] by (simp add: sample_quote_def)
  obtain rs where rs: "resolve (backend_quotes [sample_quote 100 110]) (Req_search ''AAPL'') = Search_stocks_success rs"
    "rs \<noteq> []"
    using m by (simp add: backend_quotes_def search_outcome_def effect_outcome_def search_stocks_s_def
        search_needs_backend_def js_trim_def js_is_space_def ok_response_def)
  have f: "inflight (dispatch True (Search_stocks ''AAPL'') (sys_init Map.empty 1)) Ch_search = Some (Req_search ''AAPL'')"
    by (simp add: sys_init_def)
  show ?thesis using stale_search_after_clear [OF f rs(1), of True True] rs(2) by simp
qed

text \<open>C31: The recent-search load reads the service's list when it starts and delivers it
  later: whatever is added in between, completing the load sets the store's recent list
  to the snapshot taken at the start, while the service's list holds the addition.\<close>

theorem recent_snapshot_race:
  "recent_searches (store (complete w2 be Ch_recent
      (dispatch w1 (Add_to_recent_searches x) (dispatch w0 Load_recent_searches s))))
     = map (\<lambda>j. \<lparr>sr_stock = json_to_stock j, search_type = Some Recent_tag\<rparr>) (svc_recent (svc s))
   \<and> svc_recent (svc (complete w2 be Ch_recent
      (dispatch w1 (Add_to_recent_searches x) (dispatch w0 Load_recent_searches s))))
     = dedup_unshift_take (\<lambda>j. json_get j ''symbol'') 5 (stock_to_json x) (svc_recent (svc s))"
  by (simp add: complete_def get_recent_searches_s_def load_recent_outcome_def ok_response_def
      add_to_recent_searches_s_def Let_def)

text \<open>C32: The delayed clear of a filled order is not cancelled by the next order: it can
  fire while a second order is in flight and mark the order as not loading.\<close>

theorem order_loading_cleared_in_flight:
  "\<exists>s. reachable s \<and> inflight s Ch_order \<noteq> None \<and> \<not> is_loading (buy_order_loading (store s))"
proof -
  define o1 where "o1 = complete_purchase (buy_order_form_init (plain_instrument ''AAPL'' ''Apple'' 190))"
  define s1 where "s1 = dispatch True (Place_order o1) (sys_init Map.empty 1)"
  define s2 where "s2 = complete True backend_down Ch_order s1"
  define s3 where "s3 = dispatch True (Place_order o1) s2"
  define s4 where "s4 = complete True backend_down Ch_clear s3"
  have r1: "reachable s1" unfolding s1_def by (rule reachable_ui [OF reachable.init]) simp
  have f1: "inflight s1 Ch_order = Some (Req_order o1)" by (simp add: s1_def sys_init_def)
  have r2: "reachable s2" unfolding s2_def by (rule reachable_complete [OF r1]) (simp add: f1)
  have f2: "inflight s2 Ch_clear = Some Req_clear"
    using f1 by (simp add: s2_def complete_def place_order_outcome_def effect_outcome_def
        place_order_s_def ok_response_def)
  have r3: "reachable s3" unfolding s3_def by (rule reachable_ui [OF r2]) simp
  have f3: "inflight s3 Ch_clear = Some Req_clear" "inflight s3 Ch_order = Some (Req_order o1)"
    using f2 by (simp_all add: s3_def)
  have r4: "reachable s4" unfolding s4_def by (rule reachable_complete [OF r3]) (simp add: f3)
  have "inflight s4 Ch_order \<noteq> None \<and> \<not> is_loading (buy_order_loading (store s4))"
    using f3 by (simp add: s4_def complete_def)
  with r4 show ?thesis by blast
qed
end
