(* ===== verification/Display.thy ===== *)
theory Display
  imports Service_Format
begin

text \<open>
  The getters and outputs of the display components under
  \<open>src/src/app/shared/components/\<close>: the stock card's trend icon (its colour,
  \<open>get_change_color\<close>, is in \<open>Service_Format\<close> beside the formatting it reads), the
  instrument row's displayed stock, share count and click output, and the instrument
  type badge's text and CSS class.  An \<open>@Output\<close> emission is the list of values
  emitted.  Templates and styles are not modelled.
\<close>

subsection \<open>stock-card.component.ts\<close>

datatype change_icon = Trending_up | Trending_down

definition get_change_icon :: "stock_instrument \<Rightarrow> change_icon" where
  "get_change_icon s = (if prefix ''+'' (change_percent s) then Trending_up else Trending_down)"

definition on_card_click :: "stock_instrument \<Rightarrow> stock_instrument list" where
  "on_card_click s = [s]"

subsection \<open>instrument.component.ts\<close>

record instrument_view =
  iv_stock :: stock_instrument
  iv_holding :: "portfolio_holding option"
  iv_clickable :: bool

text \<open>\<open>this.holding?.stock || this.stock\<close>; a holding's stock is an object, so it is
  always taken when there is a holding.\<close>

definition display_stock :: "instrument_view \<Rightarrow> stock_instrument" where
  "display_stock v = (case iv_holding v of Some h \<Rightarrow> holding_stock h | None \<Rightarrow> iv_stock v)"

text \<open>\<open>this.holding?.shares || 0\<close>.\<close>

definition display_shares :: "instrument_view \<Rightarrow> js_number" where
  "display_shares v = (case iv_holding v of Some h \<Rightarrow> holding_shares h | None \<Rightarrow> 0)"

text \<open>\<open>onInstrumentClick\<close> emits the \<open>stock\<close> input, not the displayed stock.\<close>

definition on_instrument_click :: "instrument_view \<Rightarrow> stock_instrument list" where
  "on_instrument_click v = (if iv_clickable v then [iv_stock v] else [])"

subsection \<open>instrument-type.component.ts\<close>

datatype instrument_type = Stock_type | ETF_type

fun display_text :: "instrument_type \<Rightarrow> string" where
  "display_text Stock_type = ''Stock''"
| "display_text ETF_type = ''ETF''"

definition css_class :: "instrument_type \<Rightarrow> string" where
  "css_class t = ''instrument-type instrument-type--'' @ display_text t"

subsection \<open>Lemmas\<close>

text \<open>The card's icon and colour read the same test, so they always agree.\<close>

lemma icon_matches_color: "get_change_icon s = Trending_up \<longleftrightarrow> get_change_color s = Success"
  by (simp add: get_change_icon_def get_change_color_def)

end
