(* ===== verification/Buy_Sheet.thy ===== *)
theory Buy_Sheet
  imports Buy_Order
begin

text \<open>
  The lifecycle of the buy sheet of
  \<open>src/src/app/shared/components/buy-order.component.ts\<close>, on top of the form of
  \<open>Buy_Order\<close>: \<open>ngOnChanges\<close> on \<open>isOpen\<close>, \<open>ngAfterViewInit\<close>, the lazy set-up of
  the slide animation and the swipe gesture in \<open>open\<close>, \<open>close\<close> with its 300 ms
  wait for the reverse animation, and the gesture callbacks \<open>onSwipeMove\<close> and
  \<open>onSwipeEnd\<close>.  The DOM is reduced to what the code tests and writes: whether the
  \<open>@ViewChild\<close> elements are bound, the button's horizontal offset and the swipe
  text's opacity.  An animation's \<open>play\<close> and an \<open>@Output\<close> emission are outputs
  (\<open>sheet_output\<close>).  A \<open>setTimeout\<close> is a pending timer (\<open>su_timers\<close>); the
  environment fires any pending timer (\<open>Sheet_timer\<close> with its position), so every
  order of the 0 ms and 300 ms timers is covered.  Gesture callbacks arrive only once
  the gesture is set up.  The templates are not in the repository, so how the page
  shows or hides the sheet is not modelled.
\<close>

subsection \<open>State, outputs and events\<close>

datatype sheet_timer = Open_timer | Open_inner_timer | Close_emit_timer

datatype sheet_output = Close_modal | Order_emitted buy_order | Play_forward | Play_reverse

record sheet_ui =
  su_form :: buy_order_form
  su_is_open :: bool
  su_modal_ready :: bool
  su_button_ready :: bool
  su_animation :: bool
  su_gesture :: bool
  su_offset :: js_number
  su_opacity :: js_number
  su_timers :: "sheet_timer list"

definition sheet_init :: "buy_order_form \<Rightarrow> bool \<Rightarrow> bool \<Rightarrow> sheet_ui" where
  "sheet_init f modal_ready button_ready =
     \<lparr>su_form = f, su_is_open = False, su_modal_ready = modal_ready,
      su_button_ready = button_ready, su_animation = False, su_gesture = False,
      su_offset = 0, su_opacity = 1, su_timers = []\<rparr>"

datatype sheet_event =
    Sheet_open_changed bool bool
  | Sheet_view_init
  | Sheet_form form_event
  | Sheet_swipe_move js_number js_number js_number
  | Sheet_swipe_end js_number js_number js_number
  | Sheet_close
  | Sheet_timer nat

subsection \<open>Handlers\<close>

definition initialize_animations :: "sheet_ui \<Rightarrow> sheet_ui" where
  "initialize_animations u = (if su_modal_ready u then u\<lparr>su_animation := True\<rparr> else u)"

definition setup_swipe_gesture :: "sheet_ui \<Rightarrow> sheet_ui" where
  "setup_swipe_gesture u = (if su_button_ready u then u\<lparr>su_gesture := True\<rparr> else u)"

text \<open>\<open>ngOnChanges\<close> for \<open>isOpen\<close> (previous and current value): opening schedules
  \<open>open()\<close> with \<open>setTimeout(..., 0)\<close>.\<close>

definition sheet_open_changed :: "bool \<Rightarrow> bool \<Rightarrow> sheet_ui \<Rightarrow> sheet_ui" where
  "sheet_open_changed prev cur u =
     (let u1 = u\<lparr>su_is_open := cur\<rparr>
      in if cur \<and> \<not> prev then u1\<lparr>su_timers := su_timers u1 @ [Open_timer]\<rparr> else u1)"

definition sheet_after_view_init :: "sheet_ui \<Rightarrow> sheet_ui" where
  "sheet_after_view_init u =
     (if su_is_open u then setup_swipe_gesture (initialize_animations u) else u)"

text \<open>\<open>open()\<close> defers its work by another \<open>setTimeout(..., 0)\<close>.\<close>

definition sheet_open :: "sheet_ui \<Rightarrow> sheet_ui" where
  "sheet_open u = u\<lparr>su_timers := su_timers u @ [Open_inner_timer]\<rparr>"

definition open_inner :: "sheet_ui \<Rightarrow> sheet_ui \<times> sheet_output list" where
  "open_inner u =
     (let u1 = (if \<not> su_animation u \<and> su_modal_ready u then initialize_animations u else u);
          u2 = (if \<not> su_gesture u1 \<and> su_button_ready u1 then setup_swipe_gesture u1 else u1)
      in (u2, if su_animation u2 then [Play_forward] else []))"

definition sheet_close :: "sheet_ui \<Rightarrow> sheet_ui \<times> sheet_output list" where
  "sheet_close u =
     (if su_animation u then (u\<lparr>su_timers := su_timers u @ [Close_emit_timer]\<rparr>, [Play_reverse])
      else (u, [Close_modal]))"

definition reset_swipe_button :: "sheet_ui \<Rightarrow> sheet_ui" where
  "reset_swipe_button u = (if su_button_ready u then u\<lparr>su_offset := 0, su_opacity := 1\<rparr> else u)"

text \<open>\<open>onSwipeMove\<close>: the button follows the finger; the text fades over 60 percent of
  the track (for a track of positive width).\<close>

definition sheet_swipe_move :: "js_number \<Rightarrow> js_number \<Rightarrow> js_number \<Rightarrow> sheet_ui \<Rightarrow> sheet_ui" where
  "sheet_swipe_move track button delta_x u =
     (if \<not> su_button_ready u then u
      else (let c = swipe_offset track button delta_x
            in u\<lparr>su_offset := c, su_opacity := max (1 - c / (track * 6 / 10)) 0\<rparr>))"

text \<open>\<open>completePurchase\<close>: emit the order, close, reset the button.\<close>

definition sheet_complete_purchase :: "sheet_ui \<Rightarrow> sheet_ui \<times> sheet_output list" where
  "sheet_complete_purchase u =
     (let (u1, out) = sheet_close u
      in (reset_swipe_button u1, Order_emitted (complete_purchase (su_form u)) # out))"

definition sheet_swipe_end :: "js_number \<Rightarrow> js_number \<Rightarrow> js_number \<Rightarrow> sheet_ui \<Rightarrow> sheet_ui \<times> sheet_output list" where
  "sheet_swipe_end track button delta_x u =
     (if \<not> su_button_ready u then (u, [])
      else (case on_swipe_end track button delta_x of
              Swipe_complete \<Rightarrow> sheet_complete_purchase u
            | Swipe_reset \<Rightarrow> (reset_swipe_button u, [])))"

definition fire_sheet_timer :: "sheet_timer \<Rightarrow> sheet_ui \<Rightarrow> sheet_ui \<times> sheet_output list" where
  "fire_sheet_timer t u =
     (case t of
        Open_timer \<Rightarrow> (sheet_open u, [])
      | Open_inner_timer \<Rightarrow> open_inner u
      | Close_emit_timer \<Rightarrow> (u, [Close_modal]))"

fun sheet_step :: "sheet_ui \<Rightarrow> sheet_event \<Rightarrow> sheet_ui \<times> sheet_output list" where
  "sheet_step u (Sheet_open_changed prev cur) = (sheet_open_changed prev cur u, [])"
| "sheet_step u Sheet_view_init = (sheet_after_view_init u, [])"
| "sheet_step u (Sheet_form e) = (u\<lparr>su_form := form_step (su_form u) e\<rparr>, [])"
| "sheet_step u (Sheet_swipe_move track button dx) =
     (if su_gesture u then (sheet_swipe_move track button dx u, []) else (u, []))"
| "sheet_step u (Sheet_swipe_end track button dx) =
     (if su_gesture u then sheet_swipe_end track button dx u else (u, []))"
| "sheet_step u Sheet_close = sheet_close u"
| "sheet_step u (Sheet_timer k) =
     (if k < length (su_timers u)
      then fire_sheet_timer (su_timers u ! k) (u\<lparr>su_timers := js_splice1 (su_timers u) k\<rparr>)
      else (u, []))"

fun sheet_run :: "sheet_ui \<Rightarrow> sheet_event list \<Rightarrow> sheet_output list" where
  "sheet_run u [] = []"
| "sheet_run u (e # es) = snd (sheet_step u e) @ sheet_run (fst (sheet_step u e)) es"

fun is_order_output :: "sheet_output \<Rightarrow> bool" where
  "is_order_output (Order_emitted _) = True"
| "is_order_output _ = False"

subsection \<open>Lemmas\<close>

text \<open>An order is emitted only by a swipe that completes, once the gesture is set up,
  and it is the order of the form as it stands.\<close>

lemma order_needs_completing_swipe:
  assumes "Order_emitted order \<in> set (snd (sheet_step u e))"
  shows "\<exists>t b dx. e = Sheet_swipe_end t b dx \<and> su_gesture u \<and> su_button_ready u
           \<and> on_swipe_end t b dx = Swipe_complete \<and> order = complete_purchase (su_form u)"
  using assms
  by (cases e)
     (auto simp: sheet_swipe_end_def sheet_complete_purchase_def sheet_close_def fire_sheet_timer_def
        open_inner_def Let_def split: swipe_outcome.splits if_splits sheet_timer.splits)

text \<open>A purchase closes the sheet: at once, or by the reverse animation and a pending
  300 ms timer that emits \<open>closeModal\<close>.\<close>

lemma purchase_closes:
  "sheet_complete_purchase u = (u', out) \<Longrightarrow>
   Close_modal \<in> set out \<or> (Play_reverse \<in> set out \<and> Close_emit_timer \<in> set (su_timers u'))"
  by (auto simp: sheet_complete_purchase_def sheet_close_def reset_swipe_button_def split: if_splits)

text \<open>Nothing disables the gesture after a purchase: a second completing swipe while
  the sheet closes emits a second order.\<close>

lemma second_swipe_second_order:
  "filter is_order_output
     (sheet_run (sheet_init (buy_order_form_init (plain_instrument ''AAPL'' ''Apple'' 190)) True True)
        [Sheet_open_changed False True, Sheet_timer 0, Sheet_timer 0,
         Sheet_swipe_end 400 60 300, Sheet_swipe_end 400 60 300])
   = [Order_emitted (complete_purchase (buy_order_form_init (plain_instrument ''AAPL'' ''Apple'' 190))),
      Order_emitted (complete_purchase (buy_order_form_init (plain_instrument ''AAPL'' ''Apple'' 190)))]"
  by (simp add: sheet_init_def sheet_open_changed_def fire_sheet_timer_def sheet_open_def open_inner_def
      initialize_animations_def setup_swipe_gesture_def sheet_swipe_end_def on_swipe_end_def
      swipe_threshold_def swipe_max_distance_def sheet_complete_purchase_def sheet_close_def
      reset_swipe_button_def js_splice1_def Let_def)
end
