(* ===== verification/Page_Subscriptions.thy ===== *)
theory Page_Subscriptions
  imports System Pages Selectors
begin

text \<open>
  What the two pages do with the store's selectors
  (\<open>src/src/app/tab-discover/tab-discover.page.ts\<close>,
  \<open>src/src/app/tab-invest/tab-invest.page.ts\<close>): the subscriptions of \<open>ngOnInit\<close>
  to \<open>selectBuyOrderSuccess\<close> (a \<open>clearBuyOrder\<close> timer when it turns true) and to
  \<open>selectBuyOrderError\<close> (an error toast for a non-empty message), the success toast of
  \<open>onOrderPlaced\<close>, and the invest page's spinner \<open>isLoading$\<close>.  \<open>store.select\<close>
  emits the current value on subscription and then only when the value changes
  (\<open>page_store_reaction\<close> compares the state before and after a dispatch).  Both
  pages stay mounted once visited (Ionic tabs), so each reaction happens once per
  mounted page; the system theory counts them in \<open>live_pages\<close>.
\<close>

subsection \<open>Toasts and reactions\<close>

datatype page_toast = Success_toast string | Error_toast string

text \<open>\<open>showSuccessToast(`${order.stock.symbol} successfully purchased`)\<close> in
  \<open>onOrderPlaced\<close>, right after the dispatch of \<open>placeOrder\<close>.\<close>

definition order_placed_toast :: "buy_order \<Rightarrow> page_toast" where
  "order_placed_toast order = Success_toast (symbol (order_stock order) @ '' successfully purchased'')"

fun discover_toasts :: "page_event \<Rightarrow> page_toast list" where
  "discover_toasts (Order_placed order) = [order_placed_toast order]"
| "discover_toasts _ = []"

fun invest_toasts :: "invest_event \<Rightarrow> page_toast list" where
  "invest_toasts (Invest_order_placed order) = [order_placed_toast order]"
| "invest_toasts _ = []"

text \<open>The \<open>selectBuyOrderError\<close> subscriber: \<open>if (error) showErrorToast(...)\<close>.\<close>

definition error_toast_of :: "string option \<Rightarrow> page_toast list" where
  "error_toast_of e =
     (case e of
        None \<Rightarrow> []
      | Some m \<Rightarrow> (if m \<noteq> [] then [Error_toast (''Failed to place order: '' @ m)] else []))"

text \<open>One page's reaction to a dispatch that turns the state \<open>st\<close> into \<open>st'\<close>: whether
  it starts a \<open>clearBuyOrder\<close> timer, and the toasts it shows.\<close>

definition page_store_reaction :: "stock_state \<Rightarrow> stock_state \<Rightarrow> bool \<times> page_toast list" where
  "page_store_reaction st st' =
     (\<not> buy_order_success st \<and> buy_order_success st',
      if error (buy_order_loading st) \<noteq> error (buy_order_loading st')
      then error_toast_of (error (buy_order_loading st')) else [])"

text \<open>The invest page's \<open>isLoading$\<close>: \<open>selectDashboardData\<close> mapped to \<open>isLoading\<close>.\<close>

definition invest_is_loading :: "app_state \<Rightarrow> bool" where
  "invest_is_loading st = dash_is_loading (select_dashboard_data (select_stock_state st))"

subsection \<open>The pages' views\<close>

text \<open>\<open>StoreModule.forRoot({stocks: stockReducer})\<close> (\<open>app.module.ts\<close>): the
  application state holds the reducer's state under \<open>stocks\<close>.\<close>

definition sys_app_state :: "sys_state \<Rightarrow> app_state" where
  "sys_app_state s = \<lparr>app_stocks = store s\<rparr>"

text \<open>The observables the discover page's constructor selects.\<close>

record discover_view =
  dv_recently_searched :: "search_result list"
  dv_search_results :: "search_result list"
  dv_top_volume :: "stock_instrument list"
  dv_is_searching :: bool

definition discover_view :: "app_state \<Rightarrow> discover_view" where
  "discover_view st =
     \<lparr>dv_recently_searched = select_recent_searches st,
      dv_search_results = select_search_results st,
      dv_top_volume = select_top3_stocks_by_volume (select_stocks st),
      dv_is_searching = select_search_loading st\<rparr>"

text \<open>The observables the invest page's constructor selects.\<close>

record invest_view =
  inv_portfolio :: "portfolio option"
  inv_trending :: "stock_instrument list"
  inv_is_loading :: bool

definition invest_view :: "app_state \<Rightarrow> invest_view" where
  "invest_view st =
     \<lparr>inv_portfolio = select_portfolio st,
      inv_trending = select_trending_stocks (select_trending_stocks_list st) (select_stocks st),
      inv_is_loading = invest_is_loading st\<rparr>"

subsection \<open>Start-up and mounting\<close>

text \<open>The router activates the components of a URL in order; each tab page that is
  activated runs its \<open>ngOnInit\<close> (\<open>System.page_init\<close>).  The application starts
  at the empty URL with no page mounted.\<close>

definition activate :: "component list \<Rightarrow> sys_state \<Rightarrow> sys_state" where
  "activate cs s = foldl (\<lambda>s c. if c = Tabs_page then s else page_init True c s) s cs"

definition app_boot :: "(string \<Rightarrow> storage_value option) \<Rightarrow> sys_state" where
  "app_boot storage =
     (case navigate '''' of
        Activated cs \<Rightarrow> activate cs (sys_init storage 0)
      | _ \<Rightarrow> sys_init storage 0)"

text \<open>The toasts a page shows when it mounts: the error subscription's first emission.\<close>

definition mount_toasts :: "bool \<Rightarrow> component \<Rightarrow> sys_state \<Rightarrow> page_toast list" where
  "mount_toasts w c s = error_toast_of (error (buy_order_loading (store (dispatch_all w (page_loads c) s))))"

subsection \<open>Lemmas\<close>

text \<open>The system's page timers are the pages' reactions: each mounted page adds one
  timer exactly when its subscription sees the success flag turn true.\<close>

lemma dispatch_timers_reaction:
  "page_timers (dispatch w a s)
     = page_timers s + (if fst (page_store_reaction (store s) (stock_reducer (store s) a))
                        then live_pages s else 0)"
  by (simp add: page_store_reaction_def)

text \<open>A filled order, with the flag down, starts one clear per mounted page, besides the
  effect's own delayed clear.\<close>

lemma filled_order_clears:
  "\<not> buy_order_success (store s) \<Longrightarrow>
   page_timers (dispatch w (Place_order_success order) s) = page_timers s + live_pages s
   \<and> inflight (dispatch w (Place_order_success order) s) Ch_clear = Some Req_clear"
  by (simp add: place_order_success_r_def split: option.split)

text \<open>A failed order shows the error toast on every mounted page; the success toast of
  \<open>onOrderPlaced\<close> was shown already when the order was sent.\<close>

lemma failed_order_toast:
  "e \<noteq> [] \<Longrightarrow> error (buy_order_loading st) = None \<Longrightarrow>
   snd (page_store_reaction st (stock_reducer st (Place_order_failure e)))
     = [Error_toast (''Failed to place order: '' @ e)]"
  by (simp add: page_store_reaction_def error_toast_of_def)

lemma invest_spinner:
  "invest_is_loading st \<longleftrightarrow> select_portfolio_loading st \<or> select_trending_loading st"
  by (simp add: invest_is_loading_def select_dashboard_data_def select_portfolio_loading_def
      select_trending_loading_def)

lemma loads_keep_order_state:
  "buy_order_loading (store (dispatch_all w (page_loads c) s)) = buy_order_loading (store s)
   \<and> buy_order_success (store (dispatch_all w (page_loads c) s)) = buy_order_success (store s)"
  by (cases c) (simp_all add: dispatch_all_def load_discover_data_def load_dashboard_data_def)

lemma reachable_page_init: "reachable s \<Longrightarrow> c \<noteq> Tabs_page \<Longrightarrow> reachable (page_init w c s)"
  by (blast intro: reachable.step sys_step.mount)

lemma reachable_activate: "reachable s \<Longrightarrow> reachable (activate cs s)"
  by (induction cs arbitrary: s) (simp_all add: activate_def reachable_page_init)

text \<open>The application starts by mounting the invest page alone.\<close>

lemma app_boot_eq: "app_boot storage = page_init True Tab_invest_page (sys_init storage 0)"
  using navigate_tabs by (simp add: app_boot_def activate_def)

lemma reachable_app_boot: "reachable (app_boot storage)"
  unfolding app_boot_eq by (rule reachable_page_init [OF reachable.init]) simp

text \<open>The order endpoint always answers with success, so no completion is a failure of
  the order.\<close>

lemma resolve_not_order_failure: "resolve be rq \<noteq> Place_order_failure e"
  by (cases rq)
     (auto simp: load_portfolio_outcome_def load_trending_outcome_def load_stock_outcome_def
        search_outcome_def load_recent_outcome_def place_order_outcome_def effect_outcome_def
        place_order_s_def ok_response_def split: call_result.split)

lemma order_error_kept:
  "(\<And>e. a \<noteq> Place_order_failure e) \<Longrightarrow> error (buy_order_loading st) = None \<Longrightarrow>
   error (buy_order_loading (stock_reducer st a)) = None"
  by (cases a) (auto simp: place_order_success_r_def add_to_recent_searches_r_def split: option.split)

lemma ui_not_order_failure: "ui_action a \<Longrightarrow> a \<noteq> Place_order_failure e"
  by auto

lemma order_error_step:
  "sys_step s s' \<Longrightarrow> error (buy_order_loading (store s)) = None \<Longrightarrow>
   error (buy_order_loading (store s')) = None"
proof (induction rule: sys_step.induct)
  case (ui a s w)
  then show ?case by (simp add: order_error_kept ui_not_order_failure)
next
  case (deliver s c w be)
  then show ?case
    using order_error_kept [OF resolve_not_order_failure]
    by (auto simp: complete_def split: option.split)
next
  case (timer s w)
  then show ?case by (simp add: fire_timer_def)
next
  case (mount c s w)
  then show ?case using loads_keep_order_state [of w c s] by (simp add: page_init_def Let_def)
next
  case (unmount s)
  then show ?case by (simp add: page_destroy_def)
qed

lemma reachable_no_order_error: "reachable s \<Longrightarrow> error (buy_order_loading (store s)) = None"
  by (induction rule: reachable.induct)
     (simp_all add: sys_init_def initial_stock_state_def order_error_step)

subsection \<open>Properties of the pages in the running system\<close>

text \<open>In every reachable state of the running application, with pages mounted and
  destroyed in any order, the discover page's \<open>isSearching$\<close> is true exactly while a
  search request is in flight, and the invest page's \<open>isLoading$\<close> exactly while the
  portfolio or the trending request is in flight.\<close>

theorem views_track_requests:
  "reachable s \<Longrightarrow>
   dv_is_searching (discover_view (sys_app_state s)) = (inflight s Ch_search \<noteq> None)
   \<and> inv_is_loading (invest_view (sys_app_state s))
       = (inflight s Ch_portfolio \<noteq> None \<or> inflight s Ch_trending \<noteq> None)"
  using reachable_sys_inv [of s]
  by (simp add: sys_inv_def loading_tracks_def discover_view_def invest_view_def invest_spinner
      select_search_loading_def select_portfolio_loading_def select_trending_loading_def
      select_stock_state_def sys_app_state_def)

theorem views_track_requests_witness:
  "inv_is_loading (invest_view (sys_app_state (app_boot Map.empty)))
   \<and> \<not> dv_is_searching (discover_view (sys_app_state (app_boot Map.empty)))"
proof -
  have "inflight (app_boot Map.empty) Ch_portfolio = Some Req_portfolio"
    "inflight (app_boot Map.empty) Ch_search = None"
    by (simp_all add: app_boot_eq page_init_def dispatch_all_def load_dashboard_data_def sys_init_def)
  then show ?thesis using views_track_requests [OF reachable_app_boot [of Map.empty]] by simp
qed

text \<open>C21: No page of the running application ever shows the order-failure toast: in
  every step from a reachable state the \<open>selectBuyOrderError\<close> subscription of a mounted
  page emits no error, and a page mounted there shows none either, since the order
  endpoint always answers with success.\<close>

theorem no_order_error_toast:
  "reachable s \<Longrightarrow> sys_step s s' \<Longrightarrow>
   snd (page_store_reaction (store s) (store s')) = [] \<and> mount_toasts w c s = []"
proof -
  assume r: "reachable s" and st: "sys_step s s'"
  have "reachable s'" using r st by (rule reachable.step)
  then have "error (buy_order_loading (store s')) = None" by (rule reachable_no_order_error)
  moreover have "error (buy_order_loading (store s)) = None" using r by (rule reachable_no_order_error)
  ultimately show ?thesis
    by (simp add: page_store_reaction_def mount_toasts_def error_toast_of_def loads_keep_order_state)
qed

theorem no_order_error_toast_witness:
  "snd (page_store_reaction (store (app_boot Map.empty))
      (store (dispatch True (Place_order (complete_purchase (buy_order_form_init (plain_instrument ''AAPL'' ''Apple'' 190)))) (app_boot Map.empty)))) = []
   \<and> mount_toasts True Tab_discover_page (app_boot Map.empty) = []"
  using no_order_error_toast [OF reachable_app_boot sys_step.ui [of "Place_order (complete_purchase (buy_order_form_init (plain_instrument ''AAPL'' ''Apple'' 190)))"]]
  by simp

end
