(* ===== verification/Spec2Isabelle.thy ===== *)
theory Spec2Isabelle
  imports Selectors Service Routing System Pages Display Buy_Sheet Page_Subscriptions
begin

text \<open>
  \<^bold>\<open>A verification model of the stake-app state engine.\<close>

  The repository is an Angular/Ionic client (\<open>src/src/app\<close>) whose core is an NgRx
  store: a single immutable \<open>StockState\<close> (\<open>store/app.state.ts\<close>), actions
  (\<open>store/stock.actions.ts\<close>), a pure reducer (\<open>store/stock.reducer.ts\<close>),
  memoized selectors (\<open>store/stock.selectors.ts\<close>), effects that call the backend
  through \<open>shared/services/stock.service.ts\<close> and feed results back as actions
  (\<open>store/stock.effects.ts\<close>), and two pages that dispatch actions and debounce the
  search input (\<open>tab-discover/tab-discover.page.ts\<close>,
  \<open>tab-invest/tab-invest.page.ts\<close>).

  \<^bold>\<open>Library layout.\<close>
  \<^item> \<open>Prelude\<close>: JavaScript numbers as rationals (\<open>js_number\<close>), the array
    primitives (\<open>findIndex\<close> as \<open>js_find_index\<close> with its \<open>-1\<close>, \<open>splice\<close> as
    \<open>js_splice1\<close>), the \<open>m || d\<close> idiom (\<open>msg_or\<close>), the recency-list algorithm
    both the reducer and the service write (\<open>dedup_unshift_take\<close>) and its abstract
    specification (\<open>move_to_front\<close>, \<open>latest_first\<close>), with the refinement lemma
    between them.
  \<^item> \<open>Stock_Model\<close>: the interfaces of \<open>models/stock.model.ts\<close> and
    \<open>store/app.state.ts\<close> as records; \<open>initial_stock_state\<close>.
  \<^item> \<open>Actions\<close>: one constructor per \<open>createAction\<close>, and the action type strings.
  \<^item> \<open>Reducer\<close>: \<open>stock_reducer\<close>, one equation per \<open>on(...)\<close> handler;
    \<open>add_to_recent_searches_r\<close>, \<open>merge_holding\<close>, \<open>place_order_success_r\<close>
    for the two handlers with logic; the invariant \<open>wf_state\<close>.
  \<^item> \<open>Selectors\<close>: the selectors of \<open>store/stock.selectors.ts\<close> with logic
    (\<open>select_trending_stocks\<close>, \<open>select_top3_stocks_by_volume\<close>, the dashboard and
    search views) and every projection (\<open>select_portfolio\<close>, ...,
    \<open>select_buy_order_error\<close>); \<open>Array.prototype.sort\<close> as the stable insertion sort \<open>js_sort\<close>;
    \<open>createSelector\<close>'s memoization as an explicit cache (\<open>memo\<close>, \<open>memo_select\<close>)
    that counts the projector's runs.
  \<^item> \<open>Service_Format\<close>: the response mappings of \<open>shared/services/stock.service.ts\<close>
    (\<open>map_raw_stock\<close>, \<open>map_position\<close>, \<open>map_portfolio\<close>,
    \<open>map_search_stock\<close>), the change in percent with IEEE division by zero
    (\<open>js_num\<close>), \<open>toFixed(2)\<close> (\<open>js_to_fixed2\<close>) and the \<open>+\<close> prefix
    (\<open>format_change_percent\<close>), the search filter (\<open>search_matches\<close>) and the card
    colour of \<open>shared/components/stock-card.component.ts\<close> (\<open>get_change_color\<close>).
  \<^item> \<open>Service\<close>: the service state (its recent list and \<open>localStorage\<close>) as
    \<open>service_state\<close>, the stored entries as JSON values, the constructor
    (\<open>service_init\<close>, with the filter's exception as \<open>Inl\<close>), every endpoint as a
    function of the HTTP outcome, and \<open>add_to_recent_searches_s\<close> with its write.
  \<^item> \<open>Effects\<close>: \<open>store/stock.effects.ts\<close>: the request each action starts
    (\<open>effect_request\<close>), one \<open>switchMap\<close> channel per effect, the mapping of an answer
    to an action with its default messages (\<open>effect_outcome\<close>, \<open>resolve\<close>), and the
    tap into the service (\<open>effect_service\<close>).
  \<^item> \<open>Buy_Order\<close>: \<open>shared/components/buy-order.component.ts\<close>: the amount/shares
    pair converted with \<open>Math.round\<close> to hundredths (\<open>js_round\<close>,
    \<open>calculate_shares\<close>, \<open>calculate_amount\<close>), the input handlers, the order emitted
    (\<open>complete_purchase\<close>) and the swipe decision (\<open>on_swipe_end\<close>);
    \<open>Buy_Sheet\<close>: the sheet's lifecycle (\<open>ngOnChanges\<close>, \<open>ngAfterViewInit\<close>,
    \<open>open\<close>, \<open>close\<close>, the gesture callbacks) with its timers, as \<open>sheet_step\<close>.
  \<^item> \<open>System\<close>: store, effects, service and the pages' \<open>clearBuyOrder\<close> timers as one
    state (\<open>sys_state\<close>); \<open>dispatch\<close> runs the reducer and then the effects;
    \<open>sys_step\<close> is an \<open>inductive\<close> step relation (a page action, a request completing
    with any backend answer, a timer firing, a tab page mounted by its \<open>ngOnInit\<close>
    (\<open>page_init\<close>) or destroyed by \<open>ngOnDestroy\<close> (\<open>page_destroy\<close>)) and
    \<open>reachable\<close> its closure from start.
  \<^item> \<open>Pages\<close>: \<open>tab-discover/tab-discover.page.ts\<close> with its handlers and the search
    pipeline \<open>debounceTime(300)\<close> + \<open>distinctUntilChanged\<close> over timed events
    (\<open>debounce_flush\<close>, \<open>page_step\<close>, \<open>page_run\<close>), and
    \<open>tab-invest/tab-invest.page.ts\<close> (\<open>load_dashboard_data\<close>, \<open>invest_handle\<close>).
  \<^item> \<open>Display\<close>: the getters and outputs of the stock card, the instrument row and the
    instrument-type badge.
  \<^item> \<open>Page_Subscriptions\<close>: what both pages do with the store: the
    \<open>selectBuyOrderSuccess\<close> and \<open>selectBuyOrderError\<close> subscriptions of
    \<open>ngOnInit\<close> (\<open>page_store_reaction\<close>), the success toast of \<open>onOrderPlaced\<close>
    and the invest page's spinner (\<open>invest_is_loading\<close>); the timers the reaction
    starts are those \<open>System\<close> counts per mounted page; the constructors' observables
    (\<open>discover_view\<close>, \<open>invest_view\<close>) over the application state
    \<open>sys_app_state\<close> that \<open>StoreModule.forRoot({stocks: stockReducer})\<close> of
    \<open>app.module.ts\<close> builds; start-up (\<open>app_boot\<close>): the router's components
    for the empty URL, each tab page running its \<open>ngOnInit\<close>.
  \<^item> \<open>Routing\<close>: the route tables of \<open>tabs/tabs-routing.module.ts\<close> and the two
    tab routing modules as data (\<open>tabs_routes\<close>, \<open>tab_invest_routes\<close>,
    \<open>tab_discover_routes\<close>), read by a model of the Angular router's matching
    (\<open>recognize\<close>, \<open>navigate\<close>) with one unit of fuel per redirect.

  \<^bold>\<open>What is proved.\<close>
  Reducer (C1--C8): the portfolio update on a filled order, for an existing and a new
  holding, with the exact shares, value and total equity; the recency list after any
  sequence of additions is the five latest distinct symbols, most recent first, and
  each addition refines the abstract move-to-front; the invariant \<open>wf_state\<close> is kept
  by every action with a well-formed payload; every action but a filled order is
  idempotent; a failure action touches no data slice; no action ever sets
  \<open>pendingBuyOrder\<close>.
  Selectors (C9, C10, C12, C13): the top three equals a stable sort by descending volume
  cut to three and returns no stock with less volume than one left out (lemmas give its
  length and order, and that a memoized call returns the projector's value); the
  trending join keeps the trending order and drops unknown symbols; after any action
  other than a stocks load, the memoized top three is not recomputed.
  Routing (C11): for every list of path segments, the empty path, \<open>tabs\<close> and
  \<open>tabs/tab-invest\<close> show the invest tab, \<open>tabs/tab-discover\<close> the discover tab,
  every other path has no matching route, and one redirect of fuel always suffices.
  Service (C14--C20): the \<open>+\<close> prefix appears exactly for positive values, so the
  card is green exactly for a quote that rose, and a flat quote shows \<open>0.00%\<close> in the
  loss colour; what an addition writes, a new service reads back; one \<open>null\<close> entry
  empties the loaded cache, and the load keeps any number of valid entries; a blank
  query never reaches the backend.  Lemmas: the model of \<open>toFixed(2)\<close> is exact to
  half a cent, search ignores the query's case, \<open>JSON.stringify\<close> of an instrument
  reads back as the instrument, and the constructor's check accepts entries that lack
  fields of the type (\<open>untyped_entry_loaded\<close>).
  Pages in the system (C21): no step and no mount ever shows the order-failure toast,
  since \<open>placeOrder\<close> always succeeds (an invariant by rule induction).  A lemma shows
  that the pages' spinners track their requests in flight.
  Across components (C22): the reducer's list and the service's list stay in step
  under additions (\<open>dedup_unshift_take_map\<close> of \<open>Prelude\<close> carries the proof).
  Buy sheet (C23--C25): the emitted order's total and shares times price agree to
  price / 200 after an amount input and to half a cent after a shares input; amount and
  shares stay non-negative under every input sequence.  Lemmas of \<open>Buy_Order\<close> and
  \<open>Buy_Sheet\<close> show that a swipe buys exactly past 150 px and 80 percent of the
  track, that an order is emitted only by such a swipe once the gesture is set up, and
  that a second swipe during the 300 ms close emits a second order.
  Effects (C26): every failure action carries a non-empty message (a lemma shows the
  recent load never fails).
  System (C27): running the pending requests and timers one at a time (\<open>drain\<close>)
  terminates within \<open>sys_weight\<close> steps of fuel, in a quiescent state reached by
  system steps; the fuel is enough since each step lowers the weight by at least one.
  System (C28--C32), with pages mounted and destroyed at any point: in every reachable
  state each loading flag is up exactly while its request is in flight (rule induction
  over \<open>reachable\<close>); from every reachable state the system can settle with nothing
  loading (a weight that every completion and timer lowers, \<open>sys_weight\<close>); and three
  races: from any state, a clear leaves a search in flight whose results then show under
  the emptied query; a recent-search load started before an addition sets the store's
  list to the snapshot from before the addition; a delayed clear can mark a later order
  in flight as not loading.
  Pages (C33--C35): every search the discover page dispatches is trimmed and non-blank;
  a burst of input under 300 ms apart searches once, for its last value; after such a
  burst has been searched, cancelling and retyping its last value searches nothing
  (and, as a lemma, a value typed and deleted within 300 ms is still searched after the
  clear).
  Lemmas of \<open>Page_Subscriptions\<close>: each mounted page starts one \<open>clearBuyOrder\<close>
  timer exactly when its subscription sees the success flag rise, so a filled order
  schedules one clear per mounted page besides the effect's; were an order to fail, the
  error toast would follow the success toast of \<open>onOrderPlaced\<close>.
  Across components (C36): equity grows by the amount typed while the new holding is
  valued at shares times price, a drift of up to price / 200 per order.

  \<^bold>\<open>Modelling choices.\<close>
  JavaScript numbers are IEEE doubles; the model uses exact rationals, so floating-point
  rounding is not modelled (the explicit roundings, \<open>Math.round\<close> and
  \<open>toFixed(2)\<close>, are; the claims about arithmetic hold for exact values); division by
  zero gives the IEEE infinities and NaN.  \<open>toFixed(2)\<close> rounds half away from zero on
  the exact value and prints digits where JavaScript switches to exponent notation
  (from \<open>10^21\<close> on, far beyond a percentage).  \<open>trim\<close> strips the ASCII white space
  (\<open>js_trim\<close>), not the other Unicode spaces JavaScript strips.  Fields missing from a
  stored entry read as \<open>''\<close> or \<open>0\<close> where JavaScript gives \<open>undefined\<close>
  (\<open>json_to_stock\<close>).  \<open>createSelector\<close>'s cache compares arguments by value where
  NgRx compares references; the reducer's spreads keep the references of the slices
  they do not touch, so the two agree on the runs the claims consider.  Record fields
  that two interfaces share are prefixed.  Rendering, animation, gestures, the toast
  widget, console output, response timestamps and the HTTP transport are not modelled;
  an endpoint takes the HTTP outcome as an argument.  The pages' user input is
  over-approximated in \<open>sys_step\<close>: a page may dispatch any of its actions in any
  state, which makes the reachability invariants stronger, and the race properties are
  stated for every state rather than as reachable examples.

  Time is abstracted: a request may complete at any later step and a page timer may
  fire at any step after it starts, which includes every real timing; the pages'
  debounce is the one place where milliseconds are counted (\<open>debounce_ms\<close>), since
  its behaviour depends on them.

  \<^bold>\<open>Not modelled.\<close>  Of the Angular modules, everything but the store and effects
  registration of \<open>app.module.ts\<close> (declarations, imports, the route-reuse strategy,
  \<open>StoreDevtoolsModule\<close>, \<open>shared.module.ts\<close> and the tab modules): dependency
  injection configuration with no behaviour; the root \<open>AppRoutingModule\<close>, which is
  not in the repository (the tabs table is taken as the root table); the router's URL parser
  beyond cutting the path at the query string and fragment (claims about the router are
  stated over path segments), and the router itself beyond the matching the tables use (no guards, resolvers, outlets or relative
  redirects occur in them); the animations, gestures and
  DOM updates of the buy sheet beyond what its code tests, the components' templates and
  styles, and how a toast is drawn (its text is modelled); the
  component tests, which check rendering only.
\<close>

subsection \<open>Properties across components\<close>

text \<open>C22: The reducer's recent searches and the service's persisted list move in lockstep:
  when the service list holds the JSON form of the reducer's entries, an addition of the same
  stock to both keeps it so, whether the storage write succeeds or not.\<close>

theorem recent_sync_step:
  "svc_recent st = map (stock_to_json \<circ> sr_stock) (recent_searches s) \<Longrightarrow>
   svc_recent (add_to_recent_searches_s w st stock)
     = map (stock_to_json \<circ> sr_stock) (recent_searches (add_to_recent_searches_r s stock))"
  by (simp add: add_to_recent_searches_s_def add_to_recent_searches_r_def Let_def
      dedup_unshift_take_map [where key' = "\<lambda>j. json_get j ''symbol''"] json_symbol_stock_to_json)
theorem recent_sync_step_witness:
  "svc_recent (add_to_recent_searches_s True (service_init Map.empty) (plain_instrument ''AAPL'' ''Apple'' 190))
     = map (stock_to_json \<circ> sr_stock)
         (recent_searches (add_to_recent_searches_r initial_stock_state (plain_instrument ''AAPL'' ''Apple'' 190)))"
  using recent_sync_step [of "service_init Map.empty" initial_stock_state True "plain_instrument ''AAPL'' ''Apple'' 190"]
  by (simp add: service_init_def load_cached_recent_def initial_stock_state_def)
text \<open>C36: The order the buy sheet emits after an amount is typed moves the portfolio's
  total equity by the amount typed but values the new holding at shares times price:
  the two differ by up to price / 200 for every such order.\<close>

theorem equity_drift_bound:
  assumes "0 < price (bo_stock f)" "portfolio st = Some p"
    "\<forall>h \<in> set (holdings p). holding_symbol h \<noteq> symbol (bo_stock f)"
  shows "\<bar>total_equity (the (portfolio (stock_reducer st (Place_order_success (complete_purchase (on_amount_change f a))))))
           - total_equity p
           - current_value (last (holdings (the (portfolio (stock_reducer st (Place_order_success (complete_purchase (on_amount_change f a))))))))\<bar>
         \<le> price (bo_stock f) / 200"
proof -
  let ?g = "f\<lparr>amount := (if a < 0 then 0 else a)\<rparr>"
  let ?o = "complete_purchase (on_amount_change f a)"
  have o: "order_stock ?o = bo_stock f" "estimated_total ?o = amount ?g"
    "order_shares ?o = bo_shares (calculate_shares ?g)"
    by (simp_all add: complete_purchase_def on_amount_change_unfold calculate_shares_keeps)
  have b: "\<bar>bo_shares (calculate_shares ?g) * price (bo_stock f) - amount ?g\<bar> \<le> price (bo_stock f) / 200"
    using calculate_shares_bound [of ?g] assms(1) by simp
  have "merge_holding (holdings p) ?o = holdings p @ [\<lparr>holding_stock = order_stock ?o,
     holding_shares = order_shares ?o, current_value = order_shares ?o * price (order_stock ?o)\<rparr>]"
    using assms(3) o(1) by (intro merge_holding_new) simp
  then have "total_equity (the (portfolio (stock_reducer st (Place_order_success ?o)))) - total_equity p
      - current_value (last (holdings (the (portfolio (stock_reducer st (Place_order_success ?o))))))
      = amount ?g - bo_shares (calculate_shares ?g) * price (bo_stock f)"
    using assms(2) o by (simp add: place_order_success_r_def)
  with b show ?thesis by (simp add: abs_minus_commute)
qed

theorem equity_drift_bound_witness:
  "total_equity (the (portfolio (stock_reducer (initial_stock_state\<lparr>portfolio := Some \<lparr>total_equity = 0, holdings = []\<rparr>\<rparr>)
      (Place_order_success (complete_purchase (on_amount_change (buy_order_form_init (plain_instrument ''AAPL'' ''Apple'' 190)) 500)))))) = 500
   \<and> current_value (last (holdings (the (portfolio (stock_reducer (initial_stock_state\<lparr>portfolio := Some \<lparr>total_equity = 0, holdings = []\<rparr>\<rparr>)
      (Place_order_success (complete_purchase (on_amount_change (buy_order_form_init (plain_instrument ''AAPL'' ''Apple'' 190)) 500)))))))) = 49970 / 100"
proof -
  have "\<bar>total_equity (the (portfolio (stock_reducer (initial_stock_state\<lparr>portfolio := Some \<lparr>total_equity = 0, holdings = []\<rparr>\<rparr>)
      (Place_order_success (complete_purchase (on_amount_change (buy_order_form_init (plain_instrument ''AAPL'' ''Apple'' 190)) 500))))))
      - 0 - current_value (last (holdings (the (portfolio (stock_reducer (initial_stock_state\<lparr>portfolio := Some \<lparr>total_equity = 0, holdings = []\<rparr>\<rparr>)
      (Place_order_success (complete_purchase (on_amount_change (buy_order_form_init (plain_instrument ''AAPL'' ''Apple'' 190)) 500))))))))\<bar>
      \<le> 190 / 200"
    using equity_drift_bound [of "buy_order_form_init (plain_instrument ''AAPL'' ''Apple'' 190)"
        "initial_stock_state\<lparr>portfolio := Some \<lparr>total_equity = 0, holdings = []\<rparr>\<rparr>"
        "\<lparr>total_equity = 0, holdings = []\<rparr>" 500]
    by (simp add: buy_order_form_init_def plain_instrument_def)
  then show ?thesis
    by (simp add: buy_order_form_init_def plain_instrument_def place_order_success_r_def merge_holding_def
        complete_purchase_def on_amount_change_def calculate_shares_def js_round_def)
qed
end
